(* ===== verification/Transition_Runs.thy ===== *)
theory Transition_Runs
  imports Main
begin

text \<open>
  Runs of a labelled transition system, and the two ways the properties argue about them: an
  invariant of the states, and a relation between the first state, the labels of the steps since
  and the last state, established step by step. Both are locales that the router's steps interpret.
\<close>

inductive steps :: "('s \<Rightarrow> 'l \<Rightarrow> 's \<Rightarrow> bool) \<Rightarrow> 's \<Rightarrow> 'l list \<Rightarrow> 's \<Rightarrow> bool" for sys where
  steps_nil: "steps sys s [] s"
| steps_snoc: "steps sys s ls s' \<Longrightarrow> sys s' l s'' \<Longrightarrow> steps sys s (ls @ [l]) s''"

lemma steps_one: "sys s l s' \<Longrightarrow> steps sys s [l] s'"
  using steps_snoc [OF steps_nil, of sys s l s'] by simp

lemma steps_append: "steps sys s' ls' s'' \<Longrightarrow> steps sys s ls s' \<Longrightarrow> steps sys s (ls @ ls') s''"
proof (induction rule: steps.induct)
  case (steps_snoc s1 ls1 s2 l s3)
  then show ?case using steps.steps_snoc [of sys s "ls @ ls1" s2 l s3] by simp
qed simp

locale invariant_system =
  fixes sys :: "'s \<Rightarrow> 'l \<Rightarrow> 's \<Rightarrow> bool"
    and inv :: "'s \<Rightarrow> bool"
  assumes step_inv: "inv s \<Longrightarrow> sys s l s' \<Longrightarrow> inv s'"
begin

lemma steps_inv: "steps sys s ls s' \<Longrightarrow> inv s \<Longrightarrow> inv s'"
  by (induction rule: steps.induct) (auto intro: step_inv)

end

locale history_system = invariant_system sys inv
  for sys :: "'s \<Rightarrow> 'l \<Rightarrow> 's \<Rightarrow> bool" and inv +
  fixes hist :: "'s \<Rightarrow> 'l list \<Rightarrow> 's \<Rightarrow> bool"
  assumes hist_nil: "hist s [] s"
    and hist_snoc: "inv s' \<Longrightarrow> hist s ls s' \<Longrightarrow> sys s' l s'' \<Longrightarrow> hist s (ls @ [l]) s''"
begin

lemma steps_hist: "steps sys s ls s' \<Longrightarrow> inv s \<Longrightarrow> hist s ls s'"
proof (induction rule: steps.induct)
  case (steps_snoc s ls s' l s'')
  then show ?case using steps_inv hist_snoc by blast
qed (rule hist_nil)

end

end
