(* ===== verification/Prelude.thy ===== *)
theory Prelude
  imports Main "HOL-Library.Word" "HOL-Library.Signed_Division"
begin

text \<open>
  Shared vocabulary of the development: the machine integers the Rust code uses, the
  standard library's checked, saturating and truncating operations on them, and the
  \<open>Result\<close> combinators (\<open>require!\<close>, \<open>ok_or(..)?\<close> and the \<open>?\<close> operator) in
  continuation style. Three collections carry the component proofs:
  \<open>result_simps\<close> inverts a computation that returned \<open>Inr\<close>, \<open>checked_simps\<close> turns a
  checked operation into a statement about \<open>unat\<close> or \<open>sint\<close>, and \<open>model_defs\<close> collects
  the small definitions a proof usually unfolds.
\<close>

named_theorems result_simps
named_theorems checked_simps
named_theorems model_defs

section \<open>Machine integers\<close>

type_synonym u8 = "8 word"
type_synonym u16 = "16 word"
type_synonym u64 = "64 word"
type_synonym u128 = "128 word"

text \<open>An \<open>i64\<close> is the same 64 bits, read with \<^const>\<open>sint\<close>.\<close>

type_synonym i64 = "64 word"

text \<open>A Solana public key is 32 bytes, here the 256-bit number they spell (big endian), so
  \<open>Pubkey::default()\<close> is \<open>0\<close>.\<close>

type_synonym pubkey = "256 word"

section \<open>Checked operations\<close>

text \<open>The word that represents a number, if it fits: unsigned and two's complement.\<close>

definition fit_u :: "nat \<Rightarrow> 'a::len word option" where
  "fit_u n = (if n < 2 ^ LENGTH('a) then Some (word_of_nat n) else None)"

definition fit_s :: "int \<Rightarrow> 'a::len word option" where
  "fit_s z = (if - (2 ^ (LENGTH('a) - 1)) \<le> z \<and> z < 2 ^ (LENGTH('a) - 1)
              then Some (word_of_int z) else None)"

lemma fit_u_Some [checked_simps]: "fit_u n = Some w \<longleftrightarrow> unat (w :: 'a::len word) = n"
  by (auto simp: fit_u_def unsigned_of_nat take_bit_nat_eq_self)

lemma unat_word_of_nat_fits: "n < 2 ^ LENGTH('a) \<Longrightarrow> unat (word_of_nat n :: 'a::len word) = n"
  by (simp add: unsigned_of_nat take_bit_nat_eq_self)

lemma fit_u_fits: "n < 2 ^ LENGTH('a) \<Longrightarrow> fit_u n = Some (word_of_nat n :: 'a::len word)"
  by (simp add: fit_u_def)

lemma unat_bound: "unat (x :: 'a::len word) < 2 ^ LENGTH('a)"
  by (rule unsigned_less)

lemma fit_u_None [checked_simps]: "(fit_u n :: 'a::len word option) = None \<longleftrightarrow> 2 ^ LENGTH('a) \<le> n"
  by (simp add: fit_u_def not_less)

lemma sint_of_int_fits:
  assumes "- (2 ^ (LENGTH('a) - 1)) \<le> z" "z < 2 ^ (LENGTH('a) - 1)"
  shows "sint (word_of_int z :: 'a::len word) = z"
  using assms by (simp add: signed_of_int signed_take_bit_int_eq_self)

lemma fit_s_Some [checked_simps]: "fit_s z = Some w \<longleftrightarrow> sint (w :: 'a::len word) = z"
proof
  assume "fit_s z = Some w"
  then show "sint w = z"
    by (auto simp: fit_s_def sint_of_int_fits split: if_splits)
next
  assume "sint w = z"
  then show "fit_s z = Some w"
    using sint_lt [of w] sint_ge [of w] by (auto simp: fit_s_def)
qed

lemma fit_s_None [checked_simps]:
  "(fit_s z :: 'a::len word option) = None
    \<longleftrightarrow> z < - (2 ^ (LENGTH('a) - 1)) \<or> 2 ^ (LENGTH('a) - 1) \<le> z"
  by (auto simp: fit_s_def)

text \<open>\<open>as\<close> casts between unsigned widths: \<^const>\<open>ucast\<close> keeps the low bits.\<close>

lemma unat_ucast_mod: "unat (ucast (x :: 'a::len word) :: 'b::len word) = unat x mod 2 ^ LENGTH('b)"
  by (simp add: unsigned_ucast_eq unsigned_take_bit_eq take_bit_eq_mod)

lemma unat_ucast_widen:
  "LENGTH('a) \<le> LENGTH('b) \<Longrightarrow> unat (ucast (x :: 'a::len word) :: 'b::len word) = unat x"
  unfolding unat_ucast_mod
  by (rule mod_less) (rule order.strict_trans2 [OF unsigned_less], simp)

lemma unat_u64_u128 [simp]: "unat (ucast (x :: u64) :: u128) = unat x"
  by (rule unat_ucast_widen) simp

lemma unat_u16_u128 [simp]: "unat (ucast (x :: u16) :: u128) = unat x"
  by (rule unat_ucast_widen) simp

lemma ucast_u64_u128_0 [simp]: "(ucast (x :: u64) :: u128) = 0 \<longleftrightarrow> x = 0"
  using unat_u64_u128 [of x] by (auto simp: word_unat_eq_iff simp del: unat_u64_u128)

lemma unat_u128_u64: "unat (ucast (x :: u128) :: u64) = unat x mod 2 ^ 64"
  by (simp add: unat_ucast_mod)

text \<open>Unsigned: \<open>checked_add\<close>, \<open>checked_sub\<close>, \<open>checked_mul\<close>, \<open>checked_div\<close>, \<open>checked_pow\<close>.\<close>

definition checked_add :: "'a::len word \<Rightarrow> 'a word \<Rightarrow> 'a word option" where
  "checked_add a b = fit_u (unat a + unat b)"

definition checked_sub :: "'a::len word \<Rightarrow> 'a word \<Rightarrow> 'a word option" where
  "checked_sub a b = (if b \<le> a then Some (a - b) else None)"

definition checked_mul :: "'a::len word \<Rightarrow> 'a word \<Rightarrow> 'a word option" where
  "checked_mul a b = fit_u (unat a * unat b)"

definition checked_div :: "'a::len word \<Rightarrow> 'a word \<Rightarrow> 'a word option" where
  "checked_div a b = (if b = 0 then None else Some (a div b))"

definition checked_pow :: "'a::len word \<Rightarrow> nat \<Rightarrow> 'a word option" where
  "checked_pow a n = fit_u (unat a ^ n)"

lemma checked_add_Some [checked_simps]:
  "checked_add a b = Some c \<longleftrightarrow> unat c = unat a + unat b"
  by (simp add: checked_add_def checked_simps)

lemma checked_add_None [checked_simps]:
  "checked_add a b = None \<longleftrightarrow> 2 ^ LENGTH('a) \<le> unat a + unat (b :: 'a::len word)"
  by (simp add: checked_add_def checked_simps)

lemma checked_mul_Some [checked_simps]:
  "checked_mul a b = Some c \<longleftrightarrow> unat c = unat a * unat b"
  by (simp add: checked_mul_def checked_simps)

lemma checked_mul_None [checked_simps]:
  "checked_mul a b = None \<longleftrightarrow> 2 ^ LENGTH('a) \<le> unat a * unat (b :: 'a::len word)"
  by (simp add: checked_mul_def checked_simps)

lemma checked_pow_Some [checked_simps]:
  "checked_pow a n = Some c \<longleftrightarrow> unat c = unat a ^ n"
  by (simp add: checked_pow_def checked_simps)

lemma checked_pow_None [checked_simps]:
  "checked_pow a n = None \<longleftrightarrow> 2 ^ LENGTH('a) \<le> unat (a :: 'a::len word) ^ n"
  by (simp add: checked_pow_def checked_simps)

lemma checked_sub_Some [checked_simps]:
  "checked_sub a b = Some c \<longleftrightarrow> unat a = unat b + unat c"
proof -
  have *: "c = a - b \<longleftrightarrow> unat a = unat b + unat c" if "b \<le> a"
  proof -
    have "unat (a - b) = unat a - unat b" "unat b \<le> unat a"
      using that by (simp_all add: unat_sub word_le_nat_alt)
    then show ?thesis
      by (metis add_diff_inverse_nat diff_add_inverse not_less word_unat_eq_iff)
  qed
  have "b \<le> a" if "unat a = unat b + unat c"
    using that by (simp add: word_le_nat_alt)
  with * show ?thesis by (auto simp: checked_sub_def)
qed

lemma checked_sub_None [checked_simps]:
  "checked_sub a b = None \<longleftrightarrow> unat a < unat b"
  by (auto simp: checked_sub_def word_le_nat_alt)

lemma checked_div_Some [checked_simps]:
  "checked_div a b = Some c \<longleftrightarrow> b \<noteq> 0 \<and> unat c = unat a div unat b"
  by (auto simp: checked_div_def word_unat_eq_iff unat_div)

lemma checked_div_None [checked_simps]:
  "checked_div a b = None \<longleftrightarrow> b = 0"
  by (simp add: checked_div_def)

text \<open>For evaluation the sums and products are computed on binary integers.\<close>

lemma checked_add_code [code]:
  "checked_add a b = (if uint a + uint b < 2 ^ LENGTH('a) then Some (a + b) else None)"
  for a b :: "'a::len word"
proof -
  have "uint a + uint b = int (unat a + unat b)" by simp
  then have "unat a + unat b < 2 ^ LENGTH('a) \<longleftrightarrow> uint a + uint b < 2 ^ LENGTH('a)"
    by (simp only: of_nat_less_numeral_power_cancel_iff)
  then show ?thesis by (simp add: checked_add_def fit_u_def)
qed

lemma checked_mul_code [code]:
  "checked_mul a b = (if uint a * uint b < 2 ^ LENGTH('a) then Some (a * b) else None)"
  for a b :: "'a::len word"
proof -
  have "uint a * uint b = int (unat a * unat b)" by simp
  then have "unat a * unat b < 2 ^ LENGTH('a) \<longleftrightarrow> uint a * uint b < 2 ^ LENGTH('a)"
    by (simp only: of_nat_less_numeral_power_cancel_iff)
  then show ?thesis by (simp add: checked_mul_def fit_u_def)
qed

lemma checked_pow_code [code]:
  "checked_pow a n = (if uint a ^ n < 2 ^ LENGTH('a) then Some (a ^ n) else None)"
  for a :: "'a::len word"
proof -
  have "uint a ^ n = int (unat a ^ n)" by simp
  then have "unat a ^ n < 2 ^ LENGTH('a) \<longleftrightarrow> uint a ^ n < 2 ^ LENGTH('a)"
    by (simp only: of_nat_less_numeral_power_cancel_iff)
  then show ?thesis by (simp add: checked_pow_def fit_u_def)
qed

text \<open>Each of them returns when the exact result fits.\<close>

lemma fit_u_ok: "n < 2 ^ LENGTH('a) \<Longrightarrow> \<exists>c. fit_u n = Some (c :: 'a::len word) \<and> unat c = n"
  by (cases "fit_u n :: 'a word option") (auto simp: checked_simps)

lemma checked_mul_ok:
  "unat a * unat b < 2 ^ LENGTH('a) \<Longrightarrow>
     \<exists>c. checked_mul a b = Some (c :: 'a::len word) \<and> unat c = unat a * unat b"
  unfolding checked_mul_def by (rule fit_u_ok)

lemma checked_pow_ok:
  "unat a ^ n < 2 ^ LENGTH('a) \<Longrightarrow>
     \<exists>c. checked_pow a n = Some (c :: 'a::len word) \<and> unat c = unat a ^ n"
  unfolding checked_pow_def by (rule fit_u_ok)

lemma checked_div_ok:
  "b \<noteq> 0 \<Longrightarrow> \<exists>c. checked_div a b = Some c \<and> unat c = unat a div unat b"
  by (auto simp: checked_div_def unat_div)

lemma checked_sub_ok:
  "unat b \<le> unat a \<Longrightarrow> \<exists>c. checked_sub a b = Some c \<and> unat c = unat a - unat b"
  by (auto simp: checked_sub_def word_le_nat_alt unat_sub)

text \<open>Signed: \<open>checked_*\<close> and \<open>saturating_*\<close> on \<open>i64\<close>. Division truncates towards zero, and
  fails on a zero divisor and on \<open>MIN / -1\<close>.\<close>

definition i64_checked_add :: "i64 \<Rightarrow> i64 \<Rightarrow> i64 option" where
  "i64_checked_add a b = fit_s (sint a + sint b)"

definition i64_checked_sub :: "i64 \<Rightarrow> i64 \<Rightarrow> i64 option" where
  "i64_checked_sub a b = fit_s (sint a - sint b)"

definition i64_checked_mul :: "i64 \<Rightarrow> i64 \<Rightarrow> i64 option" where
  "i64_checked_mul a b = fit_s (sint a * sint b)"

definition i64_checked_div :: "i64 \<Rightarrow> i64 \<Rightarrow> i64 option" where
  "i64_checked_div a b = (if b = 0 then None else fit_s (sint a sdiv sint b))"

definition i64_max :: int where "i64_max = 2 ^ 63 - 1"
definition i64_min :: int where "i64_min = - (2 ^ 63)"

definition clamp_i64 :: "int \<Rightarrow> int" where
  "clamp_i64 z = max i64_min (min i64_max z)"

definition i64_saturating_add :: "i64 \<Rightarrow> i64 \<Rightarrow> i64" where
  "i64_saturating_add a b = word_of_int (clamp_i64 (sint a + sint b))"

definition i64_saturating_sub :: "i64 \<Rightarrow> i64 \<Rightarrow> i64" where
  "i64_saturating_sub a b = word_of_int (clamp_i64 (sint a - sint b))"

lemma i64_checked_add_Some [checked_simps]:
  "i64_checked_add a b = Some c \<longleftrightarrow> sint c = sint a + sint b"
  by (simp add: i64_checked_add_def checked_simps)

lemma i64_checked_sub_Some [checked_simps]:
  "i64_checked_sub a b = Some c \<longleftrightarrow> sint c = sint a - sint b"
  by (simp add: i64_checked_sub_def checked_simps)

lemma i64_checked_mul_Some [checked_simps]:
  "i64_checked_mul a b = Some c \<longleftrightarrow> sint c = sint a * sint b"
  by (simp add: i64_checked_mul_def checked_simps)

lemma i64_checked_div_Some [checked_simps]:
  "i64_checked_div a b = Some c \<longleftrightarrow> b \<noteq> 0 \<and> sint c = sint a sdiv sint b"
  by (simp add: i64_checked_div_def checked_simps)

lemma fit_i64_ok: "i64_min \<le> z \<Longrightarrow> z \<le> i64_max \<Longrightarrow> \<exists>c. fit_s z = Some (c :: i64) \<and> sint c = z"
  by (cases "fit_s z :: i64 option") (auto simp: checked_simps i64_min_def i64_max_def)

lemma i64_range: "i64_min \<le> sint (a :: i64)" "sint (a :: i64) \<le> i64_max"
  using sint_lt [of a] sint_ge [of a] by (simp_all add: i64_min_def i64_max_def)

lemma sint_clamp: "sint (word_of_int (clamp_i64 z) :: i64) = clamp_i64 z"
  by (rule sint_of_int_fits) (auto simp: clamp_i64_def i64_min_def i64_max_def)

lemma sint_saturating_add [simp]:
  "sint (i64_saturating_add a b) = clamp_i64 (sint a + sint b)"
  by (simp add: i64_saturating_add_def sint_clamp)

lemma sint_saturating_sub [simp]:
  "sint (i64_saturating_sub a b) = clamp_i64 (sint a - sint b)"
  by (simp add: i64_saturating_sub_def sint_clamp)

text \<open>\<open>as u128\<close> of an \<open>i64\<close> that is not negative.\<close>

lemma unat_scast_nonneg: "0 \<le> sint (n :: i64) \<Longrightarrow> unat (scast n :: u128) = nat (sint n)"
proof -
  assume "0 \<le> sint n"
  moreover have "sint n < 2 ^ 63" using sint_lt [of n] by simp
  ultimately have "take_bit 128 (sint n) = sint n" by (simp add: take_bit_int_eq_self)
  then have "uint (scast n :: u128) = sint n" by transfer (simp add: take_bit_signed_take_bit)
  then show ?thesis by (metis nat_uint_eq)
qed

text \<open>Truncating division is Euclidean division when both sides are non-negative.\<close>

lemma sdiv_nonneg: "0 \<le> (a :: int) \<Longrightarrow> 0 < b \<Longrightarrow> a sdiv b = a div b"
  by (cases "a = 0") (simp_all add: signed_divide_int_def)

lemma sdiv_neg: "(a :: int) \<le> 0 \<Longrightarrow> 0 < b \<Longrightarrow> a sdiv b \<le> 0"
  by (auto simp: signed_divide_int_def sgn_if pos_imp_zdiv_nonneg_iff)

lemma abs_sdiv_pos:
  assumes "0 < (b :: int)"
  shows "\<bar>a sdiv b\<bar> = \<bar>a\<bar> div b"
proof -
  have "0 \<le> \<bar>a\<bar> div b" using assms by (simp add: pos_imp_zdiv_nonneg_iff)
  then show ?thesis
    using assms by (cases "a = 0") (simp_all add: signed_divide_int_def abs_mult abs_sgn_eq)
qed

lemma max_1_sdiv: "0 < (b :: int) \<Longrightarrow> max 1 (a sdiv b) = max 1 (a div b)"
proof (cases "0 \<le> a")
  case False
  assume "0 < b"
  with False have "a sdiv b \<le> 0" "a div b < 0"
    by (simp_all add: sdiv_neg pos_imp_zdiv_neg_iff)
  then show ?thesis by simp
qed (simp add: sdiv_nonneg)

lemma le_zdiv_of_mult_le: "0 < (p :: int) \<Longrightarrow> q * p \<le> a \<Longrightarrow> q \<le> a div p"
  using zdiv_mono1 [of "q * p" a p] by simp

lemma zdiv_less_of_less_mult: "0 < (p :: int) \<Longrightarrow> a < q * p \<Longrightarrow> a div p < q"
proof -
  assume "0 < p" "a < q * p"
  moreover from this have "a div p * p \<le> a" by (simp add: minus_mod_eq_div_mult [symmetric])
  ultimately have "a div p * p < q * p" by linarith
  then show ?thesis using \<open>0 < p\<close> by simp
qed

section \<open>Results\<close>

text \<open>\<open>require!(c, e)\<close> followed by the rest of the function.\<close>

definition require :: "bool \<Rightarrow> 'e \<Rightarrow> 'e + 'a \<Rightarrow> 'e + 'a" where
  "require c e k = (if c then k else Inl e)"

text \<open>\<open>opt.ok_or(e)?\<close> and \<open>res?\<close>, with the rest of the function as the continuation.\<close>

definition ok_or :: "'b option \<Rightarrow> 'e \<Rightarrow> ('b \<Rightarrow> 'e + 'a) \<Rightarrow> 'e + 'a" where
  "ok_or opt e k = (case opt of None \<Rightarrow> Inl e | Some x \<Rightarrow> k x)"

definition and_then :: "'e + 'b \<Rightarrow> ('b \<Rightarrow> 'e + 'a) \<Rightarrow> 'e + 'a" where
  "and_then r k = (case r of Inl e \<Rightarrow> Inl e | Inr x \<Rightarrow> k x)"

lemma require_Inr [result_simps]: "require c e k = Inr x \<longleftrightarrow> c \<and> k = Inr x"
  by (simp add: require_def)

lemma ok_or_Inr [result_simps]: "ok_or opt e k = Inr x \<longleftrightarrow> (\<exists>y. opt = Some y \<and> k y = Inr x)"
  by (simp add: ok_or_def split: option.split)

lemma and_then_Inr [result_simps]: "and_then r k = Inr x \<longleftrightarrow> (\<exists>y. r = Inr y \<and> k y = Inr x)"
  by (simp add: and_then_def split: sum.split)

lemma require_Inl [result_simps]:
  "require c e k = Inl x \<longleftrightarrow> (\<not> c \<and> x = e) \<or> (c \<and> k = Inl x)"
  by (auto simp: require_def)

lemma ok_or_Inl [result_simps]:
  "ok_or opt e k = Inl x \<longleftrightarrow> (opt = None \<and> x = e) \<or> (\<exists>y. opt = Some y \<and> k y = Inl x)"
  by (auto simp: ok_or_def split: option.split)

lemma and_then_Inl [result_simps]:
  "and_then r k = Inl x \<longleftrightarrow> r = Inl x \<or> (\<exists>y. r = Inr y \<and> k y = Inl x)"
  by (auto simp: and_then_def split: sum.split)

lemma require_True [simp]: "require True e k = k"
  and require_False [simp]: "require False e k = Inl e"
  by (simp_all add: require_def)

lemma ok_or_None [simp]: "ok_or None e k = Inl e"
  and ok_or_Some [simp]: "ok_or (Some x) e k = k x"
  by (simp_all add: ok_or_def)

lemma and_then_simps [simp]: "and_then (Inl e) k = Inl e" "and_then (Inr x) k = k x"
  by (simp_all add: and_then_def)

end
