(* ===== verification/Router_Errors.thy ===== *)
theory Router_Errors
  imports Prelude
begin

text \<open>
  The errors of the router (\<^verbatim>\<open>programs/recurring-buy/src/errors.rs\<close>), in the order of the
  enum, and everything else that can end an instruction: the Anchor framework rejecting the
  accounts before the handler runs, a cross-program invocation failing, and a Rust panic
  (an index or slice out of range, or an arithmetic overflow, which the release profile of
  \<^verbatim>\<open>Cargo.toml\<close> turns into a panic). Which of Anchor's own error codes is reported is not
  modelled.
\<close>

datatype buy_error =
    Paused
  | DestinationNotOwner
  | WrongTargetMint
  | BadTransient
  | NothingPulled
  | VenueNotWhitelisted
  | FloorNotConfigured
  | MinOutTooLow
  | TransientNotDrained
  | SlippageExceeded
  | TooManyVenues
  | Overflow
  | BadParam
  | NotDue
  | OverdrawSchedule
  | PlanCompleted
  | BadPotAccount
  | BadFeeAccount
  | FeeTooHigh

datatype error =
    Buy buy_error
  | AccountsRejected
  | CpiFailed
  | Panicked

type_synonym 'a result = "error + 'a"

section \<open>Error codes\<close>

text \<open>\<open>#[error_code]\<close> numbers the variants from 6000 in the order of the enum; clients tell the
  errors apart by that number. The errors are ordered by it.\<close>

primrec variant_index :: "buy_error \<Rightarrow> nat" where
  "variant_index Paused = 0"
| "variant_index DestinationNotOwner = 1"
| "variant_index WrongTargetMint = 2"
| "variant_index BadTransient = 3"
| "variant_index NothingPulled = 4"
| "variant_index VenueNotWhitelisted = 5"
| "variant_index FloorNotConfigured = 6"
| "variant_index MinOutTooLow = 7"
| "variant_index TransientNotDrained = 8"
| "variant_index SlippageExceeded = 9"
| "variant_index TooManyVenues = 10"
| "variant_index Overflow = 11"
| "variant_index BadParam = 12"
| "variant_index NotDue = 13"
| "variant_index OverdrawSchedule = 14"
| "variant_index PlanCompleted = 15"
| "variant_index BadPotAccount = 16"
| "variant_index BadFeeAccount = 17"
| "variant_index FeeTooHigh = 18"

definition error_code :: "buy_error \<Rightarrow> nat" where
  "error_code e = 6000 + variant_index e"

lemma variant_index_eq: "variant_index a = variant_index b \<longleftrightarrow> a = b"
  by (cases a; cases b) simp_all

lemma error_code_eq [simp]: "error_code a = error_code b \<longleftrightarrow> a = b"
  by (simp add: error_code_def variant_index_eq)

lemma error_code_range: "6000 \<le> error_code e \<and> error_code e < 6019"
  by (cases e) (simp_all add: error_code_def)

instantiation buy_error :: linorder
begin

definition less_eq_buy_error :: "buy_error \<Rightarrow> buy_error \<Rightarrow> bool" where
  "less_eq_buy_error a b \<longleftrightarrow> error_code a \<le> error_code b"

definition less_buy_error :: "buy_error \<Rightarrow> buy_error \<Rightarrow> bool" where
  "less_buy_error a b \<longleftrightarrow> error_code a < error_code b"

instance
  by standard (auto simp: less_eq_buy_error_def less_buy_error_def)

end

end
