(* ===== verification/Router_State.thy ===== *)
theory Router_State
  imports Router_Errors
begin

text \<open>
  The accounts of the router (\<^verbatim>\<open>programs/recurring-buy/src/state.rs\<close>): \<open>Config\<close>, \<open>FeeConfig\<close> and
  \<open>SellPlan\<close> with their methods, the compiled-in bounds, and what is well-formed about a
  value of each that the program itself wrote. The fixed-size array of venues is a list whose
  length is part of that well-formedness.
\<close>

section \<open>Constants\<close>

definition MAX_SWAP_PROGRAMS :: nat where "MAX_SWAP_PROGRAMS = 3"

definition CONFIG_SEED :: string where "CONFIG_SEED = ''config''"
definition BUY_AUTH_SEED :: string where "BUY_AUTH_SEED = ''buy''"
definition SELL_PLAN_SEED :: string where "SELL_PLAN_SEED = ''sell-plan''"
definition FEE_CONFIG_SEED :: string where "FEE_CONFIG_SEED = ''fee''"

definition MAX_FEE_BPS :: u16 where "MAX_FEE_BPS = 100"

definition MIN_PERIOD_SECS :: i64 where "MIN_PERIOD_SECS = 60"
definition MAX_PERIOD_SECS :: i64 where "MAX_PERIOD_SECS = 366 * 86400"

lemmas router_constants =
  MAX_SWAP_PROGRAMS_def MAX_FEE_BPS_def MIN_PERIOD_SECS_def MAX_PERIOD_SECS_def

lemmas router_seeds =
  CONFIG_SEED_def BUY_AUTH_SEED_def SELL_PLAN_SEED_def FEE_CONFIG_SEED_def

section \<open>Accounts\<close>

record config =
  admin :: pubkey
  target_mint :: pubkey
  usdc_mint :: pubkey
  swap_programs :: "pubkey list"
  swap_program_count :: u8
  price_ref_micros :: u64
  target_decimals :: u8
  max_slippage_bps :: u16
  paused :: bool
  config_bump :: u8

record fee_config =
  fee_bps :: u16
  destination :: pubkey
  fee_bump :: u8

record sell_plan =
  plan_user :: pubkey
  end_ts :: i64
  period_secs :: i64
  next_due_ts :: i64
  plan_bump :: u8

section \<open>The venue whitelist\<close>

text \<open>\<open>self.swap_programs[..count].contains(id)\<close>: slicing past the array panics.\<close>

definition is_whitelisted :: "config \<Rightarrow> pubkey \<Rightarrow> bool result" where
  "is_whitelisted cfg program_id =
     require (unat (swap_program_count cfg) \<le> length (swap_programs cfg)) Panicked
       (Inr (program_id \<in> set (take (unat (swap_program_count cfg)) (swap_programs cfg))))"

text \<open>The loop that copies the requested venues into the (reset) array, as \<open>init_config\<close> and
  \<open>set_whitelist\<close> run it; an index past the array panics.\<close>

fun copy_venues :: "nat \<Rightarrow> pubkey list \<Rightarrow> pubkey list \<Rightarrow> pubkey list result" where
  "copy_venues i [] arr = Inr arr"
| "copy_venues i (p # ps) arr =
     require (i < length arr) Panicked (copy_venues (Suc i) ps (arr[i := p]))"

definition fill_swap_programs :: "pubkey list \<Rightarrow> pubkey list result" where
  "fill_swap_programs ps = copy_venues 0 ps (replicate MAX_SWAP_PROGRAMS 0)"

lemma copy_venues_fits:
  "i + length ps \<le> length arr \<Longrightarrow>
     copy_venues i ps arr = Inr (take i arr @ ps @ drop (i + length ps) arr)"
proof (induction ps arbitrary: i arr)
  case Nil
  then show ?case by simp
next
  case (Cons p ps)
  then have "copy_venues (Suc i) ps (arr[i := p])
      = Inr (take (Suc i) (arr[i := p]) @ ps @ drop (Suc i + length ps) (arr[i := p]))"
    by simp
  moreover have "take (Suc i) (arr[i := p]) = take i arr @ [p]"
    using Cons.prems by (simp add: take_Suc_conv_app_nth)
  ultimately show ?case using Cons.prems by (simp add: drop_update_cancel)
qed

lemma fill_swap_programs_fits:
  "length ps \<le> MAX_SWAP_PROGRAMS \<Longrightarrow>
     fill_swap_programs ps = Inr (ps @ replicate (MAX_SWAP_PROGRAMS - length ps) 0)"
  by (simp add: fill_swap_programs_def copy_venues_fits)

section \<open>Remaining periods of a sell plan\<close>

text \<open>\<open>(end_ts.saturating_sub(now) / period_secs).max(1)\<close>; the plain \<open>/\<close> panics on a zero
  period and on overflow.\<close>

definition remaining_periods :: "sell_plan \<Rightarrow> i64 \<Rightarrow> i64 result" where
  "remaining_periods plan now =
     ok_or (i64_checked_div (i64_saturating_sub (end_ts plan) now) (period_secs plan)) Panicked
       (\<lambda>q. Inr (if sint q < 1 then 1 else q))"

text \<open>The number it stands for, on unbounded integers.\<close>

definition periods_left :: "int \<Rightarrow> int \<Rightarrow> int \<Rightarrow> int" where
  "periods_left e now p = max 1 ((e - now) div p)"

section \<open>Well-formed accounts\<close>

definition wf_config :: "config \<Rightarrow> bool" where
  "wf_config cfg \<longleftrightarrow>
     length (swap_programs cfg) = MAX_SWAP_PROGRAMS
     \<and> unat (swap_program_count cfg) \<le> MAX_SWAP_PROGRAMS
     \<and> max_slippage_bps cfg \<le> 10000
     \<and> target_decimals cfg \<le> 12"

definition wf_fee_config :: "fee_config \<Rightarrow> bool" where
  "wf_fee_config fc \<longleftrightarrow> fee_bps fc \<le> MAX_FEE_BPS"

definition wf_sell_plan :: "sell_plan \<Rightarrow> bool" where
  "wf_sell_plan plan \<longleftrightarrow>
     sint MIN_PERIOD_SECS \<le> sint (period_secs plan) \<and> sint (period_secs plan) \<le> sint MAX_PERIOD_SECS"

definition venues :: "config \<Rightarrow> pubkey set" where
  "venues cfg = set (take (unat (swap_program_count cfg)) (swap_programs cfg))"

lemma is_whitelisted_wf [simp]:
  "wf_config cfg \<Longrightarrow> is_whitelisted cfg p = Inr (p \<in> venues cfg)"
  by (simp add: is_whitelisted_def wf_config_def venues_def)

lemma is_whitelisted_venues: "is_whitelisted cfg p = Inr True \<Longrightarrow> p \<in> venues cfg"
  by (auto simp: is_whitelisted_def venues_def result_simps)

text \<open>What the copy loop leaves in a config: the given list, behind a count that fits.\<close>

lemma set_venues:
  assumes "fill_swap_programs ps = Inr arr" "length ps \<le> MAX_SWAP_PROGRAMS"
  shows "length arr = MAX_SWAP_PROGRAMS" "unat (word_of_nat (length ps) :: u8) = length ps"
    "take (length ps) arr = ps"
proof -
  show "length arr = MAX_SWAP_PROGRAMS" "take (length ps) arr = ps"
    using assms fill_swap_programs_fits [OF assms(2)] by auto
  show "unat (word_of_nat (length ps) :: u8) = length ps"
    using assms(2) by (intro unat_word_of_nat_fits) (simp add: MAX_SWAP_PROGRAMS_def)
qed

lemma wf_sell_plan_period:
  "wf_sell_plan plan \<Longrightarrow> 60 \<le> sint (period_secs plan) \<and> sint (period_secs plan) \<le> 31622400"
  by (simp add: wf_sell_plan_def router_constants)

lemma remaining_periods_total:
  assumes "wf_sell_plan plan"
  shows "\<exists>n. remaining_periods plan now = Inr n \<and> 1 \<le> sint n
    \<and> sint n = max 1 (clamp_i64 (sint (end_ts plan) - sint now) div sint (period_secs plan))"
proof -
  define z where "z = sint (end_ts plan) - sint now"
  define p where "p = sint (period_secs plan)"
  have p: "60 \<le> p" using wf_sell_plan_period [OF assms] by (simp add: p_def)
  then have p0: "period_secs plan \<noteq> 0" by (auto simp: p_def)
  have bnd: "\<bar>clamp_i64 z sdiv p\<bar> \<le> \<bar>clamp_i64 z\<bar> div p"
    using p by (simp add: abs_sdiv_pos)
  have "\<bar>clamp_i64 z\<bar> div p \<le> 2 ^ 63 div 60"
    using p by (intro order.trans [OF zdiv_mono2 [of _ 60] zdiv_mono1])
      (auto simp: clamp_i64_def i64_min_def i64_max_def)
  with bnd have "\<bar>clamp_i64 z sdiv p\<bar> < 2 ^ 63" by simp
  then obtain q :: i64 where q: "fit_s (clamp_i64 z sdiv p) = Some q"
    by (cases "fit_s (clamp_i64 z sdiv p) :: i64 option") (auto simp: fit_s_None)
  then have sq: "sint q = clamp_i64 z sdiv p" by (simp add: fit_s_Some)
  have "max 1 (sint q) = max 1 (clamp_i64 z div p)"
    unfolding sq using p by (simp add: max_1_sdiv)
  then show ?thesis
    using q p0 by (auto simp: remaining_periods_def i64_checked_div_def z_def p_def max_def)
qed

lemma remaining_periods_no_saturation:
  assumes "wf_sell_plan plan" "- (2 ^ 62) \<le> sint (end_ts plan)" "sint (end_ts plan) < 2 ^ 62"
    "- (2 ^ 62) \<le> sint now" "sint now < 2 ^ 62"
  shows "\<exists>n. remaining_periods plan now = Inr n
    \<and> sint n = periods_left (sint (end_ts plan)) (sint now) (sint (period_secs plan))"
proof -
  have "clamp_i64 (sint (end_ts plan) - sint now) = sint (end_ts plan) - sint now"
    using assms(2-5) by (simp add: clamp_i64_def i64_min_def i64_max_def)
  then show ?thesis
    using remaining_periods_total [OF assms(1), of now] by (auto simp: periods_left_def)
qed

end
