(* ===== verification/Solana_Runtime.thy ===== *)
theory Solana_Runtime
  imports Router_State
begin

text \<open>
  What the router sees of Solana and of the Anchor framework. The account store maps an address
  to the deserialised account behind it: one constructor per account type the programs read,
  which stands for Anchor's owner and discriminator check. Lamports, rent and the payer's
  balance are not modelled.

  Everything outside the repository is a field of the record \<open>runtime\<close>, an argument of the
  definitions that use it: address derivation (\<open>find_program_address\<close>,
  \<open>create_program_address\<close>, \<open>get_associated_token_address\<close>), the SPL Token \<open>transfer\<close> and the
  runtime's \<open>invoke_signed\<close>. The hypotheses at the end of the theory state what the code relies
  on of them.
\<close>

section \<open>Accounts\<close>

record token_account =
  token_mint :: pubkey
  token_owner :: pubkey
  amount :: u64
  frozen :: bool

record mint_account =
  decimals :: u8

datatype account =
    ConfigAcc config
  | FeeConfigAcc fee_config
  | SellPlanAcc sell_plan
  | TokenAcc token_account
  | MintAcc mint_account
  | OtherAcc

type_synonym store = "pubkey \<rightharpoonup> account"

text \<open>The handle an instruction gets on an account, the account entry of an instruction the
  program builds, and that instruction.\<close>

record account_info =
  key :: pubkey
  is_signer :: bool
  is_writable :: bool

record account_meta =
  meta_pubkey :: pubkey
  meta_is_signer :: bool
  meta_is_writable :: bool

record cpi_instruction =
  program_id :: pubkey
  ix_accounts :: "account_meta list"
  ix_data :: "u8 list"

section \<open>The outside world\<close>

datatype seed = Bytes string | KeyBytes pubkey

text \<open>
  \<open>find_pda p seeds\<close> is the canonical address of \<open>seeds\<close> under program \<open>p\<close> and its bump,
  \<open>create_pda p seeds bump\<close> the address for a given bump (it can fail), \<open>ata owner mint\<close> the
  associated token address. \<open>transfer signers src dst authority n st\<close> is the SPL Token
  transfer run with \<open>signers\<close> as the keys that signed, and \<open>invoke ix infos pdas st\<close> the
  cross-program call of \<open>ix\<close> with the account handles \<open>infos\<close> and the program's own \<open>pdas\<close>
  as extra signers; both give the store afterwards, or \<open>None\<close> when the call fails.
\<close>

record runtime =
  find_pda :: "pubkey \<Rightarrow> seed list \<Rightarrow> pubkey \<times> u8"
  create_pda :: "pubkey \<Rightarrow> seed list \<Rightarrow> u8 \<Rightarrow> pubkey option"
  ata :: "pubkey \<Rightarrow> pubkey \<Rightarrow> pubkey"
  token_program_id :: pubkey
  system_program_id :: pubkey
  transfer :: "pubkey list \<Rightarrow> pubkey \<Rightarrow> pubkey \<Rightarrow> pubkey \<Rightarrow> u64 \<Rightarrow> store \<Rightarrow> store option"
  invoke :: "cpi_instruction \<Rightarrow> account_info list \<Rightarrow> pubkey list \<Rightarrow> store \<Rightarrow> store option"

text \<open>\<open>declare_id!\<close>: the router's own address.\<close>

definition ROUTER_ID :: pubkey where
  "ROUTER_ID = 0xee44d95967ee2978b128dffa4c1e93fbfba787344f074960615f64e0ceaf7ab1"

section \<open>Anchor's account checks\<close>

text \<open>\<open>Account<'info, T>\<close>: the account exists and holds a \<open>T\<close>.\<close>

fun as_config :: "account option \<Rightarrow> config result" where
  "as_config (Some (ConfigAcc c)) = Inr c"
| "as_config _ = Inl AccountsRejected"

fun as_fee_config :: "account option \<Rightarrow> fee_config result" where
  "as_fee_config (Some (FeeConfigAcc c)) = Inr c"
| "as_fee_config _ = Inl AccountsRejected"

fun as_sell_plan :: "account option \<Rightarrow> sell_plan result" where
  "as_sell_plan (Some (SellPlanAcc p)) = Inr p"
| "as_sell_plan _ = Inl AccountsRejected"

fun as_token :: "account option \<Rightarrow> token_account result" where
  "as_token (Some (TokenAcc t)) = Inr t"
| "as_token _ = Inl AccountsRejected"

fun as_mint :: "account option \<Rightarrow> mint_account result" where
  "as_mint (Some (MintAcc m)) = Inr m"
| "as_mint _ = Inl AccountsRejected"

lemma as_config_Inr [result_simps]: "as_config a = Inr c \<longleftrightarrow> a = Some (ConfigAcc c)"
  by (cases a rule: as_config.cases) auto

lemma as_config_Inl [result_simps]:
  "as_config a = Inl e \<longleftrightarrow> e = AccountsRejected \<and> (\<forall>c. a \<noteq> Some (ConfigAcc c))"
  by (cases a rule: as_config.cases) auto

lemma as_fee_config_Inr [result_simps]: "as_fee_config a = Inr c \<longleftrightarrow> a = Some (FeeConfigAcc c)"
  by (cases a rule: as_fee_config.cases) auto

lemma as_fee_config_Inl [result_simps]:
  "as_fee_config a = Inl e \<longleftrightarrow> e = AccountsRejected \<and> (\<forall>c. a \<noteq> Some (FeeConfigAcc c))"
  by (cases a rule: as_fee_config.cases) auto

lemma as_sell_plan_Inr [result_simps]: "as_sell_plan a = Inr p \<longleftrightarrow> a = Some (SellPlanAcc p)"
  by (cases a rule: as_sell_plan.cases) auto

lemma as_sell_plan_Inl [result_simps]:
  "as_sell_plan a = Inl e \<longleftrightarrow> e = AccountsRejected \<and> (\<forall>p. a \<noteq> Some (SellPlanAcc p))"
  by (cases a rule: as_sell_plan.cases) auto

lemma as_token_Inr [result_simps]: "as_token a = Inr t \<longleftrightarrow> a = Some (TokenAcc t)"
  by (cases a rule: as_token.cases) auto

lemma as_token_Inl [result_simps]:
  "as_token a = Inl e \<longleftrightarrow> e = AccountsRejected \<and> (\<forall>t. a \<noteq> Some (TokenAcc t))"
  by (cases a rule: as_token.cases) auto

lemma as_mint_Inr [result_simps]: "as_mint a = Inr m \<longleftrightarrow> a = Some (MintAcc m)"
  by (cases a rule: as_mint.cases) auto

lemma as_mint_Inl [result_simps]:
  "as_mint a = Inl e \<longleftrightarrow> e = AccountsRejected \<and> (\<forall>m. a \<noteq> Some (MintAcc m))"
  by (cases a rule: as_mint.cases) auto

text \<open>\<open>seeds = [..], bump\<close>: the account is the canonical address of the seeds.
  \<open>seeds = [..], bump = b\<close>: it is the address the seeds give with the stored bump.\<close>

definition at_canonical_pda :: "runtime \<Rightarrow> seed list \<Rightarrow> account_info \<Rightarrow> bool" where
  "at_canonical_pda rt seeds ai \<longleftrightarrow> key ai = fst (find_pda rt ROUTER_ID seeds)"

definition at_pda_with_bump :: "runtime \<Rightarrow> seed list \<Rightarrow> u8 \<Rightarrow> account_info \<Rightarrow> bool" where
  "at_pda_with_bump rt seeds b ai \<longleftrightarrow> create_pda rt ROUTER_ID seeds b = Some (key ai)"

text \<open>\<open>init, payer = p\<close>: the account is created, so it must not exist yet, and it cannot be the
  account that pays for it.\<close>

definition can_init :: "store \<Rightarrow> account_info \<Rightarrow> account_info \<Rightarrow> bool" where
  "can_init st payer ai \<longleftrightarrow> st (key ai) = None \<and> key ai \<noteq> key payer"

text \<open>The seeds of the router's addresses.\<close>

definition config_seeds :: "seed list" where
  "config_seeds = [Bytes CONFIG_SEED]"

definition fee_config_seeds :: "seed list" where
  "fee_config_seeds = [Bytes FEE_CONFIG_SEED]"

definition buy_auth_seeds :: "pubkey \<Rightarrow> seed list" where
  "buy_auth_seeds user = [Bytes BUY_AUTH_SEED, KeyBytes user]"

definition sell_plan_seeds :: "pubkey \<Rightarrow> seed list" where
  "sell_plan_seeds user = [Bytes SELL_PLAN_SEED, KeyBytes user]"

section \<open>What the code relies on\<close>

text \<open>\<open>find_program_address\<close> returns the first bump for which \<open>create_program_address\<close>
  succeeds, with that address.\<close>

definition pda_derivation :: "runtime \<Rightarrow> bool" where
  "pda_derivation rt \<longleftrightarrow>
     (\<forall>p seeds. create_pda rt p seeds (snd (find_pda rt p seeds)) = Some (fst (find_pda rt p seeds)))"

text \<open>The addresses of different seeds differ (both derivations hash their inputs).\<close>

definition pda_collision_free :: "runtime \<Rightarrow> bool" where
  "pda_collision_free rt \<longleftrightarrow>
     (\<forall>s t b c k. create_pda rt ROUTER_ID s b = Some k \<longrightarrow> create_pda rt ROUTER_ID t c = Some k \<longrightarrow> s = t)"

text \<open>An SPL Token transfer between two different accounts moves exactly the amount, changes
  nothing else, and succeeds when both accounts exist with the same mint, the authority owns
  the source and signed, neither account is frozen, and the balances allow it; it fails when
  the source holds less than the amount.\<close>

definition credit :: "pubkey \<Rightarrow> u64 \<Rightarrow> token_account \<Rightarrow> store \<Rightarrow> store" where
  "credit k n t st = st(k \<mapsto> TokenAcc (t\<lparr>amount := amount t + n\<rparr>))"

definition debit :: "pubkey \<Rightarrow> u64 \<Rightarrow> token_account \<Rightarrow> store \<Rightarrow> store" where
  "debit k n t st = st(k \<mapsto> TokenAcc (t\<lparr>amount := amount t - n\<rparr>))"

definition can_transfer ::
    "pubkey list \<Rightarrow> pubkey \<Rightarrow> u64 \<Rightarrow> token_account \<Rightarrow> token_account \<Rightarrow> bool" where
  "can_transfer signers authority n s d \<longleftrightarrow>
     authority \<in> set signers \<and> token_owner s = authority \<and> token_mint s = token_mint d
     \<and> \<not> frozen s \<and> \<not> frozen d \<and> n \<le> amount s \<and> uint (amount d) + uint n < 2 ^ 64"

definition spl_transfer :: "runtime \<Rightarrow> bool" where
  "spl_transfer rt \<longleftrightarrow>
     (\<forall>signers src dst authority n st s d.
        src \<noteq> dst \<longrightarrow> st src = Some (TokenAcc s) \<longrightarrow> st dst = Some (TokenAcc d) \<longrightarrow>
        (can_transfer signers authority n s d \<longrightarrow>
           transfer rt signers src dst authority n st = Some (credit dst n d (debit src n s st)))
        \<and> (amount s < n \<longrightarrow> transfer rt signers src dst authority n st = None))"

text \<open>Only the program that owns an account can change its data, and a call cannot come back
  into the router through another program; so a successful transfer or a call of another
  program leaves the router's own accounts as they are and creates none.\<close>

fun router_owned :: "account option \<Rightarrow> bool" where
  "router_owned (Some (ConfigAcc _)) = True"
| "router_owned (Some (FeeConfigAcc _)) = True"
| "router_owned (Some (SellPlanAcc _)) = True"
| "router_owned _ = False"

definition router_frame :: "store \<Rightarrow> store \<Rightarrow> bool" where
  "router_frame st st' \<longleftrightarrow>
     (\<forall>k. router_owned (st k) \<or> router_owned (st' k) \<longrightarrow> st' k = st k)"

definition owner_writes_only :: "runtime \<Rightarrow> bool" where
  "owner_writes_only rt \<longleftrightarrow>
     (\<forall>signers src dst authority n st st'.
        transfer rt signers src dst authority n st = Some st' \<longrightarrow> router_frame st st')
     \<and> (\<forall>ix infos pdas st st'. program_id ix \<noteq> ROUTER_ID \<longrightarrow>
        invoke rt ix infos pdas st = Some st' \<longrightarrow> router_frame st st')"

lemma owner_writes_only_transfer:
  "owner_writes_only rt \<Longrightarrow> transfer rt signers src dst authority n st = Some st' \<Longrightarrow> router_frame st st'"
  unfolding owner_writes_only_def by blast

lemma owner_writes_only_invoke:
  assumes "owner_writes_only rt" "invoke rt ix infos pdas st = Some st'" "program_id ix \<noteq> ROUTER_ID"
  shows "router_frame st st'"
  using assms unfolding owner_writes_only_def by blast

lemma router_frame_refl [simp]: "router_frame st st"
  by (simp add: router_frame_def)

lemma router_frame_trans: "router_frame st st' \<Longrightarrow> router_frame st' st'' \<Longrightarrow> router_frame st st''"
  by (metis router_frame_def)

lemma router_frame_simps:
  assumes "router_frame st st'"
  shows "st' k = Some (ConfigAcc c) \<longleftrightarrow> st k = Some (ConfigAcc c)"
    "st' k = Some (FeeConfigAcc f) \<longleftrightarrow> st k = Some (FeeConfigAcc f)"
    "st' k = Some (SellPlanAcc p) \<longleftrightarrow> st k = Some (SellPlanAcc p)"
  using assms by (metis router_frame_def router_owned.simps(1-3))+

end
