(* ===== verification/Mock_Swap.thy ===== *)
theory Mock_Swap
  imports Solana_Runtime
begin

text \<open>
  The test venue \<^verbatim>\<open>programs/mock-swap/src/lib.rs\<close>: it pulls \<open>amount_in\<close> from a source account into
  a pool and pays \<open>out_amount\<close> of the target from the pool, both by SPL Token transfers. The
  predicate \<open>mock_deployed\<close> says that a runtime dispatches calls of the program's address to it.
\<close>

definition MOCK_SWAP_ID :: pubkey where
  "MOCK_SWAP_ID = 0xee9ce84da9d5af17ffa25c8dd04d2dddaf3881845e1e16dcb16826cba0c5e6ae"

definition POOL_SEED :: string where "POOL_SEED = ''pool''"

record swap_accounts =
  sw_source_usdc :: account_info
  sw_source_authority :: account_info
  sw_pool_usdc :: account_info
  sw_pool_target :: account_info
  sw_dest_target :: account_info
  sw_pool_authority :: account_info
  sw_token_program :: account_info

text \<open>Returns the address of the pool authority, which signs the payout.\<close>

definition check_swap :: "runtime \<Rightarrow> swap_accounts \<Rightarrow> store \<Rightarrow> pubkey result" where
  "check_swap rt accs st =
     and_then (as_token (st (key (sw_source_usdc accs)))) (\<lambda>_.
     and_then (as_token (st (key (sw_pool_usdc accs)))) (\<lambda>_.
     and_then (as_token (st (key (sw_pool_target accs)))) (\<lambda>_.
     and_then (as_token (st (key (sw_dest_target accs)))) (\<lambda>_.
     require (key (sw_token_program accs) = token_program_id rt) AccountsRejected (
     require (is_writable (sw_source_usdc accs) \<and> is_writable (sw_pool_usdc accs)
       \<and> is_writable (sw_pool_target accs) \<and> is_writable (sw_dest_target accs)) AccountsRejected (
     require (key (sw_pool_authority accs) = fst (find_pda rt MOCK_SWAP_ID [Bytes POOL_SEED]))
       AccountsRejected (
     ok_or (create_pda rt MOCK_SWAP_ID [Bytes POOL_SEED] (snd (find_pda rt MOCK_SWAP_ID [Bytes POOL_SEED])))
       CpiFailed Inr)))))))"

definition signing_keys :: "account_info list \<Rightarrow> pubkey list" where
  "signing_keys infos = map key (filter is_signer infos)"

definition mock_swap :: "runtime \<Rightarrow> swap_accounts \<Rightarrow> u64 \<Rightarrow> u64 \<Rightarrow> store \<Rightarrow> store result" where
  "mock_swap rt accs amount_in out_amount st =
     and_then (check_swap rt accs st) (\<lambda>pool_pda.
     ok_or (transfer rt
         (signing_keys [sw_source_usdc accs, sw_pool_usdc accs, sw_source_authority accs])
         (key (sw_source_usdc accs)) (key (sw_pool_usdc accs)) (key (sw_source_authority accs)) amount_in st)
       CpiFailed (\<lambda>st1.
     ok_or (transfer rt
         (signing_keys [sw_pool_target accs, sw_dest_target accs, sw_pool_authority accs] @ [pool_pda])
         (key (sw_pool_target accs)) (key (sw_dest_target accs)) (key (sw_pool_authority accs)) out_amount st1)
       CpiFailed Inr))"

section \<open>Deployment\<close>

text \<open>The handles the callee gets for the entries of an instruction, by position.\<close>

definition callee_info :: "account_meta \<Rightarrow> account_info" where
  "callee_info m = \<lparr>key = meta_pubkey m, is_signer = meta_is_signer m, is_writable = meta_is_writable m\<rparr>"

fun swap_accounts_of :: "account_info list \<Rightarrow> swap_accounts option" where
  "swap_accounts_of (a # b # c # d # e # f # g # _) =
     Some \<lparr>sw_source_usdc = a, sw_source_authority = b, sw_pool_usdc = c, sw_pool_target = d,
           sw_dest_target = e, sw_pool_authority = f, sw_token_program = g\<rparr>"
| "swap_accounts_of _ = None"

text \<open>What the runtime demands of a call before it dispatches it: the callee and every account of
  the instruction are among the handles passed along, an account is marked as signer only if it
  signed the caller's own instruction or is one of the caller's addresses, and as writable only
  if the caller has it writable.\<close>

definition call_permitted :: "cpi_instruction \<Rightarrow> account_info list \<Rightarrow> pubkey list \<Rightarrow> bool" where
  "call_permitted ix infos pdas \<longleftrightarrow>
     program_id ix \<in> set (map key infos)
     \<and> (\<forall>m \<in> set (ix_accounts ix).
          meta_pubkey m \<in> set (map key infos)
          \<and> (meta_is_signer m \<longrightarrow> meta_pubkey m \<in> set (signing_keys infos @ pdas))
          \<and> (meta_is_writable m \<longrightarrow> meta_pubkey m \<in> set (map key (filter is_writable infos))))"

text \<open>Dispatch of a call to the mock venue, with \<open>decode\<close> the deserialiser of its two arguments.\<close>

definition mock_dispatch ::
    "runtime \<Rightarrow> (u8 list \<Rightarrow> (u64 \<times> u64) option) \<Rightarrow> cpi_instruction \<Rightarrow> store \<Rightarrow> store option" where
  "mock_dispatch rt decode ix st =
     (case (decode (ix_data ix), swap_accounts_of (map callee_info (ix_accounts ix))) of
        (Some (amount_in, out_amount), Some accs) \<Rightarrow>
          (case mock_swap rt accs amount_in out_amount st of Inl _ \<Rightarrow> None | Inr st' \<Rightarrow> Some st')
      | _ \<Rightarrow> None)"

definition mock_deployed :: "runtime \<Rightarrow> (u8 list \<Rightarrow> (u64 \<times> u64) option) \<Rightarrow> bool" where
  "mock_deployed rt decode \<longleftrightarrow>
     (\<forall>ix infos pdas st. program_id ix = MOCK_SWAP_ID \<longrightarrow> call_permitted ix infos pdas \<longrightarrow>
        invoke rt ix infos pdas st = mock_dispatch rt decode ix st)"

end
