(* ===== verification/Price_Floors.thy ===== *)
theory Price_Floors
  imports Router_State
begin

text \<open>
  The two price-sanity floors of \<^verbatim>\<open>programs/recurring-buy/src/lib.rs\<close>, \<open>price_floor\<close> (target base
  units a buy must return) and \<open>sell_floor\<close> (USDC base units a sell must return), on 128-bit
  words with the final \<open>as u64\<close> cast. Both are a quote at the reference price followed by the
  same slippage discount; the locale \<open>floor_quote\<close> states that contract once, and both
  functions interpret it.
\<close>

definition price_floor :: "u64 \<Rightarrow> u64 \<Rightarrow> u8 \<Rightarrow> u16 \<Rightarrow> u64 result" where
  "price_floor amount_in price_ref decimals slippage_bps =
     ok_or (checked_pow (10 :: u128) (unat decimals)) (Buy Overflow) (\<lambda>scale.
     ok_or (checked_mul (ucast amount_in) scale) (Buy Overflow) (\<lambda>scaled.
     ok_or (checked_div scaled (ucast price_ref)) (Buy Overflow) (\<lambda>ideal.
     ok_or (checked_sub 10000 (ucast slippage_bps)) Panicked (\<lambda>keep.
     ok_or (checked_mul ideal keep) (Buy Overflow) (\<lambda>kept.
     ok_or (checked_div kept 10000) (Buy Overflow) (\<lambda>floor.
     Inr (ucast floor)))))))"

definition sell_floor :: "u64 \<Rightarrow> u64 \<Rightarrow> u8 \<Rightarrow> u16 \<Rightarrow> u64 result" where
  "sell_floor amount_in price_ref decimals slippage_bps =
     ok_or (checked_pow (10 :: u128) (unat decimals)) (Buy Overflow) (\<lambda>scale.
     ok_or (checked_mul (ucast amount_in) (ucast price_ref)) (Buy Overflow) (\<lambda>priced.
     ok_or (checked_div priced scale) (Buy Overflow) (\<lambda>ideal.
     ok_or (checked_sub 10000 (ucast slippage_bps)) Panicked (\<lambda>keep.
     ok_or (checked_mul ideal keep) (Buy Overflow) (\<lambda>kept.
     ok_or (checked_div kept 10000) (Buy Overflow) (\<lambda>floor.
     Inr (ucast floor)))))))"

section \<open>The exact quotes\<close>

text \<open>What the floors are meant to be, on unbounded naturals: the quote at the reference
  price, and the discount by the tolerated slippage.\<close>

definition buy_ideal :: "nat \<Rightarrow> nat \<Rightarrow> nat \<Rightarrow> nat" where
  "buy_ideal amount price decimals = amount * 10 ^ decimals div price"

definition sell_ideal :: "nat \<Rightarrow> nat \<Rightarrow> nat \<Rightarrow> nat" where
  "sell_ideal amount price decimals = amount * price div 10 ^ decimals"

definition discount :: "nat \<Rightarrow> nat \<Rightarrow> nat" where
  "discount ideal slippage = ideal * (10000 - slippage) div 10000"

lemma discount_le: "discount i s \<le> i"
proof -
  have "i * (10000 - s) \<le> i * 10000" by (intro mult_le_mono2) simp
  then show ?thesis unfolding discount_def by linarith
qed

lemma discount_0 [simp]: "discount i 0 = i"
  by (simp add: discount_def)

lemma discount_mono: "i \<le> j \<Longrightarrow> s' \<le> s \<Longrightarrow> discount i s \<le> discount j s'"
  by (simp add: discount_def div_le_mono mult_le_mono)

text \<open>Rounding down loses less than one unit of the discounted quote.\<close>

lemma discount_lower: "i * (10000 - s) < (discount i s + 1) * 10000"
proof -
  have "x < (x div 10000 + 1) * 10000" for x :: nat
    using dividend_less_div_times [of 10000 x] by simp
  then show ?thesis unfolding discount_def .
qed

section \<open>What the code computes\<close>

text \<open>The tail both functions share, from the ideal quote to the returned word.\<close>

lemma discount_step:
  assumes "unat s \<le> 10000" "unat (ideal :: u128) * (10000 - unat (s :: u16)) < 2 ^ 128"
  shows "ok_or (checked_sub 10000 (ucast s)) Panicked (\<lambda>keep.
      ok_or (checked_mul ideal keep) (Buy Overflow) (\<lambda>kept.
      ok_or (checked_div kept 10000) (Buy Overflow) (\<lambda>floor.
      Inr (ucast floor)))) = Inr f \<longleftrightarrow> unat (f :: u64) = discount (unat ideal) (unat s) mod 2 ^ 64"
proof -
  obtain keep :: u128 where keep: "checked_sub 10000 (ucast s) = Some keep"
      "unat keep = 10000 - unat s"
    using assms(1) checked_sub_ok [of "ucast s :: u128" 10000] by auto
  then obtain kept where kept: "checked_mul ideal keep = Some kept"
      "unat kept = unat ideal * (10000 - unat s)"
    using assms(2) checked_mul_ok [of ideal keep] by auto
  then obtain fl where "checked_div kept 10000 = Some fl" "unat fl = discount (unat ideal) (unat s)"
    using checked_div_ok [of 10000 kept] by (auto simp: discount_def)
  with keep kept show ?thesis
    by (auto simp: word_unat_eq_iff unat_u128_u64)
qed

lemma price_floor_Inr:
  "price_floor a p d s = Inr f \<longleftrightarrow>
     p \<noteq> 0 \<and> unat s \<le> 10000
     \<and> unat a * 10 ^ unat d < 2 ^ 128
     \<and> 10 ^ unat d < (2 :: nat) ^ 128
     \<and> buy_ideal (unat a) (unat p) (unat d) * (10000 - unat s) < 2 ^ 128
     \<and> unat f = discount (buy_ideal (unat a) (unat p) (unat d)) (unat s) mod 2 ^ 64"
  (is "?l = ?r")
proof
  assume ?l
  then obtain scale scaled ideal keep kept fl where
    "unat scale = 10 ^ unat d" "unat scaled = unat a * unat (scale :: u128)" "p \<noteq> 0"
    "unat ideal = unat (scaled :: u128) div unat p" "10000 = unat s + unat keep"
    "unat kept = unat (ideal :: u128) * unat (keep :: u128)"
    "unat fl = unat (kept :: u128) div 10000" "f = ucast (fl :: u128)"
    by (auto simp: price_floor_def result_simps checked_simps)
  moreover have "unat scale < 2 ^ 128" "unat scaled < 2 ^ 128" "unat kept < 2 ^ 128"
    using unat_bound [of scale] unat_bound [of scaled] unat_bound [of kept] by simp_all
  moreover have "unat keep = 10000 - unat s" using \<open>10000 = unat s + unat keep\<close> by simp
  ultimately show ?r
    by (simp add: buy_ideal_def discount_def unat_u128_u64)
next
  assume r: ?r
  then obtain scale :: u128 where scale: "checked_pow 10 (unat d) = Some scale" "unat scale = 10 ^ unat d"
    using checked_pow_ok [of "10 :: u128" "unat d"] by auto
  then obtain scaled where scaled: "checked_mul (ucast a) scale = Some scaled"
      "unat scaled = unat a * 10 ^ unat d"
    using r checked_mul_ok [of "ucast a" scale] by auto
  obtain ideal where ideal: "checked_div scaled (ucast p) = Some ideal"
      "unat ideal = buy_ideal (unat a) (unat p) (unat d)"
    using r checked_div_ok [of "ucast p" scaled] scaled by (auto simp: buy_ideal_def)
  with r show ?l by (simp add: price_floor_def scale scaled ideal discount_step)
qed

lemma sell_floor_Inr:
  "sell_floor a p d s = Inr f \<longleftrightarrow>
     unat s \<le> 10000
     \<and> 10 ^ unat d < (2 :: nat) ^ 128
     \<and> sell_ideal (unat a) (unat p) (unat d) * (10000 - unat s) < 2 ^ 128
     \<and> unat f = discount (sell_ideal (unat a) (unat p) (unat d)) (unat s) mod 2 ^ 64"
  (is "?l = ?r")
proof
  assume ?l
  then obtain scale priced ideal keep kept fl where
    "unat scale = 10 ^ unat d" "unat priced = unat a * unat p" "(scale :: u128) \<noteq> 0"
    "unat ideal = unat (priced :: u128) div unat scale" "10000 = unat s + unat keep"
    "unat kept = unat (ideal :: u128) * unat (keep :: u128)"
    "unat fl = unat (kept :: u128) div 10000" "f = ucast (fl :: u128)"
    by (auto simp: sell_floor_def result_simps checked_simps)
  moreover have "unat scale < 2 ^ 128" "unat kept < 2 ^ 128"
    using unat_bound [of scale] unat_bound [of kept] by simp_all
  moreover have "unat keep = 10000 - unat s" using \<open>10000 = unat s + unat keep\<close> by simp
  ultimately show ?r
    by (simp add: sell_ideal_def discount_def unat_u128_u64)
next
  assume r: ?r
  then obtain scale :: u128 where scale: "checked_pow 10 (unat d) = Some scale" "unat scale = 10 ^ unat d"
    using checked_pow_ok [of "10 :: u128" "unat d"] by auto
  have "unat a * unat p < 2 ^ 128"
    using mult_strict_mono [OF unat_bound [of a] unat_bound [of p]] by simp
  then obtain priced where priced: "checked_mul (ucast a) (ucast p :: u128) = Some priced"
      "unat priced = unat a * unat p"
    using checked_mul_ok [of "ucast a :: u128" "ucast p"] by auto
  have "scale \<noteq> 0" using scale(2) by (auto simp: word_unat_eq_iff)
  then obtain ideal where ideal: "checked_div priced scale = Some ideal"
      "unat ideal = sell_ideal (unat a) (unat p) (unat d)"
    using checked_div_ok [of scale priced] priced scale by (auto simp: sell_ideal_def)
  with r show ?l by (simp add: sell_floor_def scale priced ideal discount_step)
qed

text \<open>The errors, for the decimals \<open>init_config\<close> admits.\<close>

lemma pow10_bounds:
  assumes "unat (d :: u8) \<le> 12"
  shows "10 ^ unat d \<le> (10 ^ 12 :: nat)" "10 ^ unat d < (2 ^ 128 :: nat)"
    "unat (a :: u64) * 10 ^ unat d < 2 ^ 104"
proof -
  show le: "10 ^ unat d \<le> (10 ^ 12 :: nat)"
    using assms by (intro power_increasing) auto
  then show "10 ^ unat d < (2 ^ 128 :: nat)" by (rule order.strict_trans1) simp
  have "unat a * 10 ^ unat d \<le> unat a * 10 ^ 12" using le by (rule mult_le_mono2)
  also have "\<dots> \<le> 2 ^ 64 * 10 ^ 12" using unat_bound [of a] by (intro mult_le_mono1) simp
  also have "\<dots> < 2 ^ 104" by simp
  finally show "unat a * 10 ^ unat d < 2 ^ 104" .
qed

lemma buy_kept_bound:
  assumes "unat (d :: u8) \<le> 12"
  shows "buy_ideal (unat (a :: u64)) n (unat d) * (10000 - m) < 2 ^ 128"
proof -
  have "buy_ideal (unat a) n (unat d) < 2 ^ 104"
    unfolding buy_ideal_def using pow10_bounds(3) [OF assms, of a]
    by (meson div_le_dividend order.strict_trans1)
  then have "buy_ideal (unat a) n (unat d) * (10000 - m) \<le> 2 ^ 104 * 10000"
    by (intro mult_le_mono) simp_all
  then show ?thesis by (rule order.strict_trans1) simp
qed

lemma price_floor_scaled:
  assumes "unat (d :: u8) \<le> 12"
  shows "\<exists>scale scaled. checked_pow (10 :: u128) (unat d) = Some scale
    \<and> checked_mul (ucast (a :: u64)) scale = Some scaled"
proof -
  obtain scale :: u128 where scale: "checked_pow 10 (unat d) = Some scale" "unat scale = 10 ^ unat d"
    using checked_pow_ok [of "10 :: u128" "unat d"] pow10_bounds(2) [OF assms] by auto
  moreover obtain scaled where "checked_mul (ucast a) scale = Some scaled"
    using checked_mul_ok [of "ucast a" scale] pow10_bounds(3) [OF assms, of a] scale by auto
  ultimately show ?thesis by blast
qed

lemma price_floor_zero_price:
  assumes "unat d \<le> 12"
  shows "price_floor a 0 d s = Inl (Buy Overflow)"
  using price_floor_scaled [OF assms, of a] by (auto simp: price_floor_def checked_div_def)

lemma price_floor_panics:
  assumes "unat d \<le> 12" "p \<noteq> 0" "10000 < unat s"
  shows "price_floor a p d s = Inl Panicked"
  using price_floor_scaled [OF assms(1), of a] assms(2,3)
  by (auto simp: price_floor_def checked_div_def checked_sub_def word_le_nat_alt)

lemma sell_floor_priced:
  fixes a p :: u64
  assumes "unat (d :: u8) \<le> 12"
  shows "\<exists>scale priced ideal. checked_pow (10 :: u128) (unat d) = Some scale
    \<and> checked_mul (ucast a) (ucast p) = Some priced \<and> checked_div priced scale = Some ideal
    \<and> unat ideal = sell_ideal (unat a) (unat p) (unat d)"
proof -
  obtain scale :: u128 where scale: "checked_pow 10 (unat d) = Some scale" "unat scale = 10 ^ unat d"
    using checked_pow_ok [of "10 :: u128" "unat d"] pow10_bounds(2) [OF assms] by auto
  have "unat a * unat p < 2 ^ 128"
    using mult_strict_mono [OF unat_bound [of a] unat_bound [of p]] by simp
  then obtain priced where priced: "checked_mul (ucast a) (ucast p :: u128) = Some priced"
      "unat priced = unat a * unat p"
    using checked_mul_ok [of "ucast a :: u128" "ucast p"] by auto
  have "scale \<noteq> 0" using scale(2) by (auto simp: word_unat_eq_iff)
  with scale priced checked_div_ok [of scale priced] show ?thesis
    by (auto simp: sell_ideal_def)
qed

lemma sell_floor_panics:
  assumes "unat d \<le> 12" "10000 < unat s"
  shows "sell_floor a p d s = Inl Panicked"
  using sell_floor_priced [OF assms(1), of a p] assms(2)
  by (auto simp: sell_floor_def checked_sub_def word_le_nat_alt)

lemma sell_floor_overflows:
  assumes "unat d \<le> 12" "unat s \<le> 10000"
    "2 ^ 128 \<le> sell_ideal (unat a) (unat p) (unat d) * (10000 - unat s)"
  shows "sell_floor a p d s = Inl (Buy Overflow)"
proof -
  obtain keep :: u128 where "checked_sub 10000 (ucast s) = Some keep" "unat keep = 10000 - unat s"
    using assms(2) checked_sub_ok [of "ucast s :: u128" 10000] by auto
  then show ?thesis
    using sell_floor_priced [OF assms(1), of a p] assms(3)
    by (auto simp: sell_floor_def checked_mul_def fit_u_def)
qed

section \<open>The contract both floors share\<close>

locale floor_quote =
  fixes floor :: "u64 \<Rightarrow> u64 \<Rightarrow> u8 \<Rightarrow> u16 \<Rightarrow> u64 result"
    and ideal :: "nat \<Rightarrow> nat \<Rightarrow> nat \<Rightarrow> nat"
  assumes quoted: "floor a p d s = Inr f \<Longrightarrow>
      unat s \<le> 10000 \<and> unat f = discount (ideal (unat a) (unat p) (unat d)) (unat s) mod 2 ^ 64"
    and returns: "p \<noteq> 0 \<Longrightarrow> unat s \<le> 10000 \<Longrightarrow> unat d \<le> 12 \<Longrightarrow>
      ideal (unat a) (unat p) (unat d) < 2 ^ 64 \<Longrightarrow> \<exists>f. floor a p d s = Inr f"
    and ideal_mono: "m \<le> n \<Longrightarrow> ideal m x y \<le> ideal n x y"
begin

lemma exact:
  assumes "p \<noteq> 0" "unat s \<le> 10000" "unat d \<le> 12" "ideal (unat a) (unat p) (unat d) < 2 ^ 64"
  shows "\<exists>f. floor a p d s = Inr f
    \<and> unat f = discount (ideal (unat a) (unat p) (unat d)) (unat s)"
proof -
  obtain f where f: "floor a p d s = Inr f" using returns [OF assms] by blast
  have "discount (ideal (unat a) (unat p) (unat d)) (unat s) < 2 ^ 64"
    using discount_le assms(4) by (rule order.strict_trans1)
  with quoted [OF f] f show ?thesis by simp
qed

lemma never_above: "floor a p d s = Inr f \<Longrightarrow>
    unat f \<le> discount (ideal (unat a) (unat p) (unat d)) (unat s)"
  using quoted [of a p d s f] by simp

lemma wraps_iff: "floor a p d s = Inr f \<Longrightarrow>
    unat f = discount (ideal (unat a) (unat p) (unat d)) (unat s)
      \<longleftrightarrow> discount (ideal (unat a) (unat p) (unat d)) (unat s) < 2 ^ 64"
  using quoted [of a p d s f] unat_bound [of f] by auto

text \<open>Whoever is paid at least the floor is paid the quote less the tolerated band, up to one
  unit lost to rounding, as long as the cast is exact; and when it is not, being paid just the
  floor is being paid less than that.\<close>

lemma band:
  assumes "floor a p d s = Inr f" "discount (ideal (unat a) (unat p) (unat d)) (unat s) < 2 ^ 64" "unat f \<le> paid"
  shows "ideal (unat a) (unat p) (unat d) * (10000 - unat s) < (paid + 1) * 10000"
proof -
  let ?i = "ideal (unat a) (unat p) (unat d)"
  have "discount ?i (unat s) \<le> paid" using wraps_iff [OF assms(1)] assms(2,3) by simp
  then have "(discount ?i (unat s) + 1) * 10000 \<le> (paid + 1) * 10000" by simp
  with discount_lower show ?thesis by (rule order.strict_trans2)
qed

lemma band_iff:
  assumes "floor a p d s = Inr f"
  shows "(\<forall>paid \<ge> unat f. ideal (unat a) (unat p) (unat d) * (10000 - unat s) < (paid + 1) * 10000)
    \<longleftrightarrow> discount (ideal (unat a) (unat p) (unat d)) (unat s) < 2 ^ 64"
proof
  let ?i = "ideal (unat a) (unat p) (unat d)"
  assume "\<forall>paid \<ge> unat f. ?i * (10000 - unat s) < (paid + 1) * 10000"
  then have "?i * (10000 - unat s) < (unat f + 1) * 10000" by blast
  then have "discount ?i (unat s) < unat f + 1" unfolding discount_def by (simp add: div_less_iff_less_mult)
  then show "discount ?i (unat s) < 2 ^ 64" using unat_bound [of f] by simp
qed (use band [OF assms] in blast)

lemma monotone:
  assumes "floor a p d s = Inr f" "floor a' p d s' = Inr f'" "a \<le> a'" "s' \<le> s"
    "ideal (unat a') (unat p) (unat d) < 2 ^ 64"
  shows "f \<le> f'"
proof -
  have le: "ideal (unat a) (unat p) (unat d) \<le> ideal (unat a') (unat p) (unat d)"
    using assms(3) by (intro ideal_mono) (simp add: word_le_nat_alt)
  have "unat f' = discount (ideal (unat a') (unat p) (unat d)) (unat s')"
    using wraps_iff [OF assms(2)] discount_le [of "ideal (unat a') (unat p) (unat d)"] assms(5)
    by (meson order.strict_trans1)
  moreover have "discount (ideal (unat a) (unat p) (unat d)) (unat s)
      \<le> discount (ideal (unat a') (unat p) (unat d)) (unat s')"
    using le assms(4) by (intro discount_mono) (simp_all add: word_le_nat_alt)
  ultimately show ?thesis
    using never_above [OF assms(1)] by (simp add: word_le_nat_alt)
qed

end

interpretation buy_quote: floor_quote price_floor buy_ideal
proof unfold_locales
  fix a p :: u64 and d :: u8 and s :: u16
  assume *: "p \<noteq> 0" "unat s \<le> 10000" "unat d \<le> 12"
  have "price_floor a p d s = Inr (word_of_nat (discount (buy_ideal (unat a) (unat p) (unat d)) (unat s)))"
    using * pow10_bounds(2) [OF *(3)] pow10_bounds(3) [OF *(3), of a] buy_kept_bound [OF *(3), of a]
    by (simp add: price_floor_Inr unsigned_of_nat take_bit_eq_mod)
  then show "\<exists>f. price_floor a p d s = Inr f" by blast
qed (auto simp: price_floor_Inr buy_ideal_def div_le_mono)

interpretation sell_quote: floor_quote sell_floor sell_ideal
proof unfold_locales
  fix a p :: u64 and d :: u8 and s :: u16
  assume *: "p \<noteq> 0" "unat s \<le> 10000" "unat d \<le> 12" "sell_ideal (unat a) (unat p) (unat d) < 2 ^ 64"
  have "sell_ideal (unat a) (unat p) (unat d) * (10000 - unat s) \<le> 2 ^ 64 * 10000"
    using *(4) by (intro mult_le_mono) simp_all
  then have "sell_ideal (unat a) (unat p) (unat d) * (10000 - unat s) < 2 ^ 128"
    by (rule order.strict_trans1) simp
  then have "sell_floor a p d s = Inr (word_of_nat (discount (sell_ideal (unat a) (unat p) (unat d)) (unat s)))"
    using *(2) pow10_bounds(2) [OF *(3)]
    by (simp add: sell_floor_Inr unsigned_of_nat take_bit_eq_mod)
  then show "\<exists>f. sell_floor a p d s = Inr f" by blast
qed (auto simp: sell_floor_Inr sell_ideal_def div_le_mono)

section \<open>The unit tests of the source\<close>

lemma floor_unit_tests:
  "price_floor 10000000 1000000 6 100 = Inr 9900000"
  "price_floor 2000000000 2000000000 9 50 = Inr 995000000"
  "price_floor 5000000 1000000 6 0 = Inr 5000000"
  "price_floor 7000000 3000000 6 0 = Inr 2333333"
  "sell_floor 10000000 1000000 6 100 = Inr 9900000"
  "sell_floor 500000000 2000000000 9 50 = Inr 995000000"
  by (simp_all add: price_floor_Inr sell_floor_Inr buy_ideal_def sell_ideal_def discount_def)

section \<open>Properties\<close>

text \<open>Claim C30. For a target mint with at most 12 decimals (what \<open>init_config\<close> admits),
  \<open>price_floor\<close> never overflows its 128-bit arithmetic: it fails exactly on an unset price and
  panics exactly on a slippage above 100%, and otherwise returns the discounted quote, cast to
  64 bits.\<close>

theorem price_floor_spec:
  assumes "unat d \<le> 12"
  shows "price_floor a p d s =
    (if p = 0 then Inl (Buy Overflow)
     else if 10000 < unat s then Inl Panicked
     else Inr (word_of_nat (discount (buy_ideal (unat a) (unat p) (unat d)) (unat s))))"
  using assms pow10_bounds(2) [OF assms] pow10_bounds(3) [OF assms, of a] buy_kept_bound [OF assms, of a]
  by (simp add: price_floor_zero_price price_floor_panics price_floor_Inr unsigned_of_nat take_bit_eq_mod)

theorem price_floor_spec_witness:
  "unat (9 :: u8) \<le> 12 \<and> price_floor 2000000000 2000000000 9 50 = Inr 995000000"
  using price_floor_spec [of 9 2000000000 2000000000 50] by (simp add: buy_ideal_def discount_def)

text \<open>Claim C31. For at most 12 decimals \<open>sell_floor\<close> panics exactly on a slippage above 100%,
  reports \<open>Overflow\<close> exactly when the discounted quote overflows 128 bits before the division,
  and otherwise returns the discounted quote, cast to 64 bits.\<close>

theorem sell_floor_spec:
  assumes "unat d \<le> 12"
  shows "sell_floor a p d s =
    (if 10000 < unat s then Inl Panicked
     else if 2 ^ 128 \<le> sell_ideal (unat a) (unat p) (unat d) * (10000 - unat s) then Inl (Buy Overflow)
     else Inr (word_of_nat (discount (sell_ideal (unat a) (unat p) (unat d)) (unat s))))"
  using assms pow10_bounds(2) [OF assms]
  by (simp add: sell_floor_panics sell_floor_overflows sell_floor_Inr unsigned_of_nat take_bit_eq_mod)

theorem sell_floor_spec_witness:
  "unat (9 :: u8) \<le> 12 \<and> sell_floor 500000000 2000000000 9 50 = Inr 995000000"
  using sell_floor_spec [of 9 500000000 2000000000 50] by (simp add: sell_ideal_def discount_def)

text \<open>Claim C32. What clearing a floor is worth: whenever a floor is returned, every payment that
  clears it is worth at least the quote at the reference price less \<open>max_slippage_bps\<close>, up to
  less than one base unit of rounding, if and only if the discounted quote fits in 64 bits. So
  both floors bound an underpayment to the tolerated band exactly where the final cast is exact.\<close>

theorem floors_bound_underpayment:
  "(price_floor a p d s = Inr f \<longrightarrow>
      ((\<forall>paid \<ge> unat f. buy_ideal (unat a) (unat p) (unat d) * (10000 - unat s) < (paid + 1) * 10000)
        \<longleftrightarrow> discount (buy_ideal (unat a) (unat p) (unat d)) (unat s) < 2 ^ 64))
   \<and> (sell_floor a p d s = Inr f \<longrightarrow>
      ((\<forall>paid \<ge> unat f. sell_ideal (unat a) (unat p) (unat d) * (10000 - unat s) < (paid + 1) * 10000)
        \<longleftrightarrow> discount (sell_ideal (unat a) (unat p) (unat d)) (unat s) < 2 ^ 64))"
  using buy_quote.band_iff [of a p d s f] sell_quote.band_iff [of a p d s f] by blast

theorem floors_bound_underpayment_witness:
  "price_floor 10000000 1000000 6 100 = Inr 9900000 \<and> sell_floor 10000000 1000000 6 100 = Inr 9900000
   \<and> buy_ideal 10000000 1000000 6 * 9900 < (9900001 + 1) * 10000
   \<and> sell_ideal 10000000 1000000 6 * 9900 < (9900000 + 1) * 10000"
proof -
  have "discount (buy_ideal 10000000 1000000 6) 100 < 2 ^ 64" "discount (sell_ideal 10000000 1000000 6) 100 < 2 ^ 64"
    by (simp_all add: buy_ideal_def sell_ideal_def discount_def)
  then have "\<forall>paid \<ge> 9900000. buy_ideal 10000000 1000000 6 * 9900 < (paid + 1) * 10000"
    "\<forall>paid \<ge> 9900000. sell_ideal 10000000 1000000 6 * 9900 < (paid + 1) * 10000"
    using floors_bound_underpayment [of 10000000 1000000 6 100 9900000] floor_unit_tests by simp_all
  then show ?thesis using floor_unit_tests by auto
qed

text \<open>Claim C35. The final \<open>as u64\<close> cast of \<open>price_floor\<close> can lower the floor: it equals the
  discounted quote exactly when that fits in 64 bits, and for a cheap enough token it does not;
  a buy of 18446.744074 USDC of a 9-decimal token at 1 micro-USD gets a floor of 290448384 base
  units instead of 18446744074000000000.\<close>

theorem price_floor_wraps:
  "(price_floor a p d s = Inr f \<longrightarrow>
      (unat f = discount (buy_ideal (unat a) (unat p) (unat d)) (unat s)
        \<longleftrightarrow> discount (buy_ideal (unat a) (unat p) (unat d)) (unat s) < 2 ^ 64))
   \<and> price_floor 18446744074 1 9 0 = Inr 290448384
   \<and> discount (buy_ideal 18446744074 1 9) 0 = 18446744074000000000"
proof -
  have "price_floor 18446744074 1 9 0 = Inr 290448384"
    by (simp add: price_floor_Inr buy_ideal_def)
  then show ?thesis
    using buy_quote.wraps_iff [of a p d s f] by (simp add: buy_ideal_def)
qed

theorem price_floor_wraps_witness:
  "price_floor 10000000 1000000 6 100 = Inr 9900000
   \<and> unat (9900000 :: u64) = discount (buy_ideal 10000000 1000000 6) 100"
  using price_floor_wraps [of 10000000 1000000 6 100 9900000] floor_unit_tests
  by (simp add: buy_ideal_def discount_def)

text \<open>Claim C33. At zero slippage the two floors are inverse up to rounding: quoting a USDC amount
  in target units and those back in USDC never gains; and if the quote in target units fits in
  64 bits, it loses less than the USDC value of one target base unit, plus one.\<close>

theorem floors_round_trip:
  assumes "price_floor x p d 0 = Inr t" "sell_floor t p d 0 = Inr y"
  shows "unat y \<le> unat x
    \<and> (buy_ideal (unat x) (unat p) (unat d) < 2 ^ 64 \<longrightarrow> (unat x - unat y) * 10 ^ unat d < unat p + 10 ^ unat d)"
proof -
  let ?S = "10 ^ unat d :: nat"
  let ?q = "buy_ideal (unat x) (unat p) (unat d)"
  have p: "0 < unat p" using assms(1) by (simp add: price_floor_Inr unat_gt_0)
  have t: "unat t = ?q mod 2 ^ 64" using assms(1) by (simp add: price_floor_Inr)
  then have "unat t * unat p \<le> ?q * unat p" by simp
  also have "\<dots> \<le> unat x * ?S" unfolding buy_ideal_def by (rule div_times_less_eq_dividend)
  finally have le: "sell_ideal (unat t) (unat p) (unat d) \<le> unat x"
    unfolding sell_ideal_def using div_le_mono [of "unat t * unat p" "unat x * ?S" ?S] by simp
  then have y: "unat y = unat t * unat p div ?S"
    using assms(2) order.strict_trans1 [OF le unat_bound [of x]]
    by (simp add: sell_floor_Inr sell_ideal_def)
  have "(unat x - unat y) * ?S < unat p + ?S" if "?q < 2 ^ 64"
  proof -
    have "unat x * ?S < unat t * unat p + unat p"
      using that t p dividend_less_div_times [of "unat p" "unat x * ?S"] by (simp add: buy_ideal_def)
    moreover have "unat t * unat p < unat y * ?S + ?S"
      unfolding y using dividend_less_div_times [of ?S "unat t * unat p"] by simp
    moreover have "m - n < b + c" if "m < k + b" "k < n + c" "0 < c" for m n k b c :: nat
      using that by linarith
    ultimately have "unat x * ?S - unat y * ?S < unat p + ?S" by simp
    then show ?thesis by (simp add: diff_mult_distrib)
  qed
  with le y show ?thesis by (simp add: sell_ideal_def)
qed

theorem floors_round_trip_witness:
  "price_floor 7000000 3000000 6 0 = Inr 2333333 \<and> sell_floor 2333333 3000000 6 0 = Inr 6999999
   \<and> unat (6999999 :: u64) \<le> unat (7000000 :: u64)
   \<and> (unat (7000000 :: u64) - unat (6999999 :: u64)) * 10 ^ unat (6 :: u8) < unat (3000000 :: u64) + 10 ^ unat (6 :: u8)"
proof -
  have there: "price_floor 7000000 3000000 6 0 = Inr 2333333"
    and again: "sell_floor 2333333 3000000 6 0 = Inr 6999999"
    by (simp_all add: price_floor_Inr sell_floor_Inr buy_ideal_def sell_ideal_def)
  from floors_round_trip [OF there again] there again show ?thesis by (simp add: buy_ideal_def)
qed

end
