(* ===== verification/Settlement.thy ===== *)
theory Settlement
  imports Solana_Runtime Price_Floors
begin

text \<open>
  What \<open>execute_buy\<close> and \<open>execute_sell\<close> of \<^verbatim>\<open>programs/recurring-buy/src/lib.rs\<close> do alike: the
  execution fee on the input amount, the fee skim under the transient PDA's signature, the
  forwarding of the keeper's venue instruction with the PDA forced as signer, the reload of the
  balances, and the drain and output checks. The code spells these blocks out twice; here each
  is one definition, with the error checks in the order of the code.
\<close>

section \<open>The execution fee\<close>

text \<open>Fee and net input: \<open>amount_in * fee_bps / 10_000\<close>, cast back to 64 bits.\<close>

definition execution_fee :: "u64 \<Rightarrow> u16 \<Rightarrow> (u64 \<times> u64) result" where
  "execution_fee amount_in bps =
     ok_or (checked_mul (ucast amount_in :: u128) (ucast bps)) (Buy Overflow) (\<lambda>product.
     ok_or (checked_div product 10000) (Buy Overflow) (\<lambda>quotient.
     ok_or (checked_sub amount_in (ucast quotient)) (Buy Overflow) (\<lambda>net_in.
     Inr (ucast quotient, net_in))))"

section \<open>The venue call\<close>

text \<open>The account metas of the forwarded instruction: the keeper's, with the transient PDA
  forced to sign.\<close>

definition venue_metas :: "pubkey \<Rightarrow> account_info list \<Rightarrow> account_meta list" where
  "venue_metas buy_auth_key remaining =
     map (\<lambda>ai. \<lparr>meta_pubkey = key ai,
                meta_is_signer = is_signer ai \<or> key ai = buy_auth_key,
                meta_is_writable = is_writable ai\<rparr>) remaining"

text \<open>The signer the seeds stand for: \<open>invoke_signed\<close> fails when they give no address.\<close>

definition seeds_signer :: "runtime \<Rightarrow> seed list \<Rightarrow> u8 \<Rightarrow> pubkey result" where
  "seeds_signer rt seeds bump =
     ok_or (create_pda rt ROUTER_ID seeds bump) CpiFailed Inr"

text \<open>The keys that sign a call: the signers among its account handles and the program's PDA.\<close>

definition call_signers :: "account_info list \<Rightarrow> pubkey \<Rightarrow> pubkey list" where
  "call_signers infos pda = map key (filter is_signer infos) @ [pda]"

definition skim_fee ::
    "runtime \<Rightarrow> account_info \<Rightarrow> account_info \<Rightarrow> account_info \<Rightarrow> pubkey \<Rightarrow> u64 \<Rightarrow> store \<Rightarrow> store result" where
  "skim_fee rt src dst auth pda fee st =
     (if 0 < fee
      then ok_or (transfer rt (call_signers [src, dst, auth] pda) (key src) (key dst) (key auth) fee st)
             CpiFailed Inr
      else Inr st)"

definition invoke_venue ::
    "runtime \<Rightarrow> account_info \<Rightarrow> account_info \<Rightarrow> account_info list \<Rightarrow> u8 list \<Rightarrow> pubkey \<Rightarrow> store \<Rightarrow> store result" where
  "invoke_venue rt swap_program buy_authority remaining swap_data pda st =
     ok_or (invoke rt
         \<lparr>program_id = key swap_program,
          ix_accounts = venue_metas (key buy_authority) remaining,
          ix_data = swap_data\<rparr>
         (remaining @ [swap_program]) [pda] st)
       CpiFailed Inr"

section \<open>Checking the outcome\<close>

text \<open>Reload both balances; nothing may be left in the transient, and the destination must have
  gained at least \<open>min_out\<close>. Returns the realised output.\<close>

definition check_outcome :: "pubkey \<Rightarrow> pubkey \<Rightarrow> u64 \<Rightarrow> u64 \<Rightarrow> store \<Rightarrow> u64 result" where
  "check_outcome transient dest dest_before min_out st =
     and_then (as_token (st transient)) (\<lambda>transient_acc.
     and_then (as_token (st dest)) (\<lambda>dest_acc.
     require (amount transient_acc = 0) (Buy TransientNotDrained) (
     ok_or (checked_sub (amount dest_acc) dest_before) (Buy Overflow) (\<lambda>out.
     require (min_out \<le> out) (Buy SlippageExceeded) (
     Inr out)))))"

text \<open>The fee skim, the venue call and the outcome check, in this order. Returns the store
  after the call and the realised output.\<close>

definition settle ::
    "runtime \<Rightarrow> account_info \<Rightarrow> account_info \<Rightarrow> account_info \<Rightarrow> account_info \<Rightarrow> account_info
      \<Rightarrow> account_info list \<Rightarrow> pubkey \<Rightarrow> u8 \<Rightarrow> u64 \<Rightarrow> u64 \<Rightarrow> u64 \<Rightarrow> u8 list \<Rightarrow> store
      \<Rightarrow> (store \<times> u64) result" where
  "settle rt transient dest buy_authority swap_program fee_ata remaining user bump
      fee dest_before min_out swap_data st =
     and_then (seeds_signer rt (buy_auth_seeds user) bump) (\<lambda>pda.
     and_then (skim_fee rt transient fee_ata buy_authority pda fee st) (\<lambda>st1.
     and_then (invoke_venue rt swap_program buy_authority remaining swap_data pda st1) (\<lambda>st2.
     and_then (check_outcome (key transient) (key dest) dest_before min_out st2) (\<lambda>out.
     Inr (st2, out)))))"

section \<open>Events\<close>

datatype event =
    BuyExecuted (ev_user: pubkey) (ev_amount_in: u64) (ev_amount_out: u64) (ev_fee: u64) (ev_venue: pubkey)
  | SellExecuted (ev_user: pubkey) (ev_amount_in: u64) (ev_amount_out: u64) (ev_fee: u64) (ev_venue: pubkey)

section \<open>Facts about the shared blocks\<close>

lemma execution_fee_Inr:
  "execution_fee a b = Inr (fee, net) \<longleftrightarrow>
     unat fee = (unat a * unat b div 10000) mod 2 ^ 64 \<and> unat a = unat fee + unat net"
proof -
  have "unat a * unat b < 2 ^ 128"
    using mult_strict_mono [OF unat_bound [of a] unat_bound [of b]] by simp
  then obtain product where product: "checked_mul (ucast a :: u128) (ucast b) = Some product"
      "unat product = unat a * unat b"
    using checked_mul_ok [of "ucast a :: u128" "ucast b"] by auto
  then obtain quotient where quotient: "checked_div product 10000 = Some quotient"
      "unat quotient = unat a * unat b div 10000"
    using checked_div_ok [of 10000 product] by auto
  have "execution_fee a b = Inr (fee, net) \<longleftrightarrow>
      fee = ucast quotient \<and> checked_sub a (ucast quotient) = Some net"
    by (auto simp: execution_fee_def product quotient result_simps)
  also have "\<dots> \<longleftrightarrow> unat fee = unat (ucast quotient :: u64) \<and> unat a = unat fee + unat net"
    by (auto simp: checked_sub_Some word_unat_eq_iff)
  finally show ?thesis by (simp only: unat_u128_u64 quotient(2))
qed

text \<open>Under the compiled-in cap the fee is exact, at most 1% of the input, and leaves a positive
  net amount of any positive input; none of the three checks can fail.\<close>

lemma fee_product_bound:
  assumes "unat (b :: u16) \<le> 100"
  shows "unat (a :: u64) * unat b div 10000 * 100 \<le> unat a"
proof -
  have "unat a * unat b \<le> unat a * 100" using assms by (rule mult_le_mono2)
  then have "unat a * unat b div 10000 \<le> unat a * 100 div 10000" by (rule div_le_mono)
  then show ?thesis by simp
qed

lemma execution_fee_capped:
  assumes "b \<le> MAX_FEE_BPS"
  shows "\<exists>fee net. execution_fee a b = Inr (fee, net)
    \<and> unat fee = unat a * unat b div 10000 \<and> unat a = unat fee + unat net
    \<and> 100 * unat fee \<le> unat a \<and> (0 < a \<longrightarrow> 0 < net)"
proof -
  have b: "unat b \<le> 100" using assms by (simp add: MAX_FEE_BPS_def word_le_nat_alt)
  define f where "f = unat a * unat b div 10000"
  have f: "f * 100 \<le> unat a" unfolding f_def using fee_product_bound [OF b] .
  then have le: "f \<le> unat a" by simp
  then have lt: "f < 2 ^ 64" using unat_bound [of a] by simp
  obtain fee :: u64 where fee: "unat fee = f" using fit_u_ok [of f, where 'a = 64] lt by auto
  have "unat fee \<le> unat a" using le fee by simp
  from checked_sub_ok [OF this] obtain net :: u64 where "unat net = unat a - unat fee" by blast
  with le fee have net: "unat a = unat fee + unat net" by simp
  have "0 < net" if "0 < a"
  proof -
    have "0 < unat a" using that by (simp add: unat_gt_0)
    then have "0 < unat net" using f net fee by linarith
    then show ?thesis by (simp add: word_less_nat_alt)
  qed
  moreover have "execution_fee a b = Inr (fee, net)"
    unfolding execution_fee_Inr f_def [symmetric] using fee net lt by simp
  moreover have "100 * unat fee \<le> unat a" using f fee by simp
  ultimately show ?thesis using fee net f_def by blast
qed

lemma execution_fee_capped_Inr:
  assumes "execution_fee a b = Inr (fee, net)" "b \<le> MAX_FEE_BPS"
  shows "unat fee = unat a * unat b div 10000" "unat a = unat fee + unat net" "100 * unat fee \<le> unat a"
proof -
  obtain fee' net' where *: "execution_fee a b = Inr (fee', net')"
      "unat fee' = unat a * unat b div 10000" "unat a = unat fee' + unat net'" "100 * unat fee' \<le> unat a"
    using execution_fee_capped [OF assms(2), of a] by metis
  with assms(1) have "fee' = fee" "net' = net" by simp_all
  with * show "unat fee = unat a * unat b div 10000" "unat a = unat fee + unat net"
    "100 * unat fee \<le> unat a" by simp_all
qed

lemma seeds_signer_Inr [result_simps]:
  "seeds_signer rt seeds b = Inr k \<longleftrightarrow> create_pda rt ROUTER_ID seeds b = Some k"
  by (auto simp: seeds_signer_def result_simps)

lemma skim_fee_Inr:
  "skim_fee rt src dst auth pda fee st = Inr st' \<longleftrightarrow>
     (if 0 < fee then transfer rt (call_signers [src, dst, auth] pda) (key src) (key dst) (key auth) fee st = Some st'
      else st' = st)"
  by (auto simp: skim_fee_def result_simps)

lemma invoke_venue_Inr:
  "invoke_venue rt sp ba remaining swap_data pda st = Inr st' \<longleftrightarrow>
     invoke rt \<lparr>program_id = key sp, ix_accounts = venue_metas (key ba) remaining, ix_data = swap_data\<rparr>
       (remaining @ [sp]) [pda] st = Some st'"
  by (simp add: invoke_venue_def result_simps)

lemma check_outcome_Inr:
  "check_outcome transient dest before min_out st = Inr out \<longleftrightarrow>
     (\<exists>t d. st transient = Some (TokenAcc t) \<and> st dest = Some (TokenAcc d)
        \<and> amount t = 0 \<and> unat (amount d) = unat before + unat out \<and> min_out \<le> out)"
  by (auto simp: check_outcome_def result_simps checked_sub_Some)

lemma settle_Inr:
  "settle rt transient dest ba sp fa remaining user bump fee before min_out swap_data st = Inr (st', out) \<longleftrightarrow>
     (\<exists>pda st1. create_pda rt ROUTER_ID (buy_auth_seeds user) bump = Some pda
        \<and> skim_fee rt transient fa ba pda fee st = Inr st1
        \<and> invoke_venue rt sp ba remaining swap_data pda st1 = Inr st'
        \<and> check_outcome (key transient) (key dest) before min_out st' = Inr out)"
  by (auto simp: settle_def result_simps)

text \<open>A completed settlement: the transient is empty and the destination gained \<open>out\<close>, at
  least \<open>min_out\<close>.\<close>

lemma settle_outcome:
  assumes "settle rt transient dest ba sp fa remaining user bump fee before min_out swap_data st = Inr (st', out)"
  shows "\<exists>t d. st' (key transient) = Some (TokenAcc t) \<and> st' (key dest) = Some (TokenAcc d)
    \<and> amount t = 0 \<and> unat (amount d) = unat before + unat out \<and> min_out \<le> out"
  using assms by (auto simp: settle_Inr check_outcome_Inr)

lemma settle_frame:
  assumes "settle rt transient dest ba sp fa remaining user bump fee before min_out swap_data st = Inr (st', out)"
    "owner_writes_only rt" "key sp \<noteq> ROUTER_ID"
  shows "router_frame st st'"
proof -
  from assms(1) obtain pda st1 where
    st1: "skim_fee rt transient fa ba pda fee st = Inr st1" and
    st': "invoke_venue rt sp ba remaining swap_data pda st1 = Inr st'"
    by (auto simp: settle_Inr)
  have "router_frame st st1"
    using st1 owner_writes_only_transfer [OF assms(2)] by (auto simp: skim_fee_Inr split: if_splits)
  moreover have "router_frame st1 st'"
    using st' assms(3) owner_writes_only_invoke [OF assms(2)] by (auto simp: invoke_venue_Inr)
  ultimately show ?thesis by (rule router_frame_trans)
qed

text \<open>Forcing the transient PDA to sign elevates nobody else.\<close>

lemma venue_metas_signers:
  "{meta_pubkey m | m. m \<in> set (venue_metas k infos) \<and> meta_is_signer m}
     \<subseteq> insert k {key ai | ai. ai \<in> set infos \<and> is_signer ai}"
  by (auto simp: venue_metas_def)

text \<open>The call of a completed settlement: made after the fee was taken, to the given program, with
  the user's own transient PDA as the one signature added.\<close>

lemma settle_call:
  assumes "settle rt transient dest ba sp fa remaining user bump fee before min_out swap_data st = Inr (st', out)"
    and "pda_derivation rt" "bump = snd (find_pda rt ROUTER_ID (buy_auth_seeds user))"
    and "key ba = fst (find_pda rt ROUTER_ID (buy_auth_seeds user))"
  shows "\<exists>ix st1. skim_fee rt transient fa ba (key ba) fee st = Inr st1
    \<and> invoke rt ix (remaining @ [sp]) [key ba] st1 = Some st' \<and> program_id ix = key sp
    \<and> {meta_pubkey m | m. m \<in> set (ix_accounts ix) \<and> meta_is_signer m}
        \<subseteq> insert (key ba) {key ai | ai. ai \<in> set remaining \<and> is_signer ai}"
proof -
  from assms(1) obtain pda st1 where
    "create_pda rt ROUTER_ID (buy_auth_seeds user) bump = Some pda" and
    skim: "skim_fee rt transient fa ba pda fee st = Inr st1" and
    call: "invoke_venue rt sp ba remaining swap_data pda st1 = Inr st'"
    by (auto simp: settle_Inr)
  with assms(2-4) have pda: "pda = key ba" by (simp add: pda_derivation_def)
  define ix where "ix = \<lparr>program_id = key sp, ix_accounts = venue_metas (key ba) remaining, ix_data = swap_data\<rparr>"
  have "invoke rt ix (remaining @ [sp]) [key ba] st1 = Some st'"
    using call pda by (simp add: invoke_venue_Inr ix_def)
  moreover have "program_id ix = key sp" by (simp add: ix_def)
  moreover have "{meta_pubkey m | m. m \<in> set (ix_accounts ix) \<and> meta_is_signer m}
      \<subseteq> insert (key ba) {key ai | ai. ai \<in> set remaining \<and> is_signer ai}"
    unfolding ix_def using venue_metas_signers [of "key ba" remaining] by simp
  ultimately show ?thesis using skim pda by blast
qed

end
