(* ===== verification/Buy_Router.thy ===== *)
theory Buy_Router
  imports Settlement
begin

text \<open>
  \<open>execute_buy\<close> of \<^verbatim>\<open>programs/recurring-buy/src/lib.rs\<close>: the account checks of \<open>ExecuteBuy\<close>, the
  guards before any token moves (\<open>buy_guards\<close>, every \<open>require!\<close> in order), and the settlement.
  The handler works on the accounts as they were deserialised when the instruction began
  (\<open>buy_context\<close>); only the two balances are reloaded after the venue call.
\<close>

record execute_buy_accounts =
  eb_keeper :: account_info
  eb_config :: account_info
  eb_user :: account_info
  eb_buy_authority :: account_info
  eb_transient_usdc :: account_info
  eb_dest_ata :: account_info
  eb_swap_program :: account_info
  eb_token_program :: account_info
  eb_fee_config :: account_info
  eb_fee_ata :: account_info

record buy_context =
  bc_config :: config
  bc_transient :: token_account
  bc_dest :: token_account
  bc_fee_config :: fee_config
  bc_bump :: u8

definition check_execute_buy ::
    "runtime \<Rightarrow> execute_buy_accounts \<Rightarrow> store \<Rightarrow> buy_context result" where
  "check_execute_buy rt accs st =
     require (is_signer (eb_keeper accs)) AccountsRejected (
     and_then (as_config (st (key (eb_config accs)))) (\<lambda>cfg.
     and_then (as_token (st (key (eb_transient_usdc accs)))) (\<lambda>transient.
     and_then (as_token (st (key (eb_dest_ata accs)))) (\<lambda>dest.
     require (key (eb_token_program accs) = token_program_id rt) AccountsRejected (
     and_then (as_fee_config (st (key (eb_fee_config accs)))) (\<lambda>fc.
     and_then (as_token (st (key (eb_fee_ata accs)))) (\<lambda>fee_acc.
     require (at_pda_with_bump rt config_seeds (config_bump cfg) (eb_config accs)) AccountsRejected (
     require (at_canonical_pda rt (buy_auth_seeds (key (eb_user accs))) (eb_buy_authority accs)) AccountsRejected (
     require (is_writable (eb_transient_usdc accs) \<and> is_writable (eb_dest_ata accs)) AccountsRejected (
     require (at_pda_with_bump rt fee_config_seeds (fee_bump fc) (eb_fee_config accs)) AccountsRejected (
     require (is_writable (eb_fee_ata accs)) AccountsRejected (
     Inr \<lparr>bc_config = cfg, bc_transient = transient, bc_dest = dest, bc_fee_config = fc,
          bc_bump = snd (find_pda rt ROUTER_ID (buy_auth_seeds (key (eb_user accs))))\<rparr>))))))))))))"

text \<open>The guards, up to the price floor. Returns \<open>amount_in\<close>, the fee and the net input.\<close>

definition buy_guards ::
    "runtime \<Rightarrow> execute_buy_accounts \<Rightarrow> buy_context \<Rightarrow> u64 \<Rightarrow> (u64 \<times> u64 \<times> u64) result" where
  "buy_guards rt accs ctx min_out =
     (let cfg = bc_config ctx; fc = bc_fee_config ctx; amount_in = amount (bc_transient ctx) in
     require (\<not> paused cfg) (Buy Paused) (
     require (token_mint (bc_dest ctx) = target_mint cfg) (Buy WrongTargetMint) (
     require (key (eb_dest_ata accs) = ata rt (key (eb_user accs)) (target_mint cfg))
       (Buy DestinationNotOwner) (
     require (token_mint (bc_transient ctx) = usdc_mint cfg) (Buy BadTransient) (
     require (key (eb_transient_usdc accs) = ata rt (key (eb_buy_authority accs)) (usdc_mint cfg))
       (Buy BadTransient) (
     require (0 < amount_in) (Buy NothingPulled) (
     and_then (is_whitelisted cfg (key (eb_swap_program accs))) (\<lambda>listed.
     require listed (Buy VenueNotWhitelisted) (
     and_then (execution_fee amount_in (fee_bps fc)) (\<lambda>(fee, net_in).
     require (0 < net_in) (Buy NothingPulled) (
     require (key (eb_fee_ata accs) = ata rt (destination fc) (usdc_mint cfg)) (Buy BadFeeAccount) (
     require (0 < price_ref_micros cfg) (Buy FloorNotConfigured) (
     and_then (price_floor net_in (price_ref_micros cfg) (target_decimals cfg) (max_slippage_bps cfg))
       (\<lambda>floor.
     require (floor \<le> min_out) (Buy MinOutTooLow) (
     Inr (amount_in, fee, net_in))))))))))))))))"

definition execute_buy ::
    "runtime \<Rightarrow> execute_buy_accounts \<Rightarrow> account_info list \<Rightarrow> u64 \<Rightarrow> u8 list \<Rightarrow> store
      \<Rightarrow> (store \<times> event) result" where
  "execute_buy rt accs remaining min_out swap_data st =
     and_then (check_execute_buy rt accs st) (\<lambda>ctx.
     and_then (buy_guards rt accs ctx min_out) (\<lambda>(amount_in, fee, net_in).
     and_then (settle rt (eb_transient_usdc accs) (eb_dest_ata accs) (eb_buy_authority accs)
         (eb_swap_program accs) (eb_fee_ata accs) remaining (key (eb_user accs)) (bc_bump ctx)
         fee (amount (bc_dest ctx)) min_out swap_data st) (\<lambda>(st', out).
     Inr (st', BuyExecuted (key (eb_user accs)) amount_in out fee (key (eb_swap_program accs))))))"

end
