(* ===== verification/Sell_Router.thy ===== *)
theory Sell_Router
  imports Settlement
begin

text \<open>
  \<open>execute_sell\<close> of \<^verbatim>\<open>programs/recurring-buy/src/lib.rs\<close>: the account checks of \<open>ExecuteSell\<close>, the
  guards (\<open>sell_guards\<close>: terminal state, clock gate, canonical accounts, amortisation cap, venue,
  fee and floor, in order), the settlement shared with the buy side, and the advance of the
  plan's clock gate, which is written back when the instruction ends.
\<close>

record execute_sell_accounts =
  es_keeper :: account_info
  es_config :: account_info
  es_user :: account_info
  es_sell_plan :: account_info
  es_buy_authority :: account_info
  es_transient_target :: account_info
  es_user_target_ata :: account_info
  es_dest_usdc :: account_info
  es_swap_program :: account_info
  es_token_program :: account_info
  es_fee_config :: account_info
  es_fee_ata :: account_info

record sell_context =
  sc_config :: config
  sc_plan :: sell_plan
  sc_transient :: token_account
  sc_pot :: token_account
  sc_dest :: token_account
  sc_fee_config :: fee_config
  sc_bump :: u8

definition check_execute_sell ::
    "runtime \<Rightarrow> execute_sell_accounts \<Rightarrow> store \<Rightarrow> sell_context result" where
  "check_execute_sell rt accs st =
     require (is_signer (es_keeper accs)) AccountsRejected (
     and_then (as_config (st (key (es_config accs)))) (\<lambda>cfg.
     and_then (as_sell_plan (st (key (es_sell_plan accs)))) (\<lambda>plan.
     and_then (as_token (st (key (es_transient_target accs)))) (\<lambda>transient.
     and_then (as_token (st (key (es_user_target_ata accs)))) (\<lambda>pot.
     and_then (as_token (st (key (es_dest_usdc accs)))) (\<lambda>dest.
     require (key (es_token_program accs) = token_program_id rt) AccountsRejected (
     and_then (as_fee_config (st (key (es_fee_config accs)))) (\<lambda>fc.
     and_then (as_token (st (key (es_fee_ata accs)))) (\<lambda>fee_acc.
     require (at_pda_with_bump rt config_seeds (config_bump cfg) (es_config accs)) AccountsRejected (
     require (is_writable (es_sell_plan accs)) AccountsRejected (
     require (at_pda_with_bump rt (sell_plan_seeds (key (es_user accs))) (plan_bump plan) (es_sell_plan accs)) AccountsRejected (
     require (plan_user plan = key (es_user accs)) AccountsRejected (
     require (at_canonical_pda rt (buy_auth_seeds (key (es_user accs))) (es_buy_authority accs)) AccountsRejected (
     require (is_writable (es_transient_target accs) \<and> is_writable (es_dest_usdc accs)) AccountsRejected (
     require (at_pda_with_bump rt fee_config_seeds (fee_bump fc) (es_fee_config accs)) AccountsRejected (
     require (is_writable (es_fee_ata accs)) AccountsRejected (
     Inr \<lparr>sc_config = cfg, sc_plan = plan, sc_transient = transient, sc_pot = pot, sc_dest = dest,
          sc_fee_config = fc,
          sc_bump = snd (find_pda rt ROUTER_ID (buy_auth_seeds (key (es_user accs))))\<rparr>)))))))))))))))))"

section \<open>The amortisation cap\<close>

text \<open>The pulled amount may not exceed (wallet + this pull) / (periods remaining).\<close>

definition sell_cap :: "u64 \<Rightarrow> u64 \<Rightarrow> sell_plan \<Rightarrow> i64 \<Rightarrow> u128 result" where
  "sell_cap wallet amount_in plan now =
     ok_or (checked_add (ucast wallet :: u128) (ucast amount_in)) (Buy Overflow) (\<lambda>total_pot.
     and_then (remaining_periods plan now) (\<lambda>periods.
     ok_or (checked_div total_pot (scast periods)) (Buy Overflow) Inr))"

definition sell_guards ::
    "runtime \<Rightarrow> execute_sell_accounts \<Rightarrow> sell_context \<Rightarrow> i64 \<Rightarrow> u64 \<Rightarrow> (u64 \<times> u64 \<times> u64) result" where
  "sell_guards rt accs ctx now min_out =
     (let cfg = sc_config ctx; fc = sc_fee_config ctx; plan = sc_plan ctx;
          amount_in = amount (sc_transient ctx) in
     require (\<not> paused cfg) (Buy Paused) (
     require (sint (next_due_ts plan) \<le> sint (end_ts plan)) (Buy PlanCompleted) (
     require (sint (next_due_ts plan) \<le> sint now) (Buy NotDue) (
     require (key (es_dest_usdc accs) = ata rt (key (es_user accs)) (usdc_mint cfg))
       (Buy DestinationNotOwner) (
     require (key (es_transient_target accs) = ata rt (key (es_buy_authority accs)) (target_mint cfg))
       (Buy BadTransient) (
     require (key (es_user_target_ata accs) = ata rt (key (es_user accs)) (target_mint cfg))
       (Buy BadPotAccount) (
     require (0 < amount_in) (Buy NothingPulled) (
     and_then (sell_cap (amount (sc_pot ctx)) amount_in plan now) (\<lambda>cap.
     require (ucast amount_in \<le> cap) (Buy OverdrawSchedule) (
     and_then (is_whitelisted cfg (key (es_swap_program accs))) (\<lambda>listed.
     require listed (Buy VenueNotWhitelisted) (
     and_then (execution_fee amount_in (fee_bps fc)) (\<lambda>(fee, net_in).
     require (0 < net_in) (Buy NothingPulled) (
     require (key (es_fee_ata accs) = ata rt (destination fc) (target_mint cfg)) (Buy BadFeeAccount) (
     require (0 < price_ref_micros cfg) (Buy FloorNotConfigured) (
     and_then (sell_floor net_in (price_ref_micros cfg) (target_decimals cfg) (max_slippage_bps cfg))
       (\<lambda>floor.
     require (floor \<le> min_out) (Buy MinOutTooLow) (
     Inr (amount_in, fee, net_in)))))))))))))))))))"

section \<open>The clock gate\<close>

text \<open>\<open>k = (now - next_due_ts) / period_secs + 1\<close> periods are skipped at once.\<close>

definition advance_plan :: "sell_plan \<Rightarrow> i64 \<Rightarrow> sell_plan result" where
  "advance_plan plan now =
     ok_or (i64_checked_sub now (next_due_ts plan)) (Buy Overflow) (\<lambda>late.
     ok_or (i64_checked_div late (period_secs plan)) (Buy Overflow) (\<lambda>whole.
     ok_or (i64_checked_add whole 1) (Buy Overflow) (\<lambda>k.
     ok_or (i64_checked_mul k (period_secs plan)) (Buy Overflow) (\<lambda>jump.
     ok_or (i64_checked_add (next_due_ts plan) jump) (Buy Overflow) (\<lambda>due.
     Inr (plan\<lparr>next_due_ts := due\<rparr>))))))"

definition execute_sell ::
    "runtime \<Rightarrow> execute_sell_accounts \<Rightarrow> account_info list \<Rightarrow> u64 \<Rightarrow> u8 list \<Rightarrow> i64 \<Rightarrow> store
      \<Rightarrow> (store \<times> event) result" where
  "execute_sell rt accs remaining min_out swap_data now st =
     and_then (check_execute_sell rt accs st) (\<lambda>ctx.
     and_then (sell_guards rt accs ctx now min_out) (\<lambda>(amount_in, fee, net_in).
     and_then (settle rt (es_transient_target accs) (es_dest_usdc accs) (es_buy_authority accs)
         (es_swap_program accs) (es_fee_ata accs) remaining (key (es_user accs)) (sc_bump ctx)
         fee (amount (sc_dest ctx)) min_out swap_data st) (\<lambda>(st', out).
     and_then (advance_plan (sc_plan ctx) now) (\<lambda>plan'.
     Inr (st'(key (es_sell_plan accs) \<mapsto> SellPlanAcc plan'),
          SellExecuted (key (es_user accs)) amount_in out fee (key (es_swap_program accs)))))))"

end
