(* ===== verification/Demo_World.thy ===== *)
theory Demo_World
  imports Mock_Swap Buy_Router Sell_Router
begin

text \<open>
  A small concrete runtime and store, on which the witnesses evaluate the model: addresses are
  small numbers, the token program follows the SPL rules, and the only program that can be
  called is the mock venue. Nothing here models code of the repository.
\<close>

fun demo_find :: "pubkey \<Rightarrow> seed list \<Rightarrow> pubkey \<times> u8" where
  "demo_find p [Bytes s] = (if s = CONFIG_SEED then (10, 255) else if s = FEE_CONFIG_SEED then (11, 254)
      else if s = POOL_SEED then (12, 253) else (13, 252))"
| "demo_find p [Bytes s, KeyBytes u] =
      (if s = BUY_AUTH_SEED then (1000 + u, 251) else if s = SELL_PLAN_SEED then (2000 + u, 250) else (14, 249))"
| "demo_find p _ = (15, 248)"

definition demo_create :: "pubkey \<Rightarrow> seed list \<Rightarrow> u8 \<Rightarrow> pubkey option" where
  "demo_create p seeds b = (if b = snd (demo_find p seeds) then Some (fst (demo_find p seeds)) else None)"

definition demo_ata :: "pubkey \<Rightarrow> pubkey \<Rightarrow> pubkey" where
  "demo_ata w mint = 100000 * mint + w"

definition demo_transfer ::
    "pubkey list \<Rightarrow> pubkey \<Rightarrow> pubkey \<Rightarrow> pubkey \<Rightarrow> u64 \<Rightarrow> store \<Rightarrow> store option" where
  "demo_transfer signers src dst authority n st =
     (case (st src, st dst) of
        (Some (TokenAcc s), Some (TokenAcc d)) \<Rightarrow>
          if src \<noteq> dst \<and> can_transfer signers authority n s d
          then Some (credit dst n d (debit src n s st)) else None
      | _ \<Rightarrow> None)"

definition demo_base :: runtime where
  "demo_base = \<lparr>find_pda = demo_find, create_pda = demo_create, ata = demo_ata,
     token_program_id = 3, system_program_id = 4, transfer = demo_transfer,
     invoke = (\<lambda>_ _ _ _. None)\<rparr>"

text \<open>Arguments travel as the list of the two amounts' low bytes, scaled by 50000.\<close>

fun demo_decode :: "u8 list \<Rightarrow> (u64 \<times> u64) option" where
  "demo_decode [a, b] = Some (50000 * ucast a, 50000 * ucast b)"
| "demo_decode _ = None"

definition demo_invoke ::
    "cpi_instruction \<Rightarrow> account_info list \<Rightarrow> pubkey list \<Rightarrow> store \<Rightarrow> store option" where
  "demo_invoke ix infos pdas st =
     (if program_id ix = MOCK_SWAP_ID \<and> call_permitted ix infos pdas
      then mock_dispatch demo_base demo_decode ix st else None)"

definition demo_rt :: runtime where
  "demo_rt = demo_base\<lparr>invoke := demo_invoke\<rparr>"

section \<open>A funded store\<close>

text \<open>User 100 has 10 USDC pulled into the transient USDC account and 10 of 100 target tokens
  pulled into the transient target account; the fee is 0.5% to wallet 30; the plan of the user
  was opened at time 1000 for ten periods of 60 seconds and some slack.\<close>

definition demo_config :: config where
  "demo_config = \<lparr>admin = 1, target_mint = 21, usdc_mint = 20, swap_programs = [MOCK_SWAP_ID, 0, 0],
     swap_program_count = 1, price_ref_micros = 1000000, target_decimals = 6, max_slippage_bps = 100,
     paused = False, config_bump = 255\<rparr>"

definition demo_fee_config :: fee_config where
  "demo_fee_config = \<lparr>fee_bps = 50, destination = 30, fee_bump = 254\<rparr>"

definition demo_plan :: sell_plan where
  "demo_plan = \<lparr>plan_user = 100, end_ts = 1655, period_secs = 60, next_due_ts = 1000, plan_bump = 250\<rparr>"

definition demo_token :: "pubkey \<Rightarrow> pubkey \<Rightarrow> u64 \<Rightarrow> account" where
  "demo_token mint owner n = TokenAcc \<lparr>token_mint = mint, token_owner = owner, amount = n, frozen = False\<rparr>"

definition demo_store :: store where
  "demo_store = [
     10 \<mapsto> ConfigAcc demo_config,
     11 \<mapsto> FeeConfigAcc demo_fee_config,
     2100 \<mapsto> SellPlanAcc demo_plan,
     20 \<mapsto> MintAcc \<lparr>decimals = 6\<rparr>,
     21 \<mapsto> MintAcc \<lparr>decimals = 6\<rparr>,
     2001100 \<mapsto> demo_token 20 1100 10000000,
     2101100 \<mapsto> demo_token 21 1100 10000000,
     2100100 \<mapsto> demo_token 21 100 90000000,
     2000100 \<mapsto> demo_token 20 100 0,
     2000030 \<mapsto> demo_token 20 30 0,
     2100030 \<mapsto> demo_token 21 30 0,
     2000012 \<mapsto> demo_token 20 12 1000000000,
     2100012 \<mapsto> demo_token 21 12 1000000000]"

abbreviation readonly :: "pubkey \<Rightarrow> account_info" where
  "readonly k \<equiv> \<lparr>key = k, is_signer = False, is_writable = False\<rparr>"

abbreviation writable :: "pubkey \<Rightarrow> account_info" where
  "writable k \<equiv> \<lparr>key = k, is_signer = False, is_writable = True\<rparr>"

abbreviation signing :: "pubkey \<Rightarrow> account_info" where
  "signing k \<equiv> \<lparr>key = k, is_signer = True, is_writable = True\<rparr>"

definition demo_buy :: execute_buy_accounts where
  "demo_buy = \<lparr>eb_keeper = signing 7, eb_config = readonly 10, eb_user = readonly 100,
     eb_buy_authority = readonly 1100, eb_transient_usdc = writable 2001100, eb_dest_ata = writable 2100100,
     eb_swap_program = readonly MOCK_SWAP_ID, eb_token_program = readonly 3, eb_fee_config = readonly 11,
     eb_fee_ata = writable 2000030\<rparr>"

definition demo_buy_route :: "account_info list" where
  "demo_buy_route = [writable 2001100, readonly 1100, writable 2000012, writable 2100012, writable 2100100,
     readonly 12, readonly 3]"

definition demo_sell :: execute_sell_accounts where
  "demo_sell = \<lparr>es_keeper = signing 7, es_config = readonly 10, es_user = readonly 100,
     es_sell_plan = writable 2100, es_buy_authority = readonly 1100, es_transient_target = writable 2101100,
     es_user_target_ata = readonly 2100100, es_dest_usdc = writable 2000100,
     es_swap_program = readonly MOCK_SWAP_ID, es_token_program = readonly 3, es_fee_config = readonly 11,
     es_fee_ata = writable 2100030\<rparr>"

definition demo_sell_route :: "account_info list" where
  "demo_sell_route = [writable 2101100, readonly 1100, writable 2100012, writable 2000012, writable 2000100,
     readonly 12, readonly 3]"

lemma demo_pda_derivation: "pda_derivation demo_rt"
  by (simp add: pda_derivation_def demo_rt_def demo_base_def demo_create_def)

end
