(* ===== verification/Admin_Ops.thy ===== *)
theory Admin_Ops
  imports Solana_Runtime
begin

text \<open>
  The administrative instructions of \<^verbatim>\<open>programs/recurring-buy/src/lib.rs\<close>: \<open>init_config\<close>,
  \<open>set_pause\<close>, \<open>set_params\<close>, \<open>set_whitelist\<close>, \<open>init_fee_config\<close> and \<open>set_fee\<close>. Each is the account
  check of its \<open>#[derive(Accounts)]\<close> struct (\<open>check_*\<close>), followed by the handler and by the
  write-back of the accounts the struct marks \<open>init\<close> or \<open>mut\<close>. The locale \<open>admin_gated\<close> is what
  the five instructions behind the config's \<open>has_one = admin\<close> promise.
\<close>

section \<open>init_config\<close>

record init_config_accounts =
  ic_admin :: account_info
  ic_config :: account_info
  ic_target_mint :: account_info
  ic_usdc_mint :: account_info
  ic_system_program :: account_info

text \<open>Returns the two mints and \<open>ctx.bumps.config\<close>.\<close>

definition check_init_config ::
    "runtime \<Rightarrow> init_config_accounts \<Rightarrow> store \<Rightarrow> (mint_account \<times> mint_account \<times> u8) result" where
  "check_init_config rt accs st =
     require (is_signer (ic_admin accs) \<and> is_writable (ic_admin accs)) AccountsRejected (
     require (at_canonical_pda rt config_seeds (ic_config accs)) AccountsRejected (
     require (is_writable (ic_config accs) \<and> can_init st (ic_admin accs) (ic_config accs)) AccountsRejected (
     and_then (as_mint (st (key (ic_target_mint accs)))) (\<lambda>target.
     and_then (as_mint (st (key (ic_usdc_mint accs)))) (\<lambda>usdc.
     require (key (ic_system_program accs) = system_program_id rt) AccountsRejected (
     Inr (target, usdc, snd (find_pda rt ROUTER_ID config_seeds))))))))"

definition init_config ::
    "runtime \<Rightarrow> init_config_accounts \<Rightarrow> pubkey list \<Rightarrow> u64 \<Rightarrow> u16 \<Rightarrow> store \<Rightarrow> store result" where
  "init_config rt accs venue_list price slippage st =
     and_then (check_init_config rt accs st) (\<lambda>(target, usdc, bump).
     require (length venue_list \<le> MAX_SWAP_PROGRAMS) (Buy TooManyVenues) (
     require (slippage \<le> 10000) (Buy BadParam) (
     require (decimals target \<le> 12) (Buy BadParam) (
     require (decimals usdc = 6) (Buy BadParam) (
     and_then (fill_swap_programs venue_list) (\<lambda>arr.
     Inr (st(key (ic_config accs) \<mapsto> ConfigAcc
       \<lparr>admin = key (ic_admin accs),
        target_mint = key (ic_target_mint accs),
        usdc_mint = key (ic_usdc_mint accs),
        swap_programs = arr,
        swap_program_count = word_of_nat (length venue_list),
        price_ref_micros = price,
        target_decimals = decimals target,
        max_slippage_bps = slippage,
        paused = False,
        config_bump = bump\<rparr>))))))))"

section \<open>Instructions on the config: set_pause, set_params, set_whitelist\<close>

record admin_only_accounts =
  ao_admin :: account_info
  ao_config :: account_info

definition check_admin_only :: "runtime \<Rightarrow> admin_only_accounts \<Rightarrow> store \<Rightarrow> config result" where
  "check_admin_only rt accs st =
     require (is_signer (ao_admin accs)) AccountsRejected (
     and_then (as_config (st (key (ao_config accs)))) (\<lambda>cfg.
     require (is_writable (ao_config accs)) AccountsRejected (
     require (at_pda_with_bump rt config_seeds (config_bump cfg) (ao_config accs)) AccountsRejected (
     require (admin cfg = key (ao_admin accs)) AccountsRejected (
     Inr cfg)))))"

definition set_pause :: "runtime \<Rightarrow> admin_only_accounts \<Rightarrow> bool \<Rightarrow> store \<Rightarrow> store result" where
  "set_pause rt accs flag st =
     and_then (check_admin_only rt accs st) (\<lambda>cfg.
     Inr (st(key (ao_config accs) \<mapsto> ConfigAcc (cfg\<lparr>paused := flag\<rparr>))))"

definition set_params :: "runtime \<Rightarrow> admin_only_accounts \<Rightarrow> u64 \<Rightarrow> u16 \<Rightarrow> store \<Rightarrow> store result" where
  "set_params rt accs price slippage st =
     and_then (check_admin_only rt accs st) (\<lambda>cfg.
     require (slippage \<le> 10000) (Buy BadParam) (
     Inr (st(key (ao_config accs) \<mapsto>
       ConfigAcc (cfg\<lparr>price_ref_micros := price, max_slippage_bps := slippage\<rparr>)))))"

definition set_whitelist ::
    "runtime \<Rightarrow> admin_only_accounts \<Rightarrow> pubkey list \<Rightarrow> store \<Rightarrow> store result" where
  "set_whitelist rt accs venue_list st =
     and_then (check_admin_only rt accs st) (\<lambda>cfg.
     require (length venue_list \<le> MAX_SWAP_PROGRAMS) (Buy TooManyVenues) (
     and_then (fill_swap_programs venue_list) (\<lambda>arr.
     Inr (st(key (ao_config accs) \<mapsto> ConfigAcc
       (cfg\<lparr>swap_programs := arr, swap_program_count := word_of_nat (length venue_list)\<rparr>))))))"

section \<open>The fee config: init_fee_config, set_fee\<close>

record init_fee_config_accounts =
  if_admin :: account_info
  if_config :: account_info
  if_fee_config :: account_info
  if_system_program :: account_info

text \<open>Returns \<open>ctx.bumps.fee_config\<close>.\<close>

definition check_init_fee_config ::
    "runtime \<Rightarrow> init_fee_config_accounts \<Rightarrow> store \<Rightarrow> u8 result" where
  "check_init_fee_config rt accs st =
     require (is_signer (if_admin accs) \<and> is_writable (if_admin accs)) AccountsRejected (
     and_then (as_config (st (key (if_config accs)))) (\<lambda>cfg.
     require (at_pda_with_bump rt config_seeds (config_bump cfg) (if_config accs)) AccountsRejected (
     require (admin cfg = key (if_admin accs)) AccountsRejected (
     require (at_canonical_pda rt fee_config_seeds (if_fee_config accs)) AccountsRejected (
     require (is_writable (if_fee_config accs) \<and> can_init st (if_admin accs) (if_fee_config accs)) AccountsRejected (
     require (key (if_system_program accs) = system_program_id rt) AccountsRejected (
     Inr (snd (find_pda rt ROUTER_ID fee_config_seeds)))))))))"

definition init_fee_config ::
    "runtime \<Rightarrow> init_fee_config_accounts \<Rightarrow> u16 \<Rightarrow> pubkey \<Rightarrow> store \<Rightarrow> store result" where
  "init_fee_config rt accs bps dest st =
     and_then (check_init_fee_config rt accs st) (\<lambda>bump.
     require (bps \<le> MAX_FEE_BPS) (Buy FeeTooHigh) (
     Inr (st(key (if_fee_config accs) \<mapsto>
       FeeConfigAcc \<lparr>fee_bps = bps, destination = dest, fee_bump = bump\<rparr>))))"

record set_fee_accounts =
  sf_admin :: account_info
  sf_config :: account_info
  sf_fee_config :: account_info

definition check_set_fee :: "runtime \<Rightarrow> set_fee_accounts \<Rightarrow> store \<Rightarrow> fee_config result" where
  "check_set_fee rt accs st =
     require (is_signer (sf_admin accs)) AccountsRejected (
     and_then (as_config (st (key (sf_config accs)))) (\<lambda>cfg.
     and_then (as_fee_config (st (key (sf_fee_config accs)))) (\<lambda>fc.
     require (at_pda_with_bump rt config_seeds (config_bump cfg) (sf_config accs)) AccountsRejected (
     require (admin cfg = key (sf_admin accs)) AccountsRejected (
     require (is_writable (sf_fee_config accs)) AccountsRejected (
     require (at_pda_with_bump rt fee_config_seeds (fee_bump fc) (sf_fee_config accs)) AccountsRejected (
     Inr fc)))))))"

definition set_fee :: "runtime \<Rightarrow> set_fee_accounts \<Rightarrow> u16 \<Rightarrow> pubkey \<Rightarrow> store \<Rightarrow> store result" where
  "set_fee rt accs bps dest st =
     and_then (check_set_fee rt accs st) (\<lambda>fc.
     require (bps \<le> MAX_FEE_BPS) (Buy FeeTooHigh) (
     Inr (st(key (sf_fee_config accs) \<mapsto>
       FeeConfigAcc (fc\<lparr>fee_bps := bps, destination := dest\<rparr>)))))"

lemmas admin_checks =
  check_init_config_def check_admin_only_def check_init_fee_config_def check_set_fee_def

lemmas admin_ops =
  init_config_def set_pause_def set_params_def set_whitelist_def init_fee_config_def set_fee_def

end
