(* ===== verification/Admin_Properties.thy ===== *)
theory Admin_Properties
  imports Demo_World Admin_Ops
begin

text \<open>
  The administrative instructions: their effect on every branch, and, through the locale
  \<open>admin_gated\<close>, what the five instructions behind \<open>has_one = admin\<close> share. Only the admin of the
  stored config completes them, they write one account of the program, and neither a token
  account nor a sell plan changes.
\<close>

section \<open>Inversion\<close>

lemma check_admin_only_Inr [result_simps]:
  "check_admin_only rt accs st = Inr cfg \<longleftrightarrow>
     is_signer (ao_admin accs) \<and> st (key (ao_config accs)) = Some (ConfigAcc cfg)
     \<and> is_writable (ao_config accs) \<and> at_pda_with_bump rt config_seeds (config_bump cfg) (ao_config accs)
     \<and> admin cfg = key (ao_admin accs)"
  by (auto simp: check_admin_only_def result_simps)

lemma check_init_fee_config_Inr [result_simps]:
  "check_init_fee_config rt accs st = Inr bump \<longleftrightarrow>
     is_signer (if_admin accs) \<and> is_writable (if_admin accs)
     \<and> (\<exists>cfg. st (key (if_config accs)) = Some (ConfigAcc cfg)
          \<and> at_pda_with_bump rt config_seeds (config_bump cfg) (if_config accs)
          \<and> admin cfg = key (if_admin accs))
     \<and> at_canonical_pda rt fee_config_seeds (if_fee_config accs)
     \<and> is_writable (if_fee_config accs) \<and> can_init st (if_admin accs) (if_fee_config accs)
     \<and> key (if_system_program accs) = system_program_id rt
     \<and> bump = snd (find_pda rt ROUTER_ID fee_config_seeds)"
  by (auto simp: check_init_fee_config_def result_simps)

lemma check_set_fee_Inr [result_simps]:
  "check_set_fee rt accs st = Inr fc \<longleftrightarrow>
     is_signer (sf_admin accs)
     \<and> (\<exists>cfg. st (key (sf_config accs)) = Some (ConfigAcc cfg)
          \<and> at_pda_with_bump rt config_seeds (config_bump cfg) (sf_config accs)
          \<and> admin cfg = key (sf_admin accs))
     \<and> st (key (sf_fee_config accs)) = Some (FeeConfigAcc fc)
     \<and> is_writable (sf_fee_config accs)
     \<and> at_pda_with_bump rt fee_config_seeds (fee_bump fc) (sf_fee_config accs)"
  by (auto simp: check_set_fee_def result_simps)

lemma check_init_config_Inr [result_simps]:
  "check_init_config rt accs st = Inr (target, usdc, bump) \<longleftrightarrow>
     is_signer (ic_admin accs) \<and> is_writable (ic_admin accs)
     \<and> at_canonical_pda rt config_seeds (ic_config accs)
     \<and> is_writable (ic_config accs) \<and> can_init st (ic_admin accs) (ic_config accs)
     \<and> st (key (ic_target_mint accs)) = Some (MintAcc target)
     \<and> st (key (ic_usdc_mint accs)) = Some (MintAcc usdc)
     \<and> key (ic_system_program accs) = system_program_id rt
     \<and> bump = snd (find_pda rt ROUTER_ID config_seeds)"
  by (auto simp: check_init_config_def result_simps)

section \<open>The contract of an instruction behind the admin's signature\<close>

fun admin_account :: "account option \<Rightarrow> bool" where
  "admin_account (Some (ConfigAcc _)) = True"
| "admin_account (Some (FeeConfigAcc _)) = True"
| "admin_account _ = False"

text \<open>\<open>config_gate rt st config caller\<close>: the account \<open>config\<close> is the stored config, and \<open>caller\<close>
  signed as its admin.\<close>

definition config_gate :: "runtime \<Rightarrow> store \<Rightarrow> account_info \<Rightarrow> account_info \<Rightarrow> bool" where
  "config_gate rt st config caller \<longleftrightarrow> is_signer caller
     \<and> (\<exists>cfg. st (key config) = Some (ConfigAcc cfg)
          \<and> at_pda_with_bump rt config_seeds (config_bump cfg) config \<and> admin cfg = key caller)"

locale admin_gated =
  fixes rt :: runtime
    and run :: "store \<Rightarrow> store result"
    and config caller :: account_info
    and written :: pubkey
  assumes gated: "run st = Inr st' \<Longrightarrow> config_gate rt st config caller"
    and writes_one: "run st = Inr st' \<Longrightarrow> \<exists>a. st' = st(written \<mapsto> a) \<and> admin_account (Some a)
      \<and> (st written = None \<or> admin_account (st written))"
    and keeps_admin: "run st = Inr st' \<Longrightarrow> st (key config) = Some (ConfigAcc cfg) \<Longrightarrow>
      \<exists>cfg'. st' (key config) = Some (ConfigAcc cfg') \<and> admin cfg' = admin cfg \<and> config_bump cfg' = config_bump cfg"
begin

lemma stranger_fails:
  assumes "st (key config) = Some (ConfigAcc cfg)" "\<not> is_signer caller \<or> admin cfg \<noteq> key caller"
  shows "\<exists>e. run st = Inl e"
proof (cases "run st")
  case (Inr st')
  from gated [OF this] assms show ?thesis by (auto simp: config_gate_def)
qed simp

lemma tokens_and_plans_kept:
  assumes "run st = Inr st'"
  shows "st' k = Some (TokenAcc t) \<longleftrightarrow> st k = Some (TokenAcc t)"
    and "st' k = Some (SellPlanAcc p) \<longleftrightarrow> st k = Some (SellPlanAcc p)"
    and "st' k = Some (MintAcc m) \<longleftrightarrow> st k = Some (MintAcc m)"
  using writes_one [OF assms] by (auto split: if_splits)

lemma admin_stays:
  assumes "run st = Inr st'"
  shows "config_gate rt st' config caller"
proof -
  from gated [OF assms] obtain cfg where *: "is_signer caller" "st (key config) = Some (ConfigAcc cfg)"
      "at_pda_with_bump rt config_seeds (config_bump cfg) config" "admin cfg = key caller"
    by (auto simp: config_gate_def)
  with keeps_admin [OF assms *(2)] show ?thesis by (auto simp: config_gate_def)
qed

end

interpretation pause: admin_gated rt "set_pause rt accs flag" "ao_config accs" "ao_admin accs" "key (ao_config accs)"
  for rt accs flag
  by unfold_locales (auto simp: set_pause_def result_simps config_gate_def)

interpretation params: admin_gated rt "set_params rt accs price slippage" "ao_config accs" "ao_admin accs" "key (ao_config accs)"
  for rt accs price slippage
  by unfold_locales (auto simp: set_params_def result_simps config_gate_def)

interpretation whitelist: admin_gated rt "set_whitelist rt accs venue_list" "ao_config accs" "ao_admin accs" "key (ao_config accs)"
  for rt accs venue_list
  by unfold_locales (auto simp: set_whitelist_def result_simps config_gate_def)

interpretation new_fee: admin_gated rt "init_fee_config rt accs bps dest" "if_config accs" "if_admin accs" "key (if_fee_config accs)"
  for rt accs bps dest
  by unfold_locales (auto simp: init_fee_config_def result_simps config_gate_def can_init_def)

interpretation fee: admin_gated rt "set_fee rt accs bps dest" "sf_config accs" "sf_admin accs" "key (sf_fee_config accs)"
  for rt accs bps dest
  by unfold_locales (auto simp: set_fee_def result_simps config_gate_def)

section \<open>Properties\<close>

text \<open>Claim C19. Only the admin: against a config with some other admin, or without the admin's
  signature, each of the five administrative instructions fails, whatever accounts and
  arguments come with it.\<close>

theorem admin_ops_refuse_strangers:
  assumes "st (key cfg_acc) = Some (ConfigAcc cfg)" "\<not> is_signer caller \<or> admin cfg \<noteq> key caller"
    and "ao_config ao = cfg_acc" "ao_admin ao = caller"
    and "if_config ifa = cfg_acc" "if_admin ifa = caller"
    and "sf_config sf = cfg_acc" "sf_admin sf = caller"
  shows "(\<exists>e. set_pause rt ao flag st = Inl e) \<and> (\<exists>e. set_params rt ao price slippage st = Inl e)
    \<and> (\<exists>e. set_whitelist rt ao venue_list st = Inl e)
    \<and> (\<exists>e. init_fee_config rt ifa bps dest st = Inl e) \<and> (\<exists>e. set_fee rt sf bps dest st = Inl e)"
  using assms pause.stranger_fails params.stranger_fails whitelist.stranger_fails
    new_fee.stranger_fails fee.stranger_fails by metis

theorem admin_ops_refuse_strangers_witness:
  "\<exists>e. set_whitelist demo_rt \<lparr>ao_admin = signing 666, ao_config = writable 10\<rparr> [MOCK_SWAP_ID, 666] demo_store = Inl e"
  using admin_ops_refuse_strangers [where cfg_acc = "writable 10" and caller = "signing 666"
      and cfg = demo_config and st = demo_store and rt = demo_rt
      and ao = "\<lparr>ao_admin = signing 666, ao_config = writable 10\<rparr>"
      and ifa = "\<lparr>if_admin = signing 666, if_config = writable 10, if_fee_config = writable 11, if_system_program = readonly 4\<rparr>"
      and sf = "\<lparr>sf_admin = signing 666, sf_config = writable 10, sf_fee_config = writable 11\<rparr>"]
  by (simp add: demo_store_def demo_config_def)

text \<open>Claim C21. The whitelist is the admin's to replace: \<open>set_whitelist\<close> completes exactly when the
  account is a config at the address of its seeds, writable, whose stored admin is the key of
  the caller, the caller signed, and at most three programs are given; it then leaves exactly
  these on the whitelist, none of the old ones, and changes nothing else.\<close>

theorem set_whitelist_replaces:
  "set_whitelist rt accs venue_list st = Inr st' \<longleftrightarrow>
     (\<exists>cfg cfg'. st (key (ao_config accs)) = Some (ConfigAcc cfg)
        \<and> create_pda rt ROUTER_ID config_seeds (config_bump cfg) = Some (key (ao_config accs))
        \<and> is_writable (ao_config accs)
        \<and> is_signer (ao_admin accs) \<and> admin cfg = key (ao_admin accs)
        \<and> length venue_list \<le> 3
        \<and> cfg' = cfg\<lparr>swap_programs := venue_list @ replicate (3 - length venue_list) 0,
                     swap_program_count := word_of_nat (length venue_list)\<rparr>
        \<and> venues cfg' = set venue_list
        \<and> st' = st(key (ao_config accs) \<mapsto> ConfigAcc cfg'))"
proof -
  have "fill_swap_programs venue_list = Inr (venue_list @ replicate (3 - length venue_list) 0)"
    if "length venue_list \<le> 3"
    using fill_swap_programs_fits [of venue_list] that by (simp add: MAX_SWAP_PROGRAMS_def)
  moreover have "unat (word_of_nat (length venue_list) :: u8) = length venue_list" if "length venue_list \<le> 3"
    using that by (intro unat_word_of_nat_fits) simp
  ultimately show ?thesis
    by (auto simp: set_whitelist_def result_simps MAX_SWAP_PROGRAMS_def venues_def at_pda_with_bump_def)
qed

theorem set_whitelist_replaces_witness:
  "\<exists>st' cfg. set_whitelist demo_rt \<lparr>ao_admin = signing 1, ao_config = writable 10\<rparr> [77, 78] demo_store = Inr st'
     \<and> st' 10 = Some (ConfigAcc cfg) \<and> venues cfg = {77, 78}"
proof -
  have "create_pda demo_rt ROUTER_ID config_seeds 255 = Some 10" "demo_store 10 = Some (ConfigAcc demo_config)"
    by (simp_all add: demo_rt_def demo_base_def demo_create_def config_seeds_def demo_store_def)
  then show ?thesis
    by (auto simp: set_whitelist_replaces venues_def demo_config_def)
qed

text \<open>Claim C20. The config is created once, well formed: \<open>init_config\<close> completes only where the
  config's canonical address is vacant; it stores a well-formed, unpaused config whose admin is
  the signer, whose mints and decimals are those of the two mint accounts (6 decimals for USDC,
  at most 12 for the target) and whose whitelist is the given list; afterwards no call of
  \<open>init_config\<close>, by anybody, completes.\<close>

theorem init_config_once:
  assumes "init_config rt accs venue_list price slippage st = Inr st'"
  shows "st (key (ic_config accs)) = None
    \<and> (\<exists>cfg target usdc. st' = st(fst (find_pda rt ROUTER_ID config_seeds) \<mapsto> ConfigAcc cfg)
        \<and> wf_config cfg \<and> \<not> paused cfg \<and> is_signer (ic_admin accs) \<and> admin cfg = key (ic_admin accs)
        \<and> st (target_mint cfg) = Some (MintAcc target) \<and> target_decimals cfg = decimals target
        \<and> st (usdc_mint cfg) = Some (MintAcc usdc) \<and> decimals usdc = 6
        \<and> venues cfg = set venue_list \<and> price_ref_micros cfg = price \<and> max_slippage_bps cfg = slippage
        \<and> config_bump cfg = snd (find_pda rt ROUTER_ID config_seeds))
    \<and> (\<nexists>accs' venue_list' price' slippage' st''.
        init_config rt accs' venue_list' price' slippage' st' = Inr st'')"
proof -
  let ?k = "fst (find_pda rt ROUTER_ID config_seeds)"
  from assms obtain target usdc bump arr where
    check: "check_init_config rt accs st = Inr (target, usdc, bump)" and
    bounds: "length venue_list \<le> MAX_SWAP_PROGRAMS" "slippage \<le> 10000" "decimals target \<le> 12" "decimals usdc = 6" and
    arr: "fill_swap_programs venue_list = Inr arr" and
    st': "st' = st(key (ic_config accs) \<mapsto> ConfigAcc
      \<lparr>admin = key (ic_admin accs), target_mint = key (ic_target_mint accs),
       usdc_mint = key (ic_usdc_mint accs), swap_programs = arr,
       swap_program_count = word_of_nat (length venue_list), price_ref_micros = price,
       target_decimals = decimals target, max_slippage_bps = slippage, paused = False, config_bump = bump\<rparr>)"
      (is "_ = st(_ \<mapsto> ConfigAcc ?cfg)")
    by (auto simp: init_config_def and_then_Inr require_Inr)
  have k: "key (ic_config accs) = ?k" using check by (simp add: check_init_config_Inr at_canonical_pda_def)
  have fill: "arr = venue_list @ replicate (MAX_SWAP_PROGRAMS - length venue_list) 0"
    using fill_swap_programs_fits [OF bounds(1)] arr by simp
  have count: "unat (word_of_nat (length venue_list) :: u8) = length venue_list"
    using bounds(1) by (intro unat_word_of_nat_fits) (simp add: MAX_SWAP_PROGRAMS_def)
  have "wf_config ?cfg" "venues ?cfg = set venue_list"
    using bounds fill count by (simp_all add: wf_config_def venues_def)
  moreover have "\<nexists>accs' venue_list' price' slippage' st''.
      init_config rt accs' venue_list' price' slippage' st' = Inr st''"
    using st' k by (auto simp: init_config_def and_then_Inr check_init_config_Inr at_canonical_pda_def can_init_def)
  ultimately show ?thesis
    using st' k check bounds by (auto simp: check_init_config_Inr can_init_def)
qed

text \<open>The witness initialises the demo store's config anew.\<close>

theorem init_config_once_witness:
  "\<exists>st' cfg. init_config demo_rt \<lparr>ic_admin = signing 1, ic_config = writable 10, ic_target_mint = readonly 21,
       ic_usdc_mint = readonly 20, ic_system_program = readonly 4\<rparr> [77] 1000000 100 (demo_store(10 := None)) = Inr st'
     \<and> st' 10 = Some (ConfigAcc cfg) \<and> wf_config cfg \<and> venues cfg = {77}"
proof -
  let ?run = "init_config demo_rt \<lparr>ic_admin = signing 1, ic_config = writable 10, ic_target_mint = readonly 21,
       ic_usdc_mint = readonly 20, ic_system_program = readonly 4\<rparr> [77] 1000000 100 (demo_store(10 := None))"
  have "and_then ?run (\<lambda>_. Inr ()) = Inr ()" by code_simp
  then obtain st' where run: "?run = Inr st'" by (auto simp: result_simps)
  have "fst (find_pda demo_rt ROUTER_ID config_seeds) = 10"
    by (simp add: demo_rt_def demo_base_def config_seeds_def)
  with init_config_once [OF run] run show ?thesis by auto
qed

end
