(* ===== verification/Sell_Plans.thy ===== *)
theory Sell_Plans
  imports Solana_Runtime
begin

text \<open>
  Opening and closing a sell plan: \<open>open_sell_plan\<close> and \<open>close_sell_plan\<close> of
  \<^verbatim>\<open>programs/recurring-buy/src/lib.rs\<close> with the account checks of \<open>OpenSellPlan\<close> and
  \<open>CloseSellPlan\<close>. The clock sysvar's timestamp is the argument \<open>now\<close>. Closing removes the
  account from the store; the rent it returns to the user is not modelled. \<open>close = user\<close> also
  rejects a plan account that is the user itself.
\<close>

section \<open>open_sell_plan\<close>

record open_sell_plan_accounts =
  op_user :: account_info
  op_sell_plan :: account_info
  op_system_program :: account_info

text \<open>Returns \<open>ctx.bumps.sell_plan\<close>.\<close>

definition check_open_sell_plan ::
    "runtime \<Rightarrow> open_sell_plan_accounts \<Rightarrow> store \<Rightarrow> u8 result" where
  "check_open_sell_plan rt accs st =
     require (is_signer (op_user accs) \<and> is_writable (op_user accs)) AccountsRejected (
     require (at_canonical_pda rt (sell_plan_seeds (key (op_user accs))) (op_sell_plan accs)) AccountsRejected (
     require (is_writable (op_sell_plan accs) \<and> can_init st (op_user accs) (op_sell_plan accs)) AccountsRejected (
     require (key (op_system_program accs) = system_program_id rt) AccountsRejected (
     Inr (snd (find_pda rt ROUTER_ID (sell_plan_seeds (key (op_user accs)))))))))"

definition open_sell_plan ::
    "runtime \<Rightarrow> open_sell_plan_accounts \<Rightarrow> i64 \<Rightarrow> i64 \<Rightarrow> i64 \<Rightarrow> store \<Rightarrow> store result" where
  "open_sell_plan rt accs end_t period now st =
     and_then (check_open_sell_plan rt accs st) (\<lambda>bump.
     require (sint MIN_PERIOD_SECS \<le> sint period \<and> sint period \<le> sint MAX_PERIOD_SECS) (Buy BadParam) (
     require (sint (i64_saturating_add now period) < sint end_t) (Buy BadParam) (
     Inr (st(key (op_sell_plan accs) \<mapsto> SellPlanAcc
       \<lparr>plan_user = key (op_user accs),
        end_ts = end_t,
        period_secs = period,
        next_due_ts = now,
        plan_bump = bump\<rparr>)))))"

section \<open>close_sell_plan\<close>

record close_sell_plan_accounts =
  cl_user :: account_info
  cl_sell_plan :: account_info

definition check_close_sell_plan ::
    "runtime \<Rightarrow> close_sell_plan_accounts \<Rightarrow> store \<Rightarrow> sell_plan result" where
  "check_close_sell_plan rt accs st =
     require (is_signer (cl_user accs)) AccountsRejected (
     and_then (as_sell_plan (st (key (cl_sell_plan accs)))) (\<lambda>plan.
     require (is_writable (cl_user accs) \<and> is_writable (cl_sell_plan accs)) AccountsRejected (
     require (at_pda_with_bump rt (sell_plan_seeds (key (cl_user accs))) (plan_bump plan) (cl_sell_plan accs)) AccountsRejected (
     require (plan_user plan = key (cl_user accs)) AccountsRejected (
     require (key (cl_sell_plan accs) \<noteq> key (cl_user accs)) AccountsRejected (
     Inr plan))))))"

definition close_sell_plan :: "runtime \<Rightarrow> close_sell_plan_accounts \<Rightarrow> store \<Rightarrow> store result" where
  "close_sell_plan rt accs st =
     and_then (check_close_sell_plan rt accs st) (\<lambda>plan.
     Inr (st(key (cl_sell_plan accs) := None)))"

lemmas plan_checks = check_open_sell_plan_def check_close_sell_plan_def

lemmas plan_ops = open_sell_plan_def close_sell_plan_def

end
