(* ===== verification/Plan_Properties.thy ===== *)
theory Plan_Properties
  imports Demo_World Sell_Plans
begin

text \<open>
  Opening and closing a sell plan: the open instruction on every branch, and who can close.
\<close>

section \<open>Inversion\<close>

lemma check_open_sell_plan_Inr [result_simps]:
  "check_open_sell_plan rt accs st = Inr bump \<longleftrightarrow>
     is_signer (op_user accs) \<and> is_writable (op_user accs)
     \<and> at_canonical_pda rt (sell_plan_seeds (key (op_user accs))) (op_sell_plan accs)
     \<and> is_writable (op_sell_plan accs) \<and> can_init st (op_user accs) (op_sell_plan accs)
     \<and> key (op_system_program accs) = system_program_id rt
     \<and> bump = snd (find_pda rt ROUTER_ID (sell_plan_seeds (key (op_user accs))))"
  by (auto simp: check_open_sell_plan_def result_simps)

lemma check_close_sell_plan_Inr [result_simps]:
  "check_close_sell_plan rt accs st = Inr plan \<longleftrightarrow>
     is_signer (cl_user accs) \<and> st (key (cl_sell_plan accs)) = Some (SellPlanAcc plan)
     \<and> is_writable (cl_user accs) \<and> is_writable (cl_sell_plan accs)
     \<and> at_pda_with_bump rt (sell_plan_seeds (key (cl_user accs))) (plan_bump plan) (cl_sell_plan accs)
     \<and> plan_user plan = key (cl_user accs) \<and> key (cl_sell_plan accs) \<noteq> key (cl_user accs)"
  by (auto simp: check_close_sell_plan_def result_simps)

lemma open_sell_plan_Inr [result_simps]:
  "open_sell_plan rt accs end_t period now st = Inr st' \<longleftrightarrow>
     (\<exists>bump. check_open_sell_plan rt accs st = Inr bump
        \<and> 60 \<le> sint period \<and> sint period \<le> 31622400 \<and> clamp_i64 (sint now + sint period) < sint end_t
        \<and> st' = st(key (op_sell_plan accs) \<mapsto> SellPlanAcc
            \<lparr>plan_user = key (op_user accs), end_ts = end_t, period_secs = period, next_due_ts = now, plan_bump = bump\<rparr>))"
  by (auto simp: open_sell_plan_def result_simps router_constants)

lemma close_sell_plan_Inr [result_simps]:
  "close_sell_plan rt accs st = Inr st' \<longleftrightarrow>
     (\<exists>plan. check_close_sell_plan rt accs st = Inr plan \<and> st' = st(key (cl_sell_plan accs) := None))"
  by (auto simp: close_sell_plan_def result_simps)

section \<open>Properties\<close>

text \<open>Claim C22. A fresh plan is sound: a completed \<open>open_sell_plan\<close> creates, at the vacant address
  derived from the signing user, a well-formed plan of that user which is due at once, and
  whose end lies beyond the first full period, so that at least one whole period remains and
  the amortisation divisor is the number of whole periods to the end.\<close>

theorem open_sell_plan_sound:
  assumes "open_sell_plan rt accs end_t period now st = Inr st'" "0 \<le> sint now"
  shows "is_signer (op_user accs) \<and> st (key (op_sell_plan accs)) = None
    \<and> (\<exists>plan n. st' = st(fst (find_pda rt ROUTER_ID (sell_plan_seeds (key (op_user accs)))) \<mapsto> SellPlanAcc plan)
        \<and> wf_sell_plan plan \<and> plan_user plan = key (op_user accs)
        \<and> next_due_ts plan = now \<and> sint now + sint period < sint (end_ts plan)
        \<and> remaining_periods plan now = Inr n \<and> 1 \<le> sint n
        \<and> sint n = (sint (end_ts plan) - sint now) div sint (period_secs plan))"
proof -
  let ?plan = "\<lparr>plan_user = key (op_user accs), end_ts = end_t, period_secs = period, next_due_ts = now,
      plan_bump = snd (find_pda rt ROUTER_ID (sell_plan_seeds (key (op_user accs))))\<rparr>"
  have facts: "is_signer (op_user accs)" "st (key (op_sell_plan accs)) = None"
    "60 \<le> sint period" "sint period \<le> 31622400" "clamp_i64 (sint now + sint period) < sint end_t"
    "st' = st(fst (find_pda rt ROUTER_ID (sell_plan_seeds (key (op_user accs)))) \<mapsto> SellPlanAcc ?plan)"
    using assms(1) by (auto simp: open_sell_plan_Inr check_open_sell_plan_Inr can_init_def at_canonical_pda_def)
  have wf: "wf_sell_plan ?plan" using facts by (simp add: wf_sell_plan_def router_constants)
  have gap: "sint now + sint period < sint end_t"
    using facts(5) assms(2) facts(3) i64_range(2) [of end_t]
    by (auto simp: clamp_i64_def i64_min_def i64_max_def min_def max_def split: if_splits)
  then have "1 \<le> (sint end_t - sint now) div sint period"
    using facts(3) by (intro le_zdiv_of_mult_le) simp_all
  moreover have "clamp_i64 (sint end_t - sint now) = sint end_t - sint now"
    using gap facts(3) assms(2) i64_range(2) [of end_t] by (simp add: clamp_i64_def i64_min_def)
  ultimately obtain n where "remaining_periods ?plan now = Inr n" "1 \<le> sint n"
      "sint n = (sint end_t - sint now) div sint period"
    using remaining_periods_total [OF wf, of now] by auto
  with facts wf gap show ?thesis by (intro conjI exI [of _ ?plan] exI [of _ n]) simp_all
qed

theorem open_sell_plan_sound_witness:
  "\<exists>st' plan n. open_sell_plan demo_rt \<lparr>op_user = signing 200, op_sell_plan = writable 2200,
       op_system_program = readonly 4\<rparr> 1700 60 1000 demo_store = Inr st'
     \<and> st' 2200 = Some (SellPlanAcc plan) \<and> remaining_periods plan 1000 = Inr n \<and> 1 \<le> sint n"
proof -
  let ?run = "open_sell_plan demo_rt \<lparr>op_user = signing 200, op_sell_plan = writable 2200,
       op_system_program = readonly 4\<rparr> 1700 60 1000 demo_store"
  have "and_then ?run (\<lambda>_. Inr ()) = Inr ()" by code_simp
  then obtain st' where run: "?run = Inr st'" by (auto simp: result_simps)
  have "fst (find_pda demo_rt ROUTER_ID (sell_plan_seeds 200)) = 2200"
    by (simp add: demo_rt_def demo_base_def sell_plan_seeds_def router_seeds)
  with open_sell_plan_sound [OF run] run show ?thesis by auto
qed

text \<open>Claim C34. Bad parameters are refused: on a plan account that could be created, a period
  outside 60 seconds to 366 days, or an end not beyond the first period (the sum saturating at
  the largest 64-bit number), gives \<open>BadParam\<close>, and anything else opens the plan.\<close>

theorem open_sell_plan_validates:
  assumes "check_open_sell_plan rt accs st = Inr bump"
  shows "(open_sell_plan rt accs end_t period now st = Inl (Buy BadParam) \<longleftrightarrow>
      sint period < 60 \<or> 366 * 86400 < sint period
      \<or> sint end_t \<le> max (- (2 ^ 63)) (min (2 ^ 63 - 1) (sint now + sint period)))
    \<and> (open_sell_plan rt accs end_t period now st = Inl (Buy BadParam)
      \<or> (\<exists>st'. open_sell_plan rt accs end_t period now st = Inr st'))"
  using assms
  by (auto simp: open_sell_plan_def require_def router_constants clamp_i64_def i64_min_def i64_max_def)

theorem open_sell_plan_validates_witness:
  "open_sell_plan demo_rt \<lparr>op_user = signing 200, op_sell_plan = writable 2200,
       op_system_program = readonly 4\<rparr> 1060 60 1000 demo_store = Inl (Buy BadParam)"
proof -
  let ?accs = "\<lparr>op_user = signing 200, op_sell_plan = writable 2200, op_system_program = readonly 4\<rparr>"
  have "check_open_sell_plan demo_rt ?accs demo_store = Inr 250" by code_simp
  from open_sell_plan_validates [OF this, of 1060 60 1000] show ?thesis by simp
qed

text \<open>Claim C23. Only the owner closes: a plan account is emptied by \<open>close_sell_plan\<close> exactly when
  the user named in the plan signs for the plan at that user's own derived address, which is
  not the user's key itself; nothing else in
  the store changes, and the address is vacant again.\<close>

theorem close_sell_plan_by_owner:
  "close_sell_plan rt accs st = Inr st' \<longleftrightarrow>
     (\<exists>plan. st (key (cl_sell_plan accs)) = Some (SellPlanAcc plan)
        \<and> plan_user plan = key (cl_user accs) \<and> is_signer (cl_user accs)
        \<and> create_pda rt ROUTER_ID (sell_plan_seeds (plan_user plan)) (plan_bump plan) = Some (key (cl_sell_plan accs))
        \<and> is_writable (cl_user accs) \<and> is_writable (cl_sell_plan accs)
        \<and> key (cl_sell_plan accs) \<noteq> key (cl_user accs)
        \<and> st' (key (cl_sell_plan accs)) = None \<and> (\<forall>k. k \<noteq> key (cl_sell_plan accs) \<longrightarrow> st' k = st k))"
  by (auto simp: close_sell_plan_Inr check_close_sell_plan_Inr at_pda_with_bump_def fun_eq_iff)

theorem close_sell_plan_by_owner_witness:
  "\<exists>st'. close_sell_plan demo_rt \<lparr>cl_user = signing 100, cl_sell_plan = writable 2100\<rparr> demo_store = Inr st'
     \<and> st' 2100 = None"
  using close_sell_plan_by_owner [of demo_rt "\<lparr>cl_user = signing 100, cl_sell_plan = writable 2100\<rparr>"
      demo_store "demo_store(2100 := None)"]
  by (intro exI [of _ "demo_store(2100 := None)"])
    (simp add: demo_store_def demo_plan_def demo_rt_def demo_base_def demo_create_def sell_plan_seeds_def
      router_seeds)

end
