(* ===== verification/Buy_Properties.thy ===== *)
theory Buy_Properties
  imports Demo_World
begin

text \<open>
  What a completed \<open>execute_buy\<close> guarantees, whatever the venue does: the non-custody invariants
  1 to 4 of \<^verbatim>\<open>SPEC.md\<close>, the authority the venue is called with, and how the outcome of the venue
  call decides the result. The inversion lemmas at the top carry every proof.
\<close>

section \<open>Inversion\<close>

lemma check_execute_buy_Inr:
  "check_execute_buy rt accs st = Inr ctx \<longleftrightarrow>
     is_signer (eb_keeper accs)
     \<and> st (key (eb_config accs)) = Some (ConfigAcc (bc_config ctx))
     \<and> st (key (eb_transient_usdc accs)) = Some (TokenAcc (bc_transient ctx))
     \<and> st (key (eb_dest_ata accs)) = Some (TokenAcc (bc_dest ctx))
     \<and> key (eb_token_program accs) = token_program_id rt
     \<and> st (key (eb_fee_config accs)) = Some (FeeConfigAcc (bc_fee_config ctx))
     \<and> (\<exists>f. st (key (eb_fee_ata accs)) = Some (TokenAcc f))
     \<and> at_pda_with_bump rt config_seeds (config_bump (bc_config ctx)) (eb_config accs)
     \<and> at_canonical_pda rt (buy_auth_seeds (key (eb_user accs))) (eb_buy_authority accs)
     \<and> is_writable (eb_transient_usdc accs) \<and> is_writable (eb_dest_ata accs)
     \<and> at_pda_with_bump rt fee_config_seeds (fee_bump (bc_fee_config ctx)) (eb_fee_config accs)
     \<and> is_writable (eb_fee_ata accs)
     \<and> bc_bump ctx = snd (find_pda rt ROUTER_ID (buy_auth_seeds (key (eb_user accs))))"
  by (cases ctx) (auto simp: check_execute_buy_def result_simps)

lemma buy_guards_Inr:
  "buy_guards rt accs ctx min_out = Inr (amount_in, fee, net_in) \<longleftrightarrow>
     amount_in = amount (bc_transient ctx)
     \<and> \<not> paused (bc_config ctx)
     \<and> token_mint (bc_dest ctx) = target_mint (bc_config ctx)
     \<and> key (eb_dest_ata accs) = ata rt (key (eb_user accs)) (target_mint (bc_config ctx))
     \<and> token_mint (bc_transient ctx) = usdc_mint (bc_config ctx)
     \<and> key (eb_transient_usdc accs) = ata rt (key (eb_buy_authority accs)) (usdc_mint (bc_config ctx))
     \<and> 0 < amount_in
     \<and> is_whitelisted (bc_config ctx) (key (eb_swap_program accs)) = Inr True
     \<and> execution_fee amount_in (fee_bps (bc_fee_config ctx)) = Inr (fee, net_in)
     \<and> 0 < net_in
     \<and> key (eb_fee_ata accs) = ata rt (destination (bc_fee_config ctx)) (usdc_mint (bc_config ctx))
     \<and> 0 < price_ref_micros (bc_config ctx)
     \<and> (\<exists>fl. price_floor net_in (price_ref_micros (bc_config ctx)) (target_decimals (bc_config ctx))
            (max_slippage_bps (bc_config ctx)) = Inr fl \<and> fl \<le> min_out)"
  by (auto simp: buy_guards_def Let_def result_simps)

lemma execute_buy_Inr:
  "execute_buy rt accs remaining min_out swap_data st = Inr (st', ev) \<longleftrightarrow>
     (\<exists>ctx amount_in fee net_in out.
        check_execute_buy rt accs st = Inr ctx
        \<and> buy_guards rt accs ctx min_out = Inr (amount_in, fee, net_in)
        \<and> settle rt (eb_transient_usdc accs) (eb_dest_ata accs) (eb_buy_authority accs)
            (eb_swap_program accs) (eb_fee_ata accs) remaining (key (eb_user accs)) (bc_bump ctx)
            fee (amount (bc_dest ctx)) min_out swap_data st = Inr (st', out)
        \<and> ev = BuyExecuted (key (eb_user accs)) amount_in out fee (key (eb_swap_program accs)))"
  by (auto simp: execute_buy_def result_simps)

lemma execute_buyE:
  assumes "execute_buy rt accs remaining min_out swap_data st = Inr (st', ev)"
  obtains ctx amount_in fee net_in out where
    "check_execute_buy rt accs st = Inr ctx"
    "buy_guards rt accs ctx min_out = Inr (amount_in, fee, net_in)"
    "settle rt (eb_transient_usdc accs) (eb_dest_ata accs) (eb_buy_authority accs)
       (eb_swap_program accs) (eb_fee_ata accs) remaining (key (eb_user accs)) (bc_bump ctx)
       fee (amount (bc_dest ctx)) min_out swap_data st = Inr (st', out)"
    "ev = BuyExecuted (key (eb_user accs)) amount_in out fee (key (eb_swap_program accs))"
  using assms by (auto simp: execute_buy_Inr)

text \<open>The concrete run the witnesses use.\<close>

lemma demo_buy_run:
  "\<exists>st' ev. execute_buy demo_rt demo_buy demo_buy_route 9850500 [199, 199] demo_store = Inr (st', ev)
     \<and> ev_amount_in ev = 10000000 \<and> ev_fee ev = 50000"
proof -
  have "case execute_buy demo_rt demo_buy demo_buy_route 9850500 [199, 199] demo_store of
      Inl _ \<Rightarrow> False | Inr (st', ev) \<Rightarrow> ev_amount_in ev = 10000000 \<and> ev_fee ev = 50000"
    by code_simp
  then show ?thesis by (auto split: sum.splits)
qed

section \<open>Properties\<close>

text \<open>Claim C2. Destination and delivery (INV-1, INV-2): a completed \<open>execute_buy\<close> has credited
  the user's own canonical associated token account of the configured target mint with exactly
  the amount in the event, and that amount is at least \<open>min_out\<close>; no assumption on the venue.\<close>

theorem buy_delivers_to_user:
  assumes "execute_buy rt accs remaining min_out swap_data st = Inr (st', ev)"
  shows "\<exists>cfg d d'. st (key (eb_config accs)) = Some (ConfigAcc cfg)
    \<and> key (eb_dest_ata accs) = ata rt (key (eb_user accs)) (target_mint cfg)
    \<and> st (key (eb_dest_ata accs)) = Some (TokenAcc d) \<and> token_mint d = target_mint cfg
    \<and> st' (key (eb_dest_ata accs)) = Some (TokenAcc d')
    \<and> unat (amount d') = unat (amount d) + unat (ev_amount_out ev)
    \<and> min_out \<le> ev_amount_out ev"
  using assms settle_outcome
  by (fastforce simp: execute_buy_Inr check_execute_buy_Inr buy_guards_Inr)

theorem buy_delivers_to_user_witness:
  "\<exists>st' ev d'. execute_buy demo_rt demo_buy demo_buy_route 9850500 [199, 199] demo_store = Inr (st', ev)
    \<and> st' 2100100 = Some (TokenAcc d') \<and> 90000000 + 9850500 \<le> unat (amount d')"
proof -
  obtain st' ev where run: "execute_buy demo_rt demo_buy demo_buy_route 9850500 [199, 199] demo_store = Inr (st', ev)"
    using demo_buy_run by blast
  from buy_delivers_to_user [OF run] obtain d' where
    "st' 2100100 = Some (TokenAcc d')" "unat (amount d') = 90000000 + unat (ev_amount_out ev)"
    "9850500 \<le> unat (ev_amount_out ev)"
    by (auto simp: demo_buy_def demo_store_def demo_token_def word_le_nat_alt)
  with run show ?thesis by auto
qed

text \<open>Claim C9. No residue (INV-3): the account the swap is funded from is the canonical USDC
  account of the user's own transient PDA; it held a positive amount, the one in the event, and
  after a completed \<open>execute_buy\<close> it holds zero.\<close>

theorem buy_drains_transient:
  assumes "execute_buy rt accs remaining min_out swap_data st = Inr (st', ev)"
  shows "\<exists>cfg t t'. st (key (eb_config accs)) = Some (ConfigAcc cfg)
    \<and> key (eb_transient_usdc accs)
        = ata rt (fst (find_pda rt ROUTER_ID (buy_auth_seeds (key (eb_user accs))))) (usdc_mint cfg)
    \<and> st (key (eb_transient_usdc accs)) = Some (TokenAcc t)
    \<and> ev_amount_in ev = amount t \<and> 0 < amount t
    \<and> st' (key (eb_transient_usdc accs)) = Some (TokenAcc t') \<and> amount t' = 0"
  using assms settle_outcome
  by (fastforce simp: execute_buy_Inr check_execute_buy_Inr buy_guards_Inr at_canonical_pda_def)

theorem buy_drains_transient_witness:
  "\<exists>st' ev t'. execute_buy demo_rt demo_buy demo_buy_route 9850500 [199, 199] demo_store = Inr (st', ev)
    \<and> st' 2001100 = Some (TokenAcc t') \<and> amount t' = 0"
proof -
  obtain st' ev where run: "execute_buy demo_rt demo_buy demo_buy_route 9850500 [199, 199] demo_store = Inr (st', ev)"
    using demo_buy_run by blast
  from buy_drains_transient [OF run] run show ?thesis by (auto simp: demo_buy_def)
qed

text \<open>The price bound, for the config and fee config a run used, if they are well formed.\<close>

lemma buy_price_bound:
  assumes run: "execute_buy rt accs remaining min_out swap_data st = Inr (st', ev)"
    and "st (key (eb_config accs)) = Some (ConfigAcc cfg)" "wf_config cfg"
    and "st (key (eb_fee_config accs)) = Some (FeeConfigAcc fc)" "wf_fee_config fc"
    and net: "net = unat (ev_amount_in ev) - unat (ev_fee ev)"
    and quote: "quote = buy_ideal net (unat (price_ref_micros cfg)) (unat (target_decimals cfg))"
  shows "0 < price_ref_micros cfg
    \<and> unat (ev_fee ev) = unat (ev_amount_in ev) * unat (fee_bps fc) div 10000
    \<and> 100 * unat (ev_fee ev) \<le> unat (ev_amount_in ev)
    \<and> discount quote (unat (max_slippage_bps cfg)) mod 2 ^ 64 \<le> unat (ev_amount_out ev)
    \<and> (discount quote (unat (max_slippage_bps cfg)) < 2 ^ 64 \<longrightarrow>
          quote * (10000 - unat (max_slippage_bps cfg)) < (unat (ev_amount_out ev) + 1) * 10000)"
proof -
  from run obtain ctx amount_in fee net_in out where
    check: "check_execute_buy rt accs st = Inr ctx" and
    guards: "buy_guards rt accs ctx min_out = Inr (amount_in, fee, net_in)" and
    settled: "settle rt (eb_transient_usdc accs) (eb_dest_ata accs) (eb_buy_authority accs)
       (eb_swap_program accs) (eb_fee_ata accs) remaining (key (eb_user accs)) (bc_bump ctx)
       fee (amount (bc_dest ctx)) min_out swap_data st = Inr (st', out)" and
    ev: "ev = BuyExecuted (key (eb_user accs)) amount_in out fee (key (eb_swap_program accs))"
    by (rule execute_buyE)
  have ctx: "bc_config ctx = cfg" "bc_fee_config ctx = fc"
    using check assms(2,4) by (simp_all add: check_execute_buy_Inr)
  then have price: "0 < price_ref_micros cfg" and
    fee: "execution_fee (ev_amount_in ev) (fee_bps fc) = Inr (ev_fee ev, net_in)"
    using guards ev by (auto simp: buy_guards_Inr)
  obtain fl where fl: "price_floor net_in (price_ref_micros cfg) (target_decimals cfg) (max_slippage_bps cfg) = Inr fl"
      "fl \<le> min_out"
    using guards ctx by (auto simp: buy_guards_Inr)
  have out: "min_out \<le> ev_amount_out ev" using settle_outcome [OF settled] ev by auto
  have capped: "fee_bps fc \<le> MAX_FEE_BPS" using assms(5) by (simp add: wf_fee_config_def)
  note fee_facts = execution_fee_capped_Inr [OF fee capped]
  then have "net = unat net_in" by (simp add: net)
  with quote have q: "quote = buy_ideal (unat net_in) (unat (price_ref_micros cfg)) (unat (target_decimals cfg))" by simp
  have paid: "unat fl \<le> unat (ev_amount_out ev)"
    using fl(2) out by (simp add: word_le_nat_alt)
  have "discount quote (unat (max_slippage_bps cfg)) mod 2 ^ 64 \<le> unat (ev_amount_out ev)"
    using buy_quote.quoted [OF fl(1)] q paid by simp
  moreover have "quote * (10000 - unat (max_slippage_bps cfg)) < (unat (ev_amount_out ev) + 1) * 10000"
    if "discount quote (unat (max_slippage_bps cfg)) < 2 ^ 64"
    using buy_quote.band [OF fl(1) that [unfolded q] paid] q by simp
  ultimately show ?thesis using fee_facts price by simp
qed


text \<open>Claim C4. Authority of the venue call (INV-4): a completed buy called exactly one program,
  one on the whitelist of an unpaused config, with the address of the user's own transient PDA
  as the only signature the router adds; every signer of the forwarded instruction is that PDA
  or had signed the transaction.\<close>

theorem buy_call_authority:
  assumes "execute_buy rt accs remaining min_out swap_data st = Inr (st', ev)" "pda_derivation rt"
  shows "\<exists>cfg ix st1 pda. st (key (eb_config accs)) = Some (ConfigAcc cfg) \<and> \<not> paused cfg
    \<and> pda = fst (find_pda rt ROUTER_ID (buy_auth_seeds (key (eb_user accs))))
    \<and> skim_fee rt (eb_transient_usdc accs) (eb_fee_ata accs) (eb_buy_authority accs) pda (ev_fee ev) st = Inr st1
    \<and> invoke rt ix (remaining @ [eb_swap_program accs]) [pda] st1 = Some st'
    \<and> program_id ix = ev_venue ev \<and> ev_venue ev \<in> venues cfg
    \<and> {meta_pubkey m | m. m \<in> set (ix_accounts ix) \<and> meta_is_signer m}
        \<subseteq> insert pda {key ai | ai. ai \<in> set remaining \<and> is_signer ai}"
proof -
  from assms(1) obtain ctx amount_in fee net_in out where
    check: "check_execute_buy rt accs st = Inr ctx" and
    guards: "buy_guards rt accs ctx min_out = Inr (amount_in, fee, net_in)" and
    settled: "settle rt (eb_transient_usdc accs) (eb_dest_ata accs) (eb_buy_authority accs)
       (eb_swap_program accs) (eb_fee_ata accs) remaining (key (eb_user accs)) (bc_bump ctx)
       fee (amount (bc_dest ctx)) min_out swap_data st = Inr (st', out)" and
    ev: "ev = BuyExecuted (key (eb_user accs)) amount_in out fee (key (eb_swap_program accs))"
    by (rule execute_buyE)
  have auth: "key (eb_buy_authority accs) = fst (find_pda rt ROUTER_ID (buy_auth_seeds (key (eb_user accs))))"
    "bc_bump ctx = snd (find_pda rt ROUTER_ID (buy_auth_seeds (key (eb_user accs))))"
    and cfg: "st (key (eb_config accs)) = Some (ConfigAcc (bc_config ctx))"
    using check by (simp_all add: check_execute_buy_Inr at_canonical_pda_def)
  have "key (eb_swap_program accs) \<in> venues (bc_config ctx)" "\<not> paused (bc_config ctx)"
    using guards by (auto simp: buy_guards_Inr is_whitelisted_venues)
  with settle_call [OF settled assms(2) auth(2,1)] auth(1) cfg ev show ?thesis by auto
qed

theorem buy_call_authority_witness:
  "\<exists>st' ev ix st1. execute_buy demo_rt demo_buy demo_buy_route 9850500 [199, 199] demo_store = Inr (st', ev)
    \<and> demo_invoke ix (demo_buy_route @ [readonly MOCK_SWAP_ID]) [1100] st1 = Some st'
    \<and> {meta_pubkey m | m. m \<in> set (ix_accounts ix) \<and> meta_is_signer m} \<subseteq> {1100}"
proof -
  obtain st' ev where run: "execute_buy demo_rt demo_buy demo_buy_route 9850500 [199, 199] demo_store = Inr (st', ev)"
    using demo_buy_run by blast
  have [simp]: "find_pda demo_rt ROUTER_ID (buy_auth_seeds 100) = (1100, 251)"
    by (simp add: demo_rt_def demo_base_def buy_auth_seeds_def)
  have [simp]: "{key ai | ai. ai \<in> set demo_buy_route \<and> is_signer ai} = {}"
    by (auto simp: demo_buy_route_def)
  from buy_call_authority [OF run demo_pda_derivation] run show ?thesis
    by (auto simp: demo_buy_def demo_rt_def [THEN arg_cong [where f = invoke]])
qed

text \<open>Claim C10. The outcome of the venue call decides: once the guards have passed and the call has
  returned with both accounts still in place, the result is \<open>TransientNotDrained\<close> if anything
  is left in the transient, \<open>Overflow\<close> if the destination lost tokens, \<open>SlippageExceeded\<close> if
  it gained less than \<open>min_out\<close>, and success otherwise.\<close>

theorem execute_buy_outcome:
  assumes "check_execute_buy rt accs st = Inr ctx"
    and "buy_guards rt accs ctx min_out = Inr (amount_in, fee, net_in)"
    and "create_pda rt ROUTER_ID (buy_auth_seeds (key (eb_user accs))) (bc_bump ctx) = Some pda"
    and "skim_fee rt (eb_transient_usdc accs) (eb_fee_ata accs) (eb_buy_authority accs) pda fee st = Inr st1"
    and "invoke_venue rt (eb_swap_program accs) (eb_buy_authority accs) remaining swap_data pda st1 = Inr st2"
    and "st2 (key (eb_transient_usdc accs)) = Some (TokenAcc t)" "st2 (key (eb_dest_ata accs)) = Some (TokenAcc d)"
  shows "execute_buy rt accs remaining min_out swap_data st =
    (if amount t \<noteq> 0 then Inl (Buy TransientNotDrained)
     else if amount d < amount (bc_dest ctx) then Inl (Buy Overflow)
     else if amount d - amount (bc_dest ctx) < min_out then Inl (Buy SlippageExceeded)
     else Inr (st2, BuyExecuted (key (eb_user accs)) amount_in (amount d - amount (bc_dest ctx)) fee
                      (key (eb_swap_program accs))))"
  using assms
  by (auto simp: execute_buy_def settle_def seeds_signer_def check_outcome_def checked_sub_def
        require_def not_less)

text \<open>The witness: a route that swaps the net input but underpays.\<close>

lemma demo_underpaying_run:
  obtains ctx amount_in fee net_in pda st1 st2 t d where
    "check_execute_buy demo_rt demo_buy demo_store = Inr ctx"
    "buy_guards demo_rt demo_buy ctx 9850500 = Inr (amount_in, fee, net_in)"
    "create_pda demo_rt ROUTER_ID (buy_auth_seeds (key (eb_user demo_buy))) (bc_bump ctx) = Some pda"
    "skim_fee demo_rt (eb_transient_usdc demo_buy) (eb_fee_ata demo_buy) (eb_buy_authority demo_buy) pda fee demo_store = Inr st1"
    "invoke_venue demo_rt (eb_swap_program demo_buy) (eb_buy_authority demo_buy) demo_buy_route [199, 180] pda st1 = Inr st2"
    "st2 (key (eb_transient_usdc demo_buy)) = Some (TokenAcc t)" "st2 (key (eb_dest_ata demo_buy)) = Some (TokenAcc d)"
    "amount t = 0" "\<not> amount d < amount (bc_dest ctx)" "amount d - amount (bc_dest ctx) < 9850500"
proof -
  have "and_then (check_execute_buy demo_rt demo_buy demo_store) (\<lambda>ctx.
     and_then (buy_guards demo_rt demo_buy ctx 9850500) (\<lambda>(amount_in, fee, net_in).
     ok_or (create_pda demo_rt ROUTER_ID (buy_auth_seeds (key (eb_user demo_buy))) (bc_bump ctx)) CpiFailed (\<lambda>pda.
     and_then (skim_fee demo_rt (eb_transient_usdc demo_buy) (eb_fee_ata demo_buy) (eb_buy_authority demo_buy) pda fee demo_store) (\<lambda>st1.
     and_then (invoke_venue demo_rt (eb_swap_program demo_buy) (eb_buy_authority demo_buy) demo_buy_route [199, 180] pda st1) (\<lambda>st2.
     and_then (as_token (st2 (key (eb_transient_usdc demo_buy)))) (\<lambda>t.
     and_then (as_token (st2 (key (eb_dest_ata demo_buy)))) (\<lambda>d.
     require (amount t = 0 \<and> \<not> amount d < amount (bc_dest ctx) \<and> amount d - amount (bc_dest ctx) < 9850500)
       Panicked (Inr ())))))))) = Inr ()"
    by code_simp
  then show thesis
    by (auto simp: result_simps intro: that)
qed

theorem execute_buy_outcome_witness:
  "execute_buy demo_rt demo_buy demo_buy_route 9850500 [199, 180] demo_store = Inl (Buy SlippageExceeded)"
proof -
  obtain ctx amount_in fee net_in pda st1 st2 t d where run:
    "check_execute_buy demo_rt demo_buy demo_store = Inr ctx"
    "buy_guards demo_rt demo_buy ctx 9850500 = Inr (amount_in, fee, net_in)"
    "create_pda demo_rt ROUTER_ID (buy_auth_seeds (key (eb_user demo_buy))) (bc_bump ctx) = Some pda"
    "skim_fee demo_rt (eb_transient_usdc demo_buy) (eb_fee_ata demo_buy) (eb_buy_authority demo_buy) pda fee demo_store = Inr st1"
    "invoke_venue demo_rt (eb_swap_program demo_buy) (eb_buy_authority demo_buy) demo_buy_route [199, 180] pda st1 = Inr st2"
    "st2 (key (eb_transient_usdc demo_buy)) = Some (TokenAcc t)" "st2 (key (eb_dest_ata demo_buy)) = Some (TokenAcc d)"
    and out: "amount t = 0" "\<not> amount d < amount (bc_dest ctx)" "amount d - amount (bc_dest ctx) < 9850500"
    by (rule demo_underpaying_run)
  from execute_buy_outcome [OF run] out show ?thesis by simp
qed

end
