(* ===== verification/Schedule.thy ===== *)
theory Schedule
  imports Sell_Router
begin

text \<open>
  The clock gate of a sell plan. The locale \<open>crank_gate\<close> states what a permissionless crank on a
  schedule promises (it fires only between the due time and the horizon, and jumps past the
  present on the grid of periods) and proves what follows for sequences of cranks; the plan of
  \<open>execute_sell\<close> interprets it.
\<close>

section \<open>The advance\<close>

definition next_slot :: "int \<Rightarrow> int \<Rightarrow> int \<Rightarrow> int" where
  "next_slot due p now = due + ((now - due) div p + 1) * p"

lemma next_slot_bounds:
  assumes "0 < p" "due \<le> now"
  shows "now < next_slot due p now" "next_slot due p now \<le> now + p" "due + p \<le> next_slot due p now"
proof -
  have "(now - due) div p * p \<le> now - due" "now - due < ((now - due) div p + 1) * p" "0 \<le> (now - due) div p"
    using assms by (simp_all add: pos_imp_zdiv_nonneg_iff minus_mod_eq_div_mult [symmetric] distrib_right)
  then show "now < next_slot due p now" "next_slot due p now \<le> now + p" "due + p \<le> next_slot due p now"
    using assms by (simp_all add: next_slot_def distrib_right)
qed

lemma advance_plan_Inr:
  assumes "advance_plan plan now = Inr plan'" "wf_sell_plan plan" "sint (next_due_ts plan) \<le> sint now"
  shows "plan' = plan\<lparr>next_due_ts := next_due_ts plan'\<rparr>"
    "sint (next_due_ts plan') = next_slot (sint (next_due_ts plan)) (sint (period_secs plan)) (sint now)"
proof -
  define p where "p = sint (period_secs plan)"
  define late where "late = sint now - sint (next_due_ts plan)"
  have "60 \<le> p" "0 \<le> late"
    using wf_sell_plan_period [OF assms(2)] assms(3) by (simp_all add: p_def late_def)
  then have sdiv: "late sdiv p = late div p" by (simp add: sdiv_nonneg)
  from assms(1) obtain l w k j d where "sint (l :: i64) = late" "sint (w :: i64) = sint l sdiv p"
      "sint (k :: i64) = sint w + 1" "sint (j :: i64) = sint k * p"
      "sint d = sint (next_due_ts plan) + sint j" "plan' = plan\<lparr>next_due_ts := d\<rparr>"
    by (auto simp: advance_plan_def result_simps checked_simps p_def late_def)
  with sdiv show "plan' = plan\<lparr>next_due_ts := next_due_ts plan'\<rparr>"
    "sint (next_due_ts plan') = next_slot (sint (next_due_ts plan)) (sint (period_secs plan)) (sint now)"
    by (simp_all add: next_slot_def p_def late_def)
qed

text \<open>With a due time that is not negative and a clock at least a period short of the end of
  the 64-bit range, none of the checked operations fails.\<close>

lemma advance_plan_ok:
  assumes "wf_sell_plan plan" "0 \<le> sint (next_due_ts plan)" "sint (next_due_ts plan) \<le> sint now"
    "sint now + sint (period_secs plan) \<le> i64_max"
  shows "\<exists>plan'. advance_plan plan now = Inr plan'"
proof -
  define p where "p = sint (period_secs plan)"
  define due where "due = sint (next_due_ts plan)"
  define late where "late = sint now - due"
  have p: "60 \<le> p" using wf_sell_plan_period [OF assms(1)] by (simp add: p_def)
  then have p0: "period_secs plan \<noteq> 0" by (auto simp: p_def)
  have late: "0 \<le> late" "late \<le> sint now" using assms(2,3) by (simp_all add: late_def due_def)
  have w0: "0 \<le> late div p" using late p by (simp add: pos_imp_zdiv_nonneg_iff)
  have jump: "(late div p + 1) * p \<le> late + p"
    by (simp add: distrib_right minus_mod_eq_div_mult [symmetric] p_def) (use p p_def in simp)
  have wle: "late div p + 1 \<le> (late div p + 1) * p" using w0 p by (simp add: mult_le_cancel_left1)
  have top: "late + p \<le> i64_max" using late(2) assms(4) by (simp add: p_def)
  obtain l where l: "i64_checked_sub now (next_due_ts plan) = Some l" "sint l = late"
    using fit_i64_ok [of late] late top p by (auto simp: i64_checked_sub_def late_def due_def i64_min_def)
  have zero: "i64_min \<le> 0" by (simp add: i64_min_def)
  have wtop: "late div p \<le> i64_max" "late div p + 1 \<le> i64_max" "(late div p + 1) * p \<le> i64_max"
    and wbot: "i64_min \<le> late div p" "i64_min \<le> late div p + 1" "i64_min \<le> (late div p + 1) * p"
    using w0 wle jump top zero by linarith+
  obtain w where w: "i64_checked_div l (period_secs plan) = Some w" "sint w = late div p"
    using fit_i64_ok [OF wbot(1) wtop(1)] l(2) p0 late(1) p
    by (auto simp: i64_checked_div_def sdiv_nonneg simp flip: p_def)
  obtain k where k: "i64_checked_add w 1 = Some k" "sint k = late div p + 1"
    using fit_i64_ok [OF wbot(2) wtop(2)] w(2) by (auto simp: i64_checked_add_def)
  obtain j where j: "i64_checked_mul k (period_secs plan) = Some j" "sint j = (late div p + 1) * p"
    using fit_i64_ok [OF wbot(3) wtop(3)] k(2) by (auto simp: i64_checked_mul_def simp flip: p_def)
  have "0 \<le> due" "due + (late + p) \<le> i64_max"
    using assms(2,4) by (simp_all add: due_def late_def p_def)
  then have "i64_min \<le> due + (late div p + 1) * p" "due + (late div p + 1) * p \<le> i64_max"
    using w0 wle jump zero by linarith+
  from fit_i64_ok [OF this] obtain d where "i64_checked_add (next_due_ts plan) j = Some d"
    using j(2) by (auto simp: i64_checked_add_def simp flip: due_def)
  then show ?thesis using l w k j by (simp add: advance_plan_def)
qed

section \<open>Sequences of cranks\<close>

text \<open>A run of a gated schedule: cranks at the times of the list, and in between steps that leave
  the schedule alone.\<close>

inductive gated_run :: "('s \<Rightarrow> int \<Rightarrow> 's \<Rightarrow> bool) \<Rightarrow> ('s \<Rightarrow> 's \<Rightarrow> bool) \<Rightarrow> 's \<Rightarrow> int list \<Rightarrow> 's \<Rightarrow> bool"
  for crank quiet where
  run_start: "gated_run crank quiet s [] s"
| run_quiet: "gated_run crank quiet s ts s' \<Longrightarrow> quiet s' s'' \<Longrightarrow> gated_run crank quiet s ts s''"
| run_crank: "gated_run crank quiet s ts s' \<Longrightarrow> crank s' t s'' \<Longrightarrow> gated_run crank quiet s (ts @ [t]) s''"

text \<open>The slot of a period grid that a time falls into.\<close>

definition slot_of :: "int \<Rightarrow> int \<Rightarrow> int \<Rightarrow> int" where
  "slot_of start p t = (t - start) div p"

lemma next_slot_grid: "p dvd due - start \<Longrightarrow> p dvd next_slot due p now - start"
proof -
  assume "p dvd due - start"
  then have "p dvd (due - start) + ((now - due) div p + 1) * p" by (simp add: dvd_add)
  then show ?thesis by (simp add: next_slot_def algebra_simps)
qed

lemma slot_of_mono: "0 < p \<Longrightarrow> t \<le> t' \<Longrightarrow> slot_of start p t \<le> slot_of start p t'"
  by (simp add: slot_of_def zdiv_mono1)

lemma slot_of_less:
  assumes "0 < p" "p dvd due - start" "t < due"
  shows "slot_of start p t < slot_of start p due"
proof -
  from assms(2) obtain k where k: "due - start = p * k" by blast
  then have "t - start < p * k" using assms(3) by simp
  then have "(t - start) div p < k" using assms(1) by (simp add: zdiv_less_of_less_mult mult.commute)
  then show ?thesis using k assms(1) by (simp add: slot_of_def)
qed

text \<open>\<open>gate s\<close> is the due time, the period and the horizon of the schedule in state \<open>s\<close>, if it has
  one. A crank fires only when due and not past the horizon, and jumps past the present.\<close>

locale crank_gate =
  fixes gate :: "'s \<Rightarrow> (int \<times> int \<times> int) option"
    and crank :: "'s \<Rightarrow> int \<Rightarrow> 's \<Rightarrow> bool"
    and quiet :: "'s \<Rightarrow> 's \<Rightarrow> bool"
  assumes gate_period: "gate s = Some (due, p, h) \<Longrightarrow> 0 < p"
    and crank_due: "gate s = Some (due, p, h) \<Longrightarrow> crank s t s' \<Longrightarrow> due \<le> t \<and> due \<le> h"
    and crank_jump: "gate s = Some (due, p, h) \<Longrightarrow> crank s t s' \<Longrightarrow> gate s' = Some (next_slot due p t, p, h)"
    and quiet_keeps: "gate s = Some g \<Longrightarrow> quiet s s' \<Longrightarrow> gate s' = Some g"
begin

lemma run_invariant:
  assumes "gated_run crank quiet s ts s'" "gate s = Some (due, p, h)"
  shows "\<exists>due'. gate s' = Some (due', p, h) \<and> p dvd due' - due \<and> due + int (length ts) * p \<le> due'
    \<and> (\<forall>t \<in> set ts. due \<le> t \<and> t < due') \<and> sorted_wrt (<) (map (slot_of due p) ts)
    \<and> (ts \<noteq> [] \<longrightarrow> due + (int (length ts) - 1) * p \<le> h)"
  using assms
proof (induction rule: gated_run.induct)
  case (run_start s)
  then show ?case by simp
next
  case (run_quiet s ts s' s'')
  then show ?case using quiet_keeps by blast
next
  case (run_crank s ts s' t s'')
  then obtain d where d: "gate s' = Some (d, p, h)" "p dvd d - due" "due + int (length ts) * p \<le> d"
      "\<forall>t \<in> set ts. due \<le> t \<and> t < d" "sorted_wrt (<) (map (slot_of due p) ts)"
    by blast
  have p: "0 < p" and t: "d \<le> t" "d \<le> h" and d': "gate s'' = Some (next_slot d p t, p, h)"
    using d(1) run_crank.hyps(2) gate_period crank_due crank_jump by blast+
  note jump = next_slot_bounds [OF p t(1)]
  have "slot_of due p u < slot_of due p t" if "u \<in> set ts" for u
    using slot_of_less [OF p d(2)] slot_of_mono [OF p t(1)] d(4) that order.strict_trans2 by blast
  then have "sorted_wrt (<) (map (slot_of due p) (ts @ [t]))"
    using d(5) by (simp add: sorted_wrt_append)
  moreover have "due + (1 + int (length ts)) * p \<le> next_slot d p t"
    using d(3) jump(3) by (simp add: distrib_right)
  moreover have "0 \<le> int (length ts) * p" using p by simp
  then have "due \<le> d" using d(3) by linarith
  moreover have "\<forall>u \<in> set (ts @ [t]). due \<le> u \<and> u < next_slot d p t"
    using d(4) \<open>due \<le> d\<close> t(1) jump(1) by fastforce
  moreover have "p dvd next_slot d p t - due" using next_slot_grid [OF d(2)] .
  ultimately show ?case using d' d(3) t(2) by simp
qed

lemma run_bound:
  assumes "gated_run crank quiet s ts s'" "gate s = Some (due, p, h)" "due \<le> h"
  shows "int (length ts) \<le> (h - due) div p + 1"
proof (cases "ts = []")
  case True
  then show ?thesis using gate_period [OF assms(2)] assms(3) by (simp add: pos_imp_zdiv_nonneg_iff)
next
  case False
  then have "(int (length ts) - 1) * p \<le> h - due"
    using run_invariant [OF assms(1,2)] by auto
  then have "int (length ts) - 1 \<le> (h - due) div p"
    using gate_period [OF assms(2)] by (simp add: le_zdiv_of_mult_le)
  then show ?thesis by simp
qed

lemma run_over:
  assumes "gated_run crank quiet s ts s'" "gate s = Some (due, p, h)" "h < due"
  shows "ts = []"
proof (rule ccontr)
  assume ts: "ts \<noteq> []"
  then have "0 \<le> int (length ts) - 1" by (cases ts) simp_all
  then have "0 \<le> (int (length ts) - 1) * p" using gate_period [OF assms(2)] by (intro mult_nonneg_nonneg) linarith+
  moreover have "due + (int (length ts) - 1) * p \<le> h"
    using run_invariant [OF assms(1,2)] ts by blast
  ultimately show False using assms(3) by simp
qed

end

end
