(* ===== verification/Sell_Properties.thy ===== *)
theory Sell_Properties
  imports Demo_World Schedule
begin

text \<open>
  What a completed \<open>execute_sell\<close> guarantees: the mirror image of the buy side (delivery, no
  residue, bounded price, authority of the venue call, outcome), and what only the sell side has:
  the amortisation cap on the pulled amount and the clock gate, for one crank and, through the
  locale \<open>crank_gate\<close>, for any number of them.
\<close>

section \<open>Inversion\<close>

lemma check_execute_sell_Inr:
  "check_execute_sell rt accs st = Inr ctx \<longleftrightarrow>
     is_signer (es_keeper accs)
     \<and> st (key (es_config accs)) = Some (ConfigAcc (sc_config ctx))
     \<and> st (key (es_sell_plan accs)) = Some (SellPlanAcc (sc_plan ctx))
     \<and> st (key (es_transient_target accs)) = Some (TokenAcc (sc_transient ctx))
     \<and> st (key (es_user_target_ata accs)) = Some (TokenAcc (sc_pot ctx))
     \<and> st (key (es_dest_usdc accs)) = Some (TokenAcc (sc_dest ctx))
     \<and> key (es_token_program accs) = token_program_id rt
     \<and> st (key (es_fee_config accs)) = Some (FeeConfigAcc (sc_fee_config ctx))
     \<and> (\<exists>f. st (key (es_fee_ata accs)) = Some (TokenAcc f))
     \<and> at_pda_with_bump rt config_seeds (config_bump (sc_config ctx)) (es_config accs)
     \<and> is_writable (es_sell_plan accs)
     \<and> at_pda_with_bump rt (sell_plan_seeds (key (es_user accs))) (plan_bump (sc_plan ctx)) (es_sell_plan accs)
     \<and> plan_user (sc_plan ctx) = key (es_user accs)
     \<and> at_canonical_pda rt (buy_auth_seeds (key (es_user accs))) (es_buy_authority accs)
     \<and> is_writable (es_transient_target accs) \<and> is_writable (es_dest_usdc accs)
     \<and> at_pda_with_bump rt fee_config_seeds (fee_bump (sc_fee_config ctx)) (es_fee_config accs)
     \<and> is_writable (es_fee_ata accs)
     \<and> sc_bump ctx = snd (find_pda rt ROUTER_ID (buy_auth_seeds (key (es_user accs))))"
  by (cases ctx) (auto simp: check_execute_sell_def result_simps)

lemma sell_cap_Inr:
  "sell_cap wallet a plan now = Inr cap \<longleftrightarrow>
     (\<exists>total n. unat (total :: u128) = unat wallet + unat a \<and> remaining_periods plan now = Inr n
        \<and> (scast n :: u128) \<noteq> 0 \<and> unat cap = unat total div unat (scast n :: u128))"
  by (auto simp: sell_cap_def result_simps checked_simps)

lemma sell_guards_Inr:
  "sell_guards rt accs ctx now min_out = Inr (amount_in, fee, net_in) \<longleftrightarrow>
     amount_in = amount (sc_transient ctx)
     \<and> \<not> paused (sc_config ctx)
     \<and> sint (next_due_ts (sc_plan ctx)) \<le> sint (end_ts (sc_plan ctx))
     \<and> sint (next_due_ts (sc_plan ctx)) \<le> sint now
     \<and> key (es_dest_usdc accs) = ata rt (key (es_user accs)) (usdc_mint (sc_config ctx))
     \<and> key (es_transient_target accs) = ata rt (key (es_buy_authority accs)) (target_mint (sc_config ctx))
     \<and> key (es_user_target_ata accs) = ata rt (key (es_user accs)) (target_mint (sc_config ctx))
     \<and> 0 < amount_in
     \<and> (\<exists>cap. sell_cap (amount (sc_pot ctx)) amount_in (sc_plan ctx) now = Inr cap \<and> ucast amount_in \<le> cap)
     \<and> is_whitelisted (sc_config ctx) (key (es_swap_program accs)) = Inr True
     \<and> execution_fee amount_in (fee_bps (sc_fee_config ctx)) = Inr (fee, net_in)
     \<and> 0 < net_in
     \<and> key (es_fee_ata accs) = ata rt (destination (sc_fee_config ctx)) (target_mint (sc_config ctx))
     \<and> 0 < price_ref_micros (sc_config ctx)
     \<and> (\<exists>fl. sell_floor net_in (price_ref_micros (sc_config ctx)) (target_decimals (sc_config ctx))
            (max_slippage_bps (sc_config ctx)) = Inr fl \<and> fl \<le> min_out)"
  by (auto simp: sell_guards_def Let_def result_simps)

lemma execute_sell_Inr:
  "execute_sell rt accs remaining min_out swap_data now st = Inr (st', ev) \<longleftrightarrow>
     (\<exists>ctx amount_in fee net_in st2 out plan'.
        check_execute_sell rt accs st = Inr ctx
        \<and> sell_guards rt accs ctx now min_out = Inr (amount_in, fee, net_in)
        \<and> settle rt (es_transient_target accs) (es_dest_usdc accs) (es_buy_authority accs)
            (es_swap_program accs) (es_fee_ata accs) remaining (key (es_user accs)) (sc_bump ctx)
            fee (amount (sc_dest ctx)) min_out swap_data st = Inr (st2, out)
        \<and> advance_plan (sc_plan ctx) now = Inr plan'
        \<and> st' = st2(key (es_sell_plan accs) \<mapsto> SellPlanAcc plan')
        \<and> ev = SellExecuted (key (es_user accs)) amount_in out fee (key (es_swap_program accs)))"
  by (auto simp: execute_sell_def result_simps)

lemma execute_sellE:
  assumes "execute_sell rt accs remaining min_out swap_data now st = Inr (st', ev)"
  obtains ctx amount_in fee net_in st2 out plan' where
    "check_execute_sell rt accs st = Inr ctx"
    "sell_guards rt accs ctx now min_out = Inr (amount_in, fee, net_in)"
    "settle rt (es_transient_target accs) (es_dest_usdc accs) (es_buy_authority accs)
       (es_swap_program accs) (es_fee_ata accs) remaining (key (es_user accs)) (sc_bump ctx)
       fee (amount (sc_dest ctx)) min_out swap_data st = Inr (st2, out)"
    "advance_plan (sc_plan ctx) now = Inr plan'"
    "st' = st2(key (es_sell_plan accs) \<mapsto> SellPlanAcc plan')"
    "ev = SellExecuted (key (es_user accs)) amount_in out fee (key (es_swap_program accs))"
  using assms by (auto simp: execute_sell_Inr)

text \<open>The concrete run the witnesses use.\<close>

lemma demo_sell_run:
  "\<exists>st' ev. execute_sell demo_rt demo_sell demo_sell_route 9850500 [199, 199] 1000 demo_store = Inr (st', ev)
     \<and> ev_amount_in ev = 10000000 \<and> ev_fee ev = 50000"
proof -
  have "case execute_sell demo_rt demo_sell demo_sell_route 9850500 [199, 199] 1000 demo_store of
      Inl _ \<Rightarrow> False | Inr (st', ev) \<Rightarrow> ev_amount_in ev = 10000000 \<and> ev_fee ev = 50000"
    by code_simp
  then show ?thesis by (auto split: sum.splits)
qed

section \<open>Delivery, residue, price, authority\<close>

text \<open>Claim C12. Delivery: a completed \<open>execute_sell\<close> has credited the user's own canonical USDC
  account with exactly the amount in the event, and that amount is at least \<open>min_out\<close>.\<close>

theorem sell_delivers_to_user:
  assumes "execute_sell rt accs remaining min_out swap_data now st = Inr (st', ev)"
  shows "\<exists>cfg d d'. st (key (es_config accs)) = Some (ConfigAcc cfg)
    \<and> key (es_dest_usdc accs) = ata rt (key (es_user accs)) (usdc_mint cfg)
    \<and> st (key (es_dest_usdc accs)) = Some (TokenAcc d)
    \<and> st' (key (es_dest_usdc accs)) = Some (TokenAcc d')
    \<and> unat (amount d') = unat (amount d) + unat (ev_amount_out ev)
    \<and> min_out \<le> ev_amount_out ev"
proof -
  from assms obtain ctx amount_in fee net_in st2 out plan' where
    check: "check_execute_sell rt accs st = Inr ctx" and
    guards: "sell_guards rt accs ctx now min_out = Inr (amount_in, fee, net_in)" and
    settled: "settle rt (es_transient_target accs) (es_dest_usdc accs) (es_buy_authority accs)
       (es_swap_program accs) (es_fee_ata accs) remaining (key (es_user accs)) (sc_bump ctx)
       fee (amount (sc_dest ctx)) min_out swap_data st = Inr (st2, out)" and
    rest: "st' = st2(key (es_sell_plan accs) \<mapsto> SellPlanAcc plan')"
      "ev = SellExecuted (key (es_user accs)) amount_in out fee (key (es_swap_program accs))"
    by (rule execute_sellE)
  have "key (es_sell_plan accs) \<noteq> key (es_dest_usdc accs)"
    using check by (auto simp: check_execute_sell_Inr)
  with check guards rest settle_outcome [OF settled] show ?thesis
    by (auto simp: check_execute_sell_Inr sell_guards_Inr)
qed

theorem sell_delivers_to_user_witness:
  "\<exists>st' ev d'. execute_sell demo_rt demo_sell demo_sell_route 9850500 [199, 199] 1000 demo_store = Inr (st', ev)
    \<and> st' 2000100 = Some (TokenAcc d') \<and> 9850500 \<le> unat (amount d')"
proof -
  obtain st' ev where run: "execute_sell demo_rt demo_sell demo_sell_route 9850500 [199, 199] 1000 demo_store = Inr (st', ev)"
    using demo_sell_run by blast
  from sell_delivers_to_user [OF run] obtain d' where
    "st' 2000100 = Some (TokenAcc d')" "unat (amount d') = unat (ev_amount_out ev)"
    "9850500 \<le> unat (ev_amount_out ev)"
    by (auto simp: demo_sell_def demo_store_def demo_token_def word_le_nat_alt)
  with run show ?thesis by auto
qed

text \<open>Claim C25. No residue: the sold amount came from the canonical target-token account of the
  user's own transient PDA, was positive, and nothing is left there afterwards.\<close>

theorem sell_drains_transient:
  assumes "execute_sell rt accs remaining min_out swap_data now st = Inr (st', ev)"
  shows "\<exists>cfg t t'. st (key (es_config accs)) = Some (ConfigAcc cfg)
    \<and> key (es_transient_target accs)
        = ata rt (fst (find_pda rt ROUTER_ID (buy_auth_seeds (key (es_user accs))))) (target_mint cfg)
    \<and> st (key (es_transient_target accs)) = Some (TokenAcc t)
    \<and> ev_amount_in ev = amount t \<and> 0 < amount t
    \<and> st' (key (es_transient_target accs)) = Some (TokenAcc t') \<and> amount t' = 0"
proof -
  from assms obtain ctx amount_in fee net_in st2 out plan' where
    check: "check_execute_sell rt accs st = Inr ctx" and
    guards: "sell_guards rt accs ctx now min_out = Inr (amount_in, fee, net_in)" and
    settled: "settle rt (es_transient_target accs) (es_dest_usdc accs) (es_buy_authority accs)
       (es_swap_program accs) (es_fee_ata accs) remaining (key (es_user accs)) (sc_bump ctx)
       fee (amount (sc_dest ctx)) min_out swap_data st = Inr (st2, out)" and
    rest: "st' = st2(key (es_sell_plan accs) \<mapsto> SellPlanAcc plan')"
      "ev = SellExecuted (key (es_user accs)) amount_in out fee (key (es_swap_program accs))"
    by (rule execute_sellE)
  have "key (es_sell_plan accs) \<noteq> key (es_transient_target accs)"
    using check by (auto simp: check_execute_sell_Inr)
  with check guards rest settle_outcome [OF settled] show ?thesis
    by (auto simp: check_execute_sell_Inr sell_guards_Inr at_canonical_pda_def)
qed

theorem sell_drains_transient_witness:
  "\<exists>st' ev t'. execute_sell demo_rt demo_sell demo_sell_route 9850500 [199, 199] 1000 demo_store = Inr (st', ev)
    \<and> st' 2101100 = Some (TokenAcc t') \<and> amount t' = 0"
proof -
  obtain st' ev where run: "execute_sell demo_rt demo_sell demo_sell_route 9850500 [199, 199] 1000 demo_store = Inr (st', ev)"
    using demo_sell_run by blast
  from sell_drains_transient [OF run] run show ?thesis by (auto simp: demo_sell_def)
qed

text \<open>The price bound, for the config and fee config a run used, if they are well formed.\<close>

lemma sell_price_bound:
  assumes run: "execute_sell rt accs remaining min_out swap_data now st = Inr (st', ev)"
    and "st (key (es_config accs)) = Some (ConfigAcc cfg)" "wf_config cfg"
    and "st (key (es_fee_config accs)) = Some (FeeConfigAcc fc)" "wf_fee_config fc"
    and net: "net = unat (ev_amount_in ev) - unat (ev_fee ev)"
    and quote: "quote = sell_ideal net (unat (price_ref_micros cfg)) (unat (target_decimals cfg))"
  shows "0 < price_ref_micros cfg
    \<and> unat (ev_fee ev) = unat (ev_amount_in ev) * unat (fee_bps fc) div 10000
    \<and> 100 * unat (ev_fee ev) \<le> unat (ev_amount_in ev)
    \<and> discount quote (unat (max_slippage_bps cfg)) mod 2 ^ 64 \<le> unat (ev_amount_out ev)
    \<and> (discount quote (unat (max_slippage_bps cfg)) < 2 ^ 64 \<longrightarrow>
          quote * (10000 - unat (max_slippage_bps cfg)) < (unat (ev_amount_out ev) + 1) * 10000)"
proof -
  from run obtain ctx amount_in fee net_in st2 out plan' where
    check: "check_execute_sell rt accs st = Inr ctx" and
    guards: "sell_guards rt accs ctx now min_out = Inr (amount_in, fee, net_in)" and
    settled: "settle rt (es_transient_target accs) (es_dest_usdc accs) (es_buy_authority accs)
       (es_swap_program accs) (es_fee_ata accs) remaining (key (es_user accs)) (sc_bump ctx)
       fee (amount (sc_dest ctx)) min_out swap_data st = Inr (st2, out)" and
    ev: "ev = SellExecuted (key (es_user accs)) amount_in out fee (key (es_swap_program accs))"
    by (rule execute_sellE)
  have ctx: "sc_config ctx = cfg" "sc_fee_config ctx = fc"
    using check assms(2,4) by (simp_all add: check_execute_sell_Inr)
  then have price: "0 < price_ref_micros cfg" and
    fee: "execution_fee (ev_amount_in ev) (fee_bps fc) = Inr (ev_fee ev, net_in)"
    using guards ev by (auto simp: sell_guards_Inr)
  obtain fl where fl: "sell_floor net_in (price_ref_micros cfg) (target_decimals cfg) (max_slippage_bps cfg) = Inr fl"
      "fl \<le> min_out"
    using guards ctx by (auto simp: sell_guards_Inr)
  have out: "min_out \<le> ev_amount_out ev" using settle_outcome [OF settled] ev by auto
  have capped: "fee_bps fc \<le> MAX_FEE_BPS" using assms(5) by (simp add: wf_fee_config_def)
  note fee_facts = execution_fee_capped_Inr [OF fee capped]
  then have "net = unat net_in" by (simp add: net)
  with quote have q: "quote = sell_ideal (unat net_in) (unat (price_ref_micros cfg)) (unat (target_decimals cfg))" by simp
  have paid: "unat fl \<le> unat (ev_amount_out ev)"
    using fl(2) out by (simp add: word_le_nat_alt)
  have "discount quote (unat (max_slippage_bps cfg)) mod 2 ^ 64 \<le> unat (ev_amount_out ev)"
    using sell_quote.quoted [OF fl(1)] q paid by simp
  moreover have "quote * (10000 - unat (max_slippage_bps cfg)) < (unat (ev_amount_out ev) + 1) * 10000"
    if "discount quote (unat (max_slippage_bps cfg)) < 2 ^ 64"
    using sell_quote.band [OF fl(1) that [unfolded q] paid] q by simp
  ultimately show ?thesis using fee_facts price by simp
qed


text \<open>Claim C24. Authority of the venue call: a completed sell took its fee first and then called
  exactly one program, one on the whitelist of an unpaused config, with the address of the
  user's own transient PDA as the only signature the router adds; every signer of the forwarded
  instruction is that PDA or had signed the transaction. The plan's account is the only one
  changed after the call.\<close>

theorem sell_call_authority:
  assumes "execute_sell rt accs remaining min_out swap_data now st = Inr (st', ev)" "pda_derivation rt"
  shows "\<exists>cfg ix st1 st2 pda plan. st (key (es_config accs)) = Some (ConfigAcc cfg) \<and> \<not> paused cfg
    \<and> pda = fst (find_pda rt ROUTER_ID (buy_auth_seeds (key (es_user accs))))
    \<and> skim_fee rt (es_transient_target accs) (es_fee_ata accs) (es_buy_authority accs) pda (ev_fee ev) st = Inr st1
    \<and> invoke rt ix (remaining @ [es_swap_program accs]) [pda] st1 = Some st2
    \<and> st' = st2(key (es_sell_plan accs) \<mapsto> SellPlanAcc plan)
    \<and> program_id ix = ev_venue ev \<and> ev_venue ev \<in> venues cfg
    \<and> {meta_pubkey m | m. m \<in> set (ix_accounts ix) \<and> meta_is_signer m}
        \<subseteq> insert pda {key ai | ai. ai \<in> set remaining \<and> is_signer ai}"
proof -
  from assms(1) obtain ctx amount_in fee net_in st2 out plan' where
    check: "check_execute_sell rt accs st = Inr ctx" and
    guards: "sell_guards rt accs ctx now min_out = Inr (amount_in, fee, net_in)" and
    settled: "settle rt (es_transient_target accs) (es_dest_usdc accs) (es_buy_authority accs)
       (es_swap_program accs) (es_fee_ata accs) remaining (key (es_user accs)) (sc_bump ctx)
       fee (amount (sc_dest ctx)) min_out swap_data st = Inr (st2, out)" and
    rest: "st' = st2(key (es_sell_plan accs) \<mapsto> SellPlanAcc plan')"
      "ev = SellExecuted (key (es_user accs)) amount_in out fee (key (es_swap_program accs))"
    by (rule execute_sellE)
  have auth: "key (es_buy_authority accs) = fst (find_pda rt ROUTER_ID (buy_auth_seeds (key (es_user accs))))"
    "sc_bump ctx = snd (find_pda rt ROUTER_ID (buy_auth_seeds (key (es_user accs))))"
    and cfg: "st (key (es_config accs)) = Some (ConfigAcc (sc_config ctx))"
    using check by (simp_all add: check_execute_sell_Inr at_canonical_pda_def)
  have venue: "key (es_swap_program accs) \<in> venues (sc_config ctx)" "\<not> paused (sc_config ctx)"
    using guards by (auto simp: sell_guards_Inr is_whitelisted_venues)
  from settle_call [OF settled assms(2) auth(2,1)] auth(1) rest obtain ix st1 where
    "skim_fee rt (es_transient_target accs) (es_fee_ata accs) (es_buy_authority accs)
       (key (es_buy_authority accs)) (ev_fee ev) st = Inr st1"
    "invoke rt ix (remaining @ [es_swap_program accs]) [key (es_buy_authority accs)] st1 = Some st2"
    "program_id ix = ev_venue ev"
    "{meta_pubkey m | m. m \<in> set (ix_accounts ix) \<and> meta_is_signer m}
       \<subseteq> insert (key (es_buy_authority accs)) {key ai | ai. ai \<in> set remaining \<and> is_signer ai}"
    by auto
  with venue cfg rest auth(1) show ?thesis
    by (intro exI [of _ "sc_config ctx"] exI [of _ ix] exI [of _ st1] exI [of _ st2]
        exI [of _ "key (es_buy_authority accs)"] exI [of _ plan']) auto
qed

theorem sell_call_authority_witness:
  "\<exists>st' ev ix st1 st2. execute_sell demo_rt demo_sell demo_sell_route 9850500 [199, 199] 1000 demo_store = Inr (st', ev)
    \<and> demo_invoke ix (demo_sell_route @ [readonly MOCK_SWAP_ID]) [1100] st1 = Some st2
    \<and> {meta_pubkey m | m. m \<in> set (ix_accounts ix) \<and> meta_is_signer m} \<subseteq> {1100}"
proof -
  obtain st' ev where run: "execute_sell demo_rt demo_sell demo_sell_route 9850500 [199, 199] 1000 demo_store = Inr (st', ev)"
    using demo_sell_run by blast
  have [simp]: "find_pda demo_rt ROUTER_ID (buy_auth_seeds 100) = (1100, 251)"
    by (simp add: demo_rt_def demo_base_def buy_auth_seeds_def)
  have [simp]: "{key ai | ai. ai \<in> set demo_sell_route \<and> is_signer ai} = {}"
    by (auto simp: demo_sell_route_def)
  from sell_call_authority [OF run demo_pda_derivation] run show ?thesis
    by (auto simp: demo_sell_def demo_rt_def [THEN arg_cong [where f = invoke]])
qed

section \<open>The amortisation cap\<close>

text \<open>Claim C5. Amortised draw: a completed sell of a well-formed plan sold at most
  (wallet + pulled amount) divided by the periods remaining, a number that is at least 1 and
  otherwise the whole periods between the clock and the end of the plan.\<close>

theorem sell_draw_amortised:
  assumes "execute_sell rt accs remaining min_out swap_data now st = Inr (st', ev)"
    and "st (key (es_sell_plan accs)) = Some (SellPlanAcc plan)" "wf_sell_plan plan"
  shows "\<exists>cfg pot n. st (key (es_config accs)) = Some (ConfigAcc cfg)
    \<and> key (es_user_target_ata accs) = ata rt (plan_user plan) (target_mint cfg)
    \<and> st (key (es_user_target_ata accs)) = Some (TokenAcc pot)
    \<and> int n = max 1 (clamp_i64 (sint (end_ts plan) - sint now) div sint (period_secs plan))
    \<and> unat (ev_amount_in ev) * n \<le> unat (amount pot) + unat (ev_amount_in ev)"
proof -
  from assms(1) obtain ctx amount_in fee net_in st2 out plan' where
    check: "check_execute_sell rt accs st = Inr ctx" and
    guards: "sell_guards rt accs ctx now min_out = Inr (amount_in, fee, net_in)" and
    ev: "ev = SellExecuted (key (es_user accs)) amount_in out fee (key (es_swap_program accs))"
    by (rule execute_sellE)
  have plan: "sc_plan ctx = plan" "plan_user plan = key (es_user accs)"
    using check assms(2) by (simp_all add: check_execute_sell_Inr)
  obtain n where n: "remaining_periods plan now = Inr n" "1 \<le> sint n"
      "sint n = max 1 (clamp_i64 (sint (end_ts plan) - sint now) div sint (period_secs plan))"
    using remaining_periods_total [OF assms(3)] by blast
  then have cast: "unat (scast n :: u128) = nat (sint n)" by (simp add: unat_scast_nonneg)
  obtain cap where cap: "sell_cap (amount (sc_pot ctx)) amount_in plan now = Inr cap" "ucast amount_in \<le> cap"
    using guards plan(1) by (auto simp: sell_guards_Inr)
  have "unat amount_in \<le> unat cap"
    using cap(2) by (simp add: word_le_nat_alt)
  also have "unat cap = (unat (amount (sc_pot ctx)) + unat amount_in) div nat (sint n)"
    using cap(1) n(1) cast by (auto simp: sell_cap_Inr)
  finally have "unat amount_in * nat (sint n)
      \<le> (unat (amount (sc_pot ctx)) + unat amount_in) div nat (sint n) * nat (sint n)"
    by (rule mult_le_mono1)
  also have "\<dots> \<le> unat (amount (sc_pot ctx)) + unat amount_in" by simp
  finally have draw: "unat amount_in * nat (sint n) \<le> unat (amount (sc_pot ctx)) + unat amount_in" .
  have "int (nat (sint n)) = max 1 (clamp_i64 (sint (end_ts plan) - sint now) div sint (period_secs plan))"
    using n(2,3) by simp
  moreover have "st (key (es_config accs)) = Some (ConfigAcc (sc_config ctx))"
    "st (key (es_user_target_ata accs)) = Some (TokenAcc (sc_pot ctx))"
    using check by (simp_all add: check_execute_sell_Inr)
  moreover have "key (es_user_target_ata accs) = ata rt (plan_user plan) (target_mint (sc_config ctx))"
    using guards plan(2) by (simp add: sell_guards_Inr)
  moreover have "ev_amount_in ev = amount_in" by (simp add: ev)
  ultimately show ?thesis using draw by blast
qed

theorem sell_draw_amortised_witness:
  "\<exists>st' ev. execute_sell demo_rt demo_sell demo_sell_route 9850500 [199, 199] 1000 demo_store = Inr (st', ev)
    \<and> unat (ev_amount_in ev) * 10 \<le> 90000000 + unat (ev_amount_in ev)"
proof -
  obtain st' ev where run:
    "execute_sell demo_rt demo_sell demo_sell_route 9850500 [199, 199] 1000 demo_store = Inr (st', ev)"
    using demo_sell_run by blast
  have plan: "wf_sell_plan demo_plan" by (simp add: wf_sell_plan_def demo_plan_def router_constants)
  from sell_draw_amortised [OF run _ plan] run show ?thesis
    by (auto simp: demo_sell_def demo_store_def demo_plan_def demo_token_def clamp_i64_def
        i64_min_def i64_max_def)
qed

text \<open>Claim C36. The pot can be gone before the last slot: on a crank at its due time with at least one and
  less than two whole periods to the end, the cap is the entire pot, although the advanced due
  time is still not past the end, so that one more slot of the plan stays open. The number of
  periods remaining counts whole periods, which is one less than the number of slots.\<close>

theorem sell_full_pot_before_last_slot:
  assumes "wf_sell_plan plan" "0 \<le> sint (next_due_ts plan)" "now = next_due_ts plan"
    and "sint (period_secs plan) \<le> sint (end_ts plan) - sint now"
    and "sint (end_ts plan) - sint now < 2 * sint (period_secs plan)"
  shows "\<exists>cap plan'. sell_cap wallet a plan now = Inr cap \<and> unat cap = unat wallet + unat a
    \<and> advance_plan plan now = Inr plan' \<and> sint (next_due_ts plan') \<le> sint (end_ts plan')"
proof -
  define p where "p = sint (period_secs plan)"
  define left where "left = sint (end_ts plan) - sint now"
  have p: "60 \<le> p" using wf_sell_plan_period [OF assms(1)] by (simp add: p_def)
  have left: "p \<le> left" "left < 2 * p" "left \<le> i64_max" "0 \<le> left"
    using assms(2-5) p i64_range(2) [of "end_ts plan"] by (simp_all add: p_def left_def)
  have "1 \<le> left div p" "left div p < 2"
    using left p by (auto intro: le_zdiv_of_mult_le zdiv_less_of_less_mult)
  moreover have "clamp_i64 left = left" using left by (simp add: clamp_i64_def i64_min_def)
  ultimately obtain n where n: "remaining_periods plan now = Inr n" "sint n = 1"
    using remaining_periods_total [OF assms(1), of now] by (auto simp: left_def p_def)
  then have one: "unat (scast n :: u128) = 1" using unat_scast_nonneg [of n] by simp
  then have "(scast n :: u128) \<noteq> 0" by auto
  moreover have "unat wallet + unat a < 2 ^ 128"
    using unat_bound [of wallet] unat_bound [of a] by simp
  then obtain total where "unat (total :: u128) = unat wallet + unat a"
    using fit_u_ok [of "unat wallet + unat a", where 'a = 128] by auto
  ultimately have cap: "sell_cap wallet a plan now = Inr total" "unat total = unat wallet + unat a"
    using n one by (auto simp: sell_cap_Inr)
  have "sint now + p \<le> i64_max"
    using left(1) i64_range(2) [of "end_ts plan"] by (simp add: left_def)
  then obtain plan' where plan': "advance_plan plan now = Inr plan'"
    using advance_plan_ok [OF assms(1,2), of now] assms(3) by (auto simp: p_def)
  note moved = advance_plan_Inr [OF plan' assms(1)]
  have "sint (next_due_ts plan') = sint now + p"
    using moved(2) assms(3) by (simp add: next_slot_def p_def)
  moreover have "end_ts plan' = end_ts plan"
    using moved(1) assms(3) by (metis order.refl sell_plan.select_convs(2) sell_plan.surjective sell_plan.update_convs(4))
  ultimately have "sint (next_due_ts plan') \<le> sint (end_ts plan')"
    using left(1) by (simp add: left_def)
  with cap plan' show ?thesis by blast
qed

theorem sell_full_pot_before_last_slot_witness:
  "\<exists>cap plan'. sell_cap 90000000 10000000 (demo_plan\<lparr>next_due_ts := 1540\<rparr>) 1540 = Inr cap \<and> unat cap = 100000000
     \<and> advance_plan (demo_plan\<lparr>next_due_ts := 1540\<rparr>) 1540 = Inr plan' \<and> sint (next_due_ts plan') \<le> sint (end_ts plan')"
proof -
  have "wf_sell_plan (demo_plan\<lparr>next_due_ts := 1540\<rparr>)"
    by (simp add: wf_sell_plan_def demo_plan_def router_constants)
  from sell_full_pot_before_last_slot [OF this, of 1540 90000000 10000000] show ?thesis
    by (simp add: demo_plan_def)
qed

section \<open>The clock gate\<close>

text \<open>Claim C13. One crank: a completed sell of a well-formed plan was due and not past the end of
  the plan, and moved the due time, and nothing else of the plan, to the first point of the
  plan's own grid of periods that lies after the clock.\<close>

theorem sell_advances_gate:
  assumes "execute_sell rt accs remaining min_out swap_data now st = Inr (st', ev)"
    and "st (key (es_sell_plan accs)) = Some (SellPlanAcc plan)" "wf_sell_plan plan"
  shows "sint (next_due_ts plan) \<le> sint now \<and> sint (next_due_ts plan) \<le> sint (end_ts plan)
    \<and> (\<exists>due. st' (key (es_sell_plan accs)) = Some (SellPlanAcc (plan\<lparr>next_due_ts := due\<rparr>))
         \<and> sint now < sint due \<and> sint due \<le> sint now + sint (period_secs plan)
         \<and> sint (period_secs plan) dvd sint due - sint (next_due_ts plan))"
proof -
  from assms(1) obtain ctx amount_in fee net_in st2 plan' where
    check: "check_execute_sell rt accs st = Inr ctx" and
    guards: "sell_guards rt accs ctx now min_out = Inr (amount_in, fee, net_in)" and
    advance: "advance_plan (sc_plan ctx) now = Inr plan'" and
    st': "st' = st2(key (es_sell_plan accs) \<mapsto> SellPlanAcc plan')"
    by (rule execute_sellE)
  have plan: "sc_plan ctx = plan" using check assms(2) by (simp add: check_execute_sell_Inr)
  with guards have due: "sint (next_due_ts plan) \<le> sint now" "sint (next_due_ts plan) \<le> sint (end_ts plan)"
    by (simp_all add: sell_guards_Inr)
  note moved = advance_plan_Inr [OF advance [unfolded plan] assms(3) due(1)]
  have period: "0 < sint (period_secs plan)" using wf_sell_plan_period [OF assms(3)] by simp
  have "sint (period_secs plan) dvd sint (next_due_ts plan') - sint (next_due_ts plan)"
    unfolding moved(2) by (rule next_slot_grid) simp
  moreover have "sint now < sint (next_due_ts plan')"
      "sint (next_due_ts plan') \<le> sint now + sint (period_secs plan)"
    unfolding moved(2) using next_slot_bounds [OF period due(1)] by simp_all
  moreover have "st' (key (es_sell_plan accs)) = Some (SellPlanAcc (plan\<lparr>next_due_ts := next_due_ts plan'\<rparr>))"
    using st' moved(1) by simp
  ultimately show ?thesis using due by blast
qed

lemma demo_plan_wf: "wf_sell_plan demo_plan"
  by (simp add: wf_sell_plan_def demo_plan_def router_constants)

theorem sell_advances_gate_witness:
  "\<exists>st' ev due. execute_sell demo_rt demo_sell demo_sell_route 9850500 [199, 199] 1000 demo_store = Inr (st', ev)
    \<and> st' 2100 = Some (SellPlanAcc (demo_plan\<lparr>next_due_ts := due\<rparr>)) \<and> 1000 < sint due \<and> sint due \<le> 1060"
proof -
  obtain st' ev where run:
    "execute_sell demo_rt demo_sell demo_sell_route 9850500 [199, 199] 1000 demo_store = Inr (st', ev)"
    using demo_sell_run by blast
  from sell_advances_gate [OF run _ demo_plan_wf] run show ?thesis
    by (fastforce simp: demo_sell_def demo_store_def demo_plan_def)
qed

text \<open>The plan in an account as a gate (its due time, period and end), and a crank of it by
  anybody, with any accounts, route and floor.\<close>

fun plan_gate :: "account option \<Rightarrow> (int \<times> int \<times> int) option" where
  "plan_gate (Some (SellPlanAcc plan)) =
     (if wf_sell_plan plan
      then Some (sint (next_due_ts plan), sint (period_secs plan), sint (end_ts plan)) else None)"
| "plan_gate _ = None"

lemma plan_gate_Some:
  "plan_gate a = Some g \<longleftrightarrow> (\<exists>plan. a = Some (SellPlanAcc plan) \<and> wf_sell_plan plan
     \<and> g = (sint (next_due_ts plan), sint (period_secs plan), sint (end_ts plan)))"
  by (cases a rule: plan_gate.cases) auto

definition sell_crank :: "runtime \<Rightarrow> pubkey \<Rightarrow> store \<Rightarrow> int \<Rightarrow> store \<Rightarrow> bool" where
  "sell_crank rt k st t st' \<longleftrightarrow>
     (\<exists>accs remaining min_out swap_data now ev.
        execute_sell rt accs remaining min_out swap_data now st = Inr (st', ev)
        \<and> key (es_sell_plan accs) = k \<and> sint now = t)"

definition plan_untouched :: "pubkey \<Rightarrow> store \<Rightarrow> store \<Rightarrow> bool" where
  "plan_untouched k st st' \<longleftrightarrow> st' k = st k"

lemma sell_crank_gate:
  assumes "plan_gate (st k) = Some (due, p, h)" "sell_crank rt k st t st'"
  shows "due \<le> t \<and> due \<le> h \<and> plan_gate (st' k) = Some (next_slot due p t, p, h)"
proof -
  from assms(2) obtain accs remaining min_out swap_data now ev where
    run: "execute_sell rt accs remaining min_out swap_data now st = Inr (st', ev)" and
    kt: "key (es_sell_plan accs) = k" "sint now = t"
    by (auto simp: sell_crank_def)
  from run obtain ctx amount_in fee net_in st2 plan' where
    check: "check_execute_sell rt accs st = Inr ctx" and
    guards: "sell_guards rt accs ctx now min_out = Inr (amount_in, fee, net_in)" and
    advance: "advance_plan (sc_plan ctx) now = Inr plan'" and
    st': "st' = st2(key (es_sell_plan accs) \<mapsto> SellPlanAcc plan')"
    by (rule execute_sellE)
  have "st k = Some (SellPlanAcc (sc_plan ctx))" using check kt by (simp add: check_execute_sell_Inr)
  with assms(1) have plan: "wf_sell_plan (sc_plan ctx)" "due = sint (next_due_ts (sc_plan ctx))"
    "p = sint (period_secs (sc_plan ctx))" "h = sint (end_ts (sc_plan ctx))"
    by (auto split: if_splits)
  have due: "due \<le> t" "due \<le> h" using guards kt plan by (simp_all add: sell_guards_Inr)
  with advance_plan_Inr [OF advance plan(1)] plan kt
  have moved: "plan' = (sc_plan ctx)\<lparr>next_due_ts := next_due_ts plan'\<rparr>" "sint (next_due_ts plan') = next_slot due p t"
    by simp_all
  have "period_secs plan' = period_secs (sc_plan ctx)" "end_ts plan' = end_ts (sc_plan ctx)"
    by (subst moved(1), simp)+
  then have "plan_gate (st' k) = Some (next_slot due p t, p, h)"
    using st' kt plan moved(2) by (simp add: wf_sell_plan_def)
  with due show ?thesis by simp
qed

interpretation plan_crank: crank_gate "\<lambda>st. plan_gate (st k)" "sell_crank rt k" "plan_untouched k"
  for rt k
proof unfold_locales
  show "0 < p" if "plan_gate (st k) = Some (due, p, h)" for st due p h
    using that wf_sell_plan_period by (fastforce simp: plan_gate_Some)
qed (use sell_crank_gate in \<open>auto simp: plan_untouched_def\<close>)

section \<open>Refusals\<close>

text \<open>Claim C28. Outside its window a plan cannot be cranked: whatever accounts, floor and route
  the keeper brings, with an unpaused config a plan whose next due time is past its end is
  refused with \<open>PlanCompleted\<close>, and one that is not due yet with \<open>NotDue\<close>.\<close>

theorem sell_refused_outside_window:
  assumes "check_execute_sell rt accs st = Inr ctx" "\<not> paused (sc_config ctx)"
    and "sint now < sint (next_due_ts (sc_plan ctx)) \<or> sint (end_ts (sc_plan ctx)) < sint (next_due_ts (sc_plan ctx))"
  shows "execute_sell rt accs remaining min_out swap_data now st =
    Inl (Buy (if sint (end_ts (sc_plan ctx)) < sint (next_due_ts (sc_plan ctx)) then PlanCompleted else NotDue))"
  using assms by (auto simp: execute_sell_def sell_guards_def Let_def require_def)

theorem sell_refused_outside_window_witness:
  "execute_sell demo_rt demo_sell demo_sell_route 9850500 [199, 199] 999 demo_store = Inl (Buy NotDue)"
proof -
  have "and_then (check_execute_sell demo_rt demo_sell demo_store) (\<lambda>ctx.
      require (\<not> paused (sc_config ctx) \<and> sc_plan ctx = demo_plan) Panicked (Inr ())) = Inr ()"
    by code_simp
  then obtain ctx where ctx: "check_execute_sell demo_rt demo_sell demo_store = Inr ctx"
      "\<not> paused (sc_config ctx)" "sc_plan ctx = demo_plan"
    by (auto simp: result_simps)
  from sell_refused_outside_window [OF ctx(1,2), of 999] ctx(3) show ?thesis
    by (simp add: demo_plan_def)
qed

text \<open>Claim C27. Overdraw: once the plan is due and the accounts are the canonical ones, a pull of
  \<open>a > 0\<close> tokens with \<open>a * n > wallet + a\<close>, where \<open>n\<close> is the number of periods remaining, is
  refused with \<open>OverdrawSchedule\<close> before any token moves.\<close>

theorem sell_overdraw_refused:
  assumes "check_execute_sell rt accs st = Inr ctx" "\<not> paused (sc_config ctx)"
    and "sint (next_due_ts (sc_plan ctx)) \<le> sint (end_ts (sc_plan ctx))" "sint (next_due_ts (sc_plan ctx)) \<le> sint now"
    and "key (es_dest_usdc accs) = ata rt (key (es_user accs)) (usdc_mint (sc_config ctx))"
    and "key (es_transient_target accs) = ata rt (key (es_buy_authority accs)) (target_mint (sc_config ctx))"
    and "key (es_user_target_ata accs) = ata rt (key (es_user accs)) (target_mint (sc_config ctx))"
    and "a = amount (sc_transient ctx)" "0 < a"
    and "remaining_periods (sc_plan ctx) now = Inr n" "0 < sint n"
    and "unat (amount (sc_pot ctx)) + unat a < unat a * nat (sint n)"
  shows "execute_sell rt accs remaining min_out swap_data now st = Inl (Buy OverdrawSchedule)"
proof -
  have n: "unat (scast n :: u128) = nat (sint n)" using assms(11) by (simp add: unat_scast_nonneg)
  have n0: "(scast n :: u128) \<noteq> 0"
  proof
    assume "(scast n :: u128) = 0"
    with n assms(11) show False by simp
  qed
  have "unat (amount (sc_pot ctx)) + unat a < 2 ^ 128"
    using unat_bound [of "amount (sc_pot ctx)"] unat_bound [of a] by simp
  then obtain total where total: "checked_add (ucast (amount (sc_pot ctx)) :: u128) (ucast a) = Some total"
      "unat total = unat (amount (sc_pot ctx)) + unat a"
    using fit_u_ok [of "unat (amount (sc_pot ctx)) + unat a", where 'a = 128] by (auto simp: checked_add_def)
  obtain cap where cap: "checked_div total (scast n) = Some cap" "unat cap = unat total div nat (sint n)"
    using checked_div_ok [OF n0, of total] n by auto
  have "unat cap < unat a"
    using cap(2) total(2) assms(11,12) by (simp add: div_less_iff_less_mult)
  then have "\<not> ucast a \<le> cap" by (simp add: word_le_nat_alt)
  then show ?thesis
    using assms(1-7,9,10) total(1) cap(1) unfolding assms(8)
    by (simp add: execute_sell_def sell_guards_def sell_cap_def Let_def)
qed

text \<open>The witness: the demo store with only 89999999 tokens left in the wallet for the ten periods.\<close>

theorem sell_overdraw_refused_witness:
  "execute_sell demo_rt demo_sell demo_sell_route 9850500 [199, 199] 1000
     (demo_store(2100100 \<mapsto> demo_token 21 100 89999999)) = Inl (Buy OverdrawSchedule)"
proof -
  let ?st = "demo_store(2100100 \<mapsto> demo_token 21 100 89999999)"
  have "and_then (check_execute_sell demo_rt demo_sell ?st) (\<lambda>ctx.
      and_then (remaining_periods (sc_plan ctx) 1000) (\<lambda>n.
      require (sc_config ctx = demo_config \<and> sc_plan ctx = demo_plan \<and> amount (sc_transient ctx) = 10000000
        \<and> amount (sc_pot ctx) = 89999999 \<and> sint n = 10) Panicked (Inr ()))) = Inr ()"
    by code_simp
  then obtain ctx n where ctx: "check_execute_sell demo_rt demo_sell ?st = Inr ctx"
      "sc_config ctx = demo_config" "sc_plan ctx = demo_plan" "amount (sc_transient ctx) = 10000000"
      "amount (sc_pot ctx) = 89999999" "remaining_periods (sc_plan ctx) 1000 = Inr n" "sint n = 10"
    by (auto simp: result_simps)
  show ?thesis
    by (rule sell_overdraw_refused [OF ctx(1) _ _ _ _ _ _ refl _ ctx(6)])
      (simp_all add: ctx demo_config_def demo_plan_def demo_sell_def demo_rt_def demo_base_def demo_ata_def)
qed

text \<open>Claim C26. The outcome of the venue call decides: once the guards have passed and the call has
  returned with both accounts still in place, the result is \<open>TransientNotDrained\<close> if anything
  is left in the transient, \<open>Overflow\<close> if the destination lost tokens, \<open>SlippageExceeded\<close> if
  it gained less than \<open>min_out\<close>, and otherwise that of the advance: success with the plan
  written back, or its overflow.\<close>

theorem execute_sell_outcome:
  assumes "check_execute_sell rt accs st = Inr ctx"
    and "sell_guards rt accs ctx now min_out = Inr (amount_in, fee, net_in)"
    and "create_pda rt ROUTER_ID (buy_auth_seeds (key (es_user accs))) (sc_bump ctx) = Some pda"
    and "skim_fee rt (es_transient_target accs) (es_fee_ata accs) (es_buy_authority accs) pda fee st = Inr st1"
    and "invoke_venue rt (es_swap_program accs) (es_buy_authority accs) remaining swap_data pda st1 = Inr st2"
    and "st2 (key (es_transient_target accs)) = Some (TokenAcc t)" "st2 (key (es_dest_usdc accs)) = Some (TokenAcc d)"
  shows "execute_sell rt accs remaining min_out swap_data now st =
    (if amount t \<noteq> 0 then Inl (Buy TransientNotDrained)
     else if amount d < amount (sc_dest ctx) then Inl (Buy Overflow)
     else if amount d - amount (sc_dest ctx) < min_out then Inl (Buy SlippageExceeded)
     else case advance_plan (sc_plan ctx) now of
       Inl e \<Rightarrow> Inl e
     | Inr plan \<Rightarrow> Inr (st2(key (es_sell_plan accs) \<mapsto> SellPlanAcc plan),
         SellExecuted (key (es_user accs)) amount_in (amount d - amount (sc_dest ctx)) fee (key (es_swap_program accs))))"
  using assms
  by (auto simp: execute_sell_def settle_def seeds_signer_def check_outcome_def checked_sub_def
        require_def not_less and_then_def split: sum.splits)

text \<open>The witness: a route that leaves tokens behind.\<close>

lemma demo_leftover_run:
  obtains ctx amount_in fee net_in pda st1 st2 t d where
    "check_execute_sell demo_rt demo_sell demo_store = Inr ctx"
    "sell_guards demo_rt demo_sell ctx 1000 9850500 = Inr (amount_in, fee, net_in)"
    "create_pda demo_rt ROUTER_ID (buy_auth_seeds (key (es_user demo_sell))) (sc_bump ctx) = Some pda"
    "skim_fee demo_rt (es_transient_target demo_sell) (es_fee_ata demo_sell) (es_buy_authority demo_sell) pda fee demo_store = Inr st1"
    "invoke_venue demo_rt (es_swap_program demo_sell) (es_buy_authority demo_sell) demo_sell_route [198, 199] pda st1 = Inr st2"
    "st2 (key (es_transient_target demo_sell)) = Some (TokenAcc t)" "st2 (key (es_dest_usdc demo_sell)) = Some (TokenAcc d)"
    "amount t = 50000"
proof -
  have "and_then (check_execute_sell demo_rt demo_sell demo_store) (\<lambda>ctx.
     and_then (sell_guards demo_rt demo_sell ctx 1000 9850500) (\<lambda>(amount_in, fee, net_in).
     ok_or (create_pda demo_rt ROUTER_ID (buy_auth_seeds (key (es_user demo_sell))) (sc_bump ctx)) CpiFailed (\<lambda>pda.
     and_then (skim_fee demo_rt (es_transient_target demo_sell) (es_fee_ata demo_sell) (es_buy_authority demo_sell) pda fee demo_store) (\<lambda>st1.
     and_then (invoke_venue demo_rt (es_swap_program demo_sell) (es_buy_authority demo_sell) demo_sell_route [198, 199] pda st1) (\<lambda>st2.
     and_then (as_token (st2 (key (es_transient_target demo_sell)))) (\<lambda>t.
     and_then (as_token (st2 (key (es_dest_usdc demo_sell)))) (\<lambda>d.
     require (amount t = 50000) Panicked (Inr ())))))))) = Inr ()"
    by code_simp
  then show thesis
    by (auto simp: result_simps intro: that)
qed

theorem execute_sell_outcome_witness:
  "execute_sell demo_rt demo_sell demo_sell_route 9850500 [198, 199] 1000 demo_store
     = Inl (Buy TransientNotDrained)"
proof -
  obtain ctx amount_in fee net_in pda st1 st2 t d where run:
    "check_execute_sell demo_rt demo_sell demo_store = Inr ctx"
    "sell_guards demo_rt demo_sell ctx 1000 9850500 = Inr (amount_in, fee, net_in)"
    "create_pda demo_rt ROUTER_ID (buy_auth_seeds (key (es_user demo_sell))) (sc_bump ctx) = Some pda"
    "skim_fee demo_rt (es_transient_target demo_sell) (es_fee_ata demo_sell) (es_buy_authority demo_sell) pda fee demo_store = Inr st1"
    "invoke_venue demo_rt (es_swap_program demo_sell) (es_buy_authority demo_sell) demo_sell_route [198, 199] pda st1 = Inr st2"
    "st2 (key (es_transient_target demo_sell)) = Some (TokenAcc t)" "st2 (key (es_dest_usdc demo_sell)) = Some (TokenAcc d)"
    and "amount t = 50000"
    by (rule demo_leftover_run)
  then show ?thesis by (simp add: execute_sell_outcome [OF run])
qed

end
