(* ===== verification/Router_Program.thy ===== *)
theory Router_Program
  imports Transition_Runs Admin_Properties Plan_Properties Buy_Properties Sell_Properties
begin

text \<open>
  The program as a whole: the dispatch of \<open>#[program] mod recurring_buy\<close>, and the stores it can
  reach when its instructions interleave with whatever other programs do to accounts that are
  not the router's. \<open>wf_store\<close> is the invariant every reachable store satisfies.
\<close>

section \<open>The instructions\<close>

datatype instruction =
    InitConfig init_config_accounts "pubkey list" u64 u16
  | SetPause admin_only_accounts bool
  | SetParams admin_only_accounts u64 u16
  | InitFeeConfig init_fee_config_accounts u16 pubkey
  | SetFee set_fee_accounts u16 pubkey
  | SetWhitelist admin_only_accounts "pubkey list"
  | ExecuteBuy execute_buy_accounts "account_info list" u64 "u8 list"
  | OpenSellPlan open_sell_plan_accounts i64 i64
  | CloseSellPlan close_sell_plan_accounts
  | ExecuteSell execute_sell_accounts "account_info list" u64 "u8 list"

text \<open>One instruction at clock time \<open>now\<close>; the events are dropped.\<close>

fun process :: "runtime \<Rightarrow> instruction \<Rightarrow> i64 \<Rightarrow> store \<Rightarrow> store result" where
  "process rt (InitConfig accs venue_list price slippage) now st = init_config rt accs venue_list price slippage st"
| "process rt (SetPause accs flag) now st = set_pause rt accs flag st"
| "process rt (SetParams accs price slippage) now st = set_params rt accs price slippage st"
| "process rt (InitFeeConfig accs bps dest) now st = init_fee_config rt accs bps dest st"
| "process rt (SetFee accs bps dest) now st = set_fee rt accs bps dest st"
| "process rt (SetWhitelist accs venue_list) now st = set_whitelist rt accs venue_list st"
| "process rt (ExecuteBuy accs remaining min_out swap_data) now st =
     and_then (execute_buy rt accs remaining min_out swap_data st) (\<lambda>(st', _). Inr st')"
| "process rt (OpenSellPlan accs end_t period) now st = open_sell_plan rt accs end_t period now st"
| "process rt (CloseSellPlan accs) now st = close_sell_plan rt accs st"
| "process rt (ExecuteSell accs remaining min_out swap_data) now st =
     and_then (execute_sell rt accs remaining min_out swap_data now st) (\<lambda>(st', _). Inr st')"

text \<open>The venues an instruction would put on the whitelist. The traces below are those in which
  the admin never lists the router itself as a venue: a call of the router by itself is the one
  call that may write the router's accounts.\<close>

fun new_venues :: "instruction \<Rightarrow> pubkey set" where
  "new_venues (InitConfig _ venue_list _ _) = set venue_list"
| "new_venues (SetWhitelist _ venue_list) = set venue_list"
| "new_venues _ = {}"

section \<open>Steps\<close>

text \<open>A failed transaction leaves no trace; a step is a completed instruction of the router or
  anything another program does.\<close>

datatype label = Router instruction i64 | Foreign

inductive step :: "runtime \<Rightarrow> store \<Rightarrow> label \<Rightarrow> store \<Rightarrow> bool" for rt where
  router: "process rt ix now st = Inr st' \<Longrightarrow> ROUTER_ID \<notin> new_venues ix \<Longrightarrow> step rt st (Router ix now) st'"
| foreign: "router_frame st st' \<Longrightarrow> step rt st Foreign st'"

inductive_simps router_step: "step rt st (Router ix now) st'"

inductive_simps foreign_step: "step rt st Foreign st'"

text \<open>Before deployment no account belongs to the router.\<close>

definition undeployed :: "store \<Rightarrow> bool" where
  "undeployed st \<longleftrightarrow> (\<forall>k. \<not> router_owned (st k))"

definition reachable :: "runtime \<Rightarrow> store \<Rightarrow> bool" where
  "reachable rt st \<longleftrightarrow> (\<exists>st0 ls. undeployed st0 \<and> steps (step rt) st0 ls st)"

section \<open>The invariant\<close>

fun wf_account :: "runtime \<Rightarrow> pubkey \<Rightarrow> account option \<Rightarrow> bool" where
  "wf_account rt k (Some (ConfigAcc cfg)) \<longleftrightarrow> wf_config cfg \<and> ROUTER_ID \<notin> venues cfg
     \<and> find_pda rt ROUTER_ID config_seeds = (k, config_bump cfg)"
| "wf_account rt k (Some (FeeConfigAcc fc)) \<longleftrightarrow> wf_fee_config fc
     \<and> find_pda rt ROUTER_ID fee_config_seeds = (k, fee_bump fc)"
| "wf_account rt k (Some (SellPlanAcc plan)) \<longleftrightarrow> wf_sell_plan plan \<and> k \<noteq> plan_user plan
     \<and> find_pda rt ROUTER_ID (sell_plan_seeds (plan_user plan)) = (k, plan_bump plan)"
| "wf_account rt k _ \<longleftrightarrow> True"

definition wf_store :: "runtime \<Rightarrow> store \<Rightarrow> bool" where
  "wf_store rt st \<longleftrightarrow> (\<forall>k. wf_account rt k (st k))"

lemma wf_store_account: "wf_store rt st \<Longrightarrow> st k = Some a \<Longrightarrow> wf_account rt k (Some a)"
  unfolding wf_store_def by (drule spec [of _ k]) simp

lemma wf_account_free: "\<not> router_owned a \<Longrightarrow> wf_account rt k a"
proof (cases a)
  case (Some x)
  moreover assume "\<not> router_owned a"
  ultimately show ?thesis by (cases x) auto
qed simp

lemma wf_store_update: "wf_store rt st \<Longrightarrow> wf_account rt k a \<Longrightarrow> wf_store rt (st(k := a))"
  by (simp add: wf_store_def)

lemma wf_store_frame:
  assumes "wf_store rt st" "router_frame st st'"
  shows "wf_store rt st'"
  unfolding wf_store_def
proof
  fix k
  show "wf_account rt k (st' k)"
  proof (cases "router_owned (st' k)")
    case True
    then have "st' k = st k" using assms(2) unfolding router_frame_def by blast
    moreover have "wf_account rt k (st k)" using assms(1) unfolding wf_store_def by blast
    ultimately show ?thesis by (simp only:)
  qed (rule wf_account_free)
qed

section \<open>Every instruction keeps the invariant\<close>

lemma init_config_wf:
  assumes "init_config rt accs venue_list price slippage st = Inr st'" "ROUTER_ID \<notin> set venue_list" "wf_store rt st"
  shows "wf_store rt st'"
proof -
  let ?k = "fst (find_pda rt ROUTER_ID config_seeds)"
  from assms(1) obtain target usdc bump arr where
    check: "check_init_config rt accs st = Inr (target, usdc, bump)" and
    bounds: "length venue_list \<le> MAX_SWAP_PROGRAMS" "slippage \<le> 10000" "decimals target \<le> 12" and
    arr: "fill_swap_programs venue_list = Inr arr" and
    st': "st' = st(key (ic_config accs) \<mapsto> ConfigAcc
      \<lparr>admin = key (ic_admin accs), target_mint = key (ic_target_mint accs),
       usdc_mint = key (ic_usdc_mint accs), swap_programs = arr,
       swap_program_count = word_of_nat (length venue_list), price_ref_micros = price,
       target_decimals = decimals target, max_slippage_bps = slippage, paused = False, config_bump = bump\<rparr>)"
    by (auto simp: init_config_def and_then_Inr require_Inr)
  show ?thesis unfolding st'
    using check bounds set_venues [OF arr bounds(1)] assms(2)
    by (intro wf_store_update assms(3)) (auto simp: wf_config_def venues_def check_init_config_Inr at_canonical_pda_def)
qed

lemma set_whitelist_wf:
  assumes "set_whitelist rt accs venue_list st = Inr st'" "ROUTER_ID \<notin> set venue_list" "wf_store rt st"
  shows "wf_store rt st'"
proof -
  from assms(1) obtain cfg arr where
    cfg: "st (key (ao_config accs)) = Some (ConfigAcc cfg)" and
    arr: "length venue_list \<le> MAX_SWAP_PROGRAMS" "fill_swap_programs venue_list = Inr arr" and
    st': "st' = st(key (ao_config accs) \<mapsto> ConfigAcc
      (cfg\<lparr>swap_programs := arr, swap_program_count := word_of_nat (length venue_list)\<rparr>))"
    by (auto simp: set_whitelist_def result_simps)
  show ?thesis unfolding st'
    using wf_store_account [OF assms(3) cfg] set_venues [OF arr(2,1)] arr(1) assms(2)
    by (intro wf_store_update assms(3)) (auto simp: wf_config_def venues_def)
qed

lemma set_pause_wf: "set_pause rt accs flag st = Inr st' \<Longrightarrow> wf_store rt st \<Longrightarrow> wf_store rt st'"
  by (auto simp: set_pause_def result_simps wf_config_def venues_def intro!: wf_store_update
      dest: wf_store_account)

lemma set_params_wf: "set_params rt accs price slippage st = Inr st' \<Longrightarrow> wf_store rt st \<Longrightarrow> wf_store rt st'"
  by (auto simp: set_params_def result_simps wf_config_def venues_def intro!: wf_store_update
      dest: wf_store_account)

lemma init_fee_config_wf: "init_fee_config rt accs bps dest st = Inr st' \<Longrightarrow> wf_store rt st \<Longrightarrow> wf_store rt st'"
  by (auto simp: init_fee_config_def result_simps wf_fee_config_def at_canonical_pda_def
      intro!: wf_store_update)

lemma set_fee_wf: "set_fee rt accs bps dest st = Inr st' \<Longrightarrow> wf_store rt st \<Longrightarrow> wf_store rt st'"
  by (auto simp: set_fee_def result_simps wf_fee_config_def intro!: wf_store_update
      dest: wf_store_account)

lemma open_sell_plan_wf: "open_sell_plan rt accs e p now st = Inr st' \<Longrightarrow> wf_store rt st \<Longrightarrow> wf_store rt st'"
  by (auto simp: result_simps wf_sell_plan_def router_constants at_canonical_pda_def can_init_def
      intro!: wf_store_update)

lemma close_sell_plan_wf: "close_sell_plan rt accs st = Inr st' \<Longrightarrow> wf_store rt st \<Longrightarrow> wf_store rt st'"
  by (auto simp: result_simps intro!: wf_store_update)

lemma execute_buy_frame:
  assumes "execute_buy rt accs remaining min_out swap_data st = Inr (st', ev)" "wf_store rt st" "owner_writes_only rt"
  shows "router_frame st st'"
proof -
  from assms(1) obtain ctx amount_in fee net_in out where
    check: "check_execute_buy rt accs st = Inr ctx" and
    guards: "buy_guards rt accs ctx min_out = Inr (amount_in, fee, net_in)" and
    settled: "settle rt (eb_transient_usdc accs) (eb_dest_ata accs) (eb_buy_authority accs)
       (eb_swap_program accs) (eb_fee_ata accs) remaining (key (eb_user accs)) (bc_bump ctx)
       fee (amount (bc_dest ctx)) min_out swap_data st = Inr (st', out)"
    by (rule execute_buyE)
  have "st (key (eb_config accs)) = Some (ConfigAcc (bc_config ctx))"
    using check by (simp add: check_execute_buy_Inr)
  from wf_store_account [OF assms(2) this] have "ROUTER_ID \<notin> venues (bc_config ctx)" by simp
  moreover have "key (eb_swap_program accs) \<in> venues (bc_config ctx)"
    using guards by (auto simp: buy_guards_Inr is_whitelisted_venues)
  ultimately have "key (eb_swap_program accs) \<noteq> ROUTER_ID" by metis
  with settle_frame [OF settled assms(3)] show ?thesis .
qed

text \<open>A sell is a frame and the advance of the one plan.\<close>

lemma execute_sell_frame:
  assumes "execute_sell rt accs remaining min_out swap_data now st = Inr (st', ev)" "wf_store rt st" "owner_writes_only rt"
  shows "\<exists>st2 plan plan'. router_frame st st2 \<and> st (key (es_sell_plan accs)) = Some (SellPlanAcc plan)
    \<and> wf_sell_plan plan \<and> advance_plan plan now = Inr plan' \<and> sint (next_due_ts plan) \<le> sint now
    \<and> st' = st2(key (es_sell_plan accs) \<mapsto> SellPlanAcc plan')"
proof -
  from assms(1) obtain ctx amount_in fee net_in st2 out plan' where
    check: "check_execute_sell rt accs st = Inr ctx" and
    guards: "sell_guards rt accs ctx now min_out = Inr (amount_in, fee, net_in)" and
    settled: "settle rt (es_transient_target accs) (es_dest_usdc accs) (es_buy_authority accs)
       (es_swap_program accs) (es_fee_ata accs) remaining (key (es_user accs)) (sc_bump ctx)
       fee (amount (sc_dest ctx)) min_out swap_data st = Inr (st2, out)" and
    advance: "advance_plan (sc_plan ctx) now = Inr plan'" and
    st': "st' = st2(key (es_sell_plan accs) \<mapsto> SellPlanAcc plan')"
    by (rule execute_sellE)
  have accs: "st (key (es_config accs)) = Some (ConfigAcc (sc_config ctx))"
    "st (key (es_sell_plan accs)) = Some (SellPlanAcc (sc_plan ctx))"
    using check by (simp_all add: check_execute_sell_Inr)
  from wf_store_account [OF assms(2) accs(1)] have "ROUTER_ID \<notin> venues (sc_config ctx)" by simp
  moreover have "key (es_swap_program accs) \<in> venues (sc_config ctx)"
    using guards by (auto simp: sell_guards_Inr is_whitelisted_venues)
  ultimately have "key (es_swap_program accs) \<noteq> ROUTER_ID" by metis
  with settle_frame [OF settled assms(3)] have "router_frame st st2" .
  moreover have "wf_sell_plan (sc_plan ctx)" using wf_store_account [OF assms(2) accs(2)] by simp
  moreover have "sint (next_due_ts (sc_plan ctx)) \<le> sint now" using guards by (simp add: sell_guards_Inr)
  ultimately show ?thesis using accs(2) advance st' by blast
qed

lemma execute_sell_wf:
  assumes "execute_sell rt accs remaining min_out swap_data now st = Inr (st', ev)" "wf_store rt st" "owner_writes_only rt"
  shows "wf_store rt st'"
proof -
  from execute_sell_frame [OF assms] obtain st2 plan plan' where
    frame: "router_frame st st2" and plan: "st (key (es_sell_plan accs)) = Some (SellPlanAcc plan)" "wf_sell_plan plan"
    and advance: "advance_plan plan now = Inr plan'" "sint (next_due_ts plan) \<le> sint now"
    and st': "st' = st2(key (es_sell_plan accs) \<mapsto> SellPlanAcc plan')"
    by blast
  have moved: "plan' = plan\<lparr>next_due_ts := next_due_ts plan'\<rparr>"
    using advance_plan_Inr [OF advance(1) plan(2) advance(2)] by blast
  have "wf_account rt (key (es_sell_plan accs)) (Some (SellPlanAcc (plan\<lparr>next_due_ts := next_due_ts plan'\<rparr>)))"
    using wf_store_account [OF assms(2) plan(1)] by (simp add: wf_sell_plan_def)
  then show ?thesis unfolding st' moved [symmetric]
    by (rule wf_store_update [OF wf_store_frame [OF assms(2) frame]])
qed

lemma process_wf:
  assumes "process rt ix now st = Inr st'" "ROUTER_ID \<notin> new_venues ix" "wf_store rt st" "owner_writes_only rt"
  shows "wf_store rt st'"
  using assms wf_store_frame [OF assms(3) execute_buy_frame] execute_sell_wf
  by (cases ix) (auto simp: and_then_Inr intro: init_config_wf set_whitelist_wf set_pause_wf set_params_wf
      init_fee_config_wf set_fee_wf open_sell_plan_wf close_sell_plan_wf)

interpretation router_inv: invariant_system "step rt" "\<lambda>st. wf_store rt st \<and> owner_writes_only rt" for rt
  by unfold_locales (auto elim!: step.cases intro: process_wf wf_store_frame)

lemma reachable_wf_store:
  assumes "reachable rt st" "owner_writes_only rt"
  shows "wf_store rt st"
proof -
  from assms(1) obtain st0 ls where "undeployed st0" and run: "steps (step rt) st0 ls st"
    by (auto simp: reachable_def)
  then have "wf_store rt st0" by (auto simp: undeployed_def wf_store_def intro: wf_account_free)
  with router_inv.steps_inv [OF run] assms(2) show ?thesis by blast
qed

section \<open>Who writes what\<close>

text \<open>The handle whose signature an instruction demands as admin or as owner; executions are
  permissionless.\<close>

fun authority_of :: "instruction \<Rightarrow> account_info option" where
  "authority_of (InitConfig accs _ _ _) = Some (ic_admin accs)"
| "authority_of (SetPause accs _) = Some (ao_admin accs)"
| "authority_of (SetParams accs _ _) = Some (ao_admin accs)"
| "authority_of (InitFeeConfig accs _ _) = Some (if_admin accs)"
| "authority_of (SetFee accs _ _) = Some (sf_admin accs)"
| "authority_of (SetWhitelist accs _) = Some (ao_admin accs)"
| "authority_of (OpenSellPlan accs _ _) = Some (op_user accs)"
| "authority_of (CloseSellPlan accs) = Some (cl_user accs)"
| "authority_of _ = None"

definition signed_by :: "instruction \<Rightarrow> pubkey \<Rightarrow> bool" where
  "signed_by ix k \<longleftrightarrow> (\<exists>ai. authority_of ix = Some ai \<and> is_signer ai \<and> key ai = k)"

text \<open>What an instruction may do to the account at one address.\<close>

definition config_update :: "config \<Rightarrow> config \<Rightarrow> bool" where
  "config_update cfg cfg' \<longleftrightarrow> admin cfg' = admin cfg \<and> target_mint cfg' = target_mint cfg
     \<and> usdc_mint cfg' = usdc_mint cfg \<and> target_decimals cfg' = target_decimals cfg
     \<and> config_bump cfg' = config_bump cfg"

lemma frame_router_owned: "router_frame st st' \<Longrightarrow> router_owned (st k) \<Longrightarrow> st' k = st k"
  unfolding router_frame_def by blast

text \<open>The permissionless executions: of the router's accounts, only the plan of a sell changes.\<close>

lemma process_execute:
  assumes "process rt ix now st = Inr st'" "wf_store rt st" "owner_writes_only rt"
    and "authority_of ix = None" "router_owned (st k)"
  shows "st' k = st k \<or> (\<exists>accs remaining min_out swap_data plan plan'.
    ix = ExecuteSell accs remaining min_out swap_data \<and> key (es_sell_plan accs) = k
    \<and> st k = Some (SellPlanAcc plan) \<and> advance_plan plan now = Inr plan' \<and> st' k = Some (SellPlanAcc plan'))"
  using assms(4)
proof (cases ix)
  case (ExecuteBuy accs remaining min_out swap_data)
  then obtain ev where "execute_buy rt accs remaining min_out swap_data st = Inr (st', ev)"
    using assms(1) by (auto simp: and_then_Inr)
  from frame_router_owned [OF execute_buy_frame [OF this assms(2,3)] assms(5)] show ?thesis by simp
next
  case (ExecuteSell accs remaining min_out swap_data)
  then obtain ev where run: "execute_sell rt accs remaining min_out swap_data now st = Inr (st', ev)"
    using assms(1) by (auto simp: and_then_Inr)
  from execute_sell_frame [OF run assms(2,3)] obtain st2 p plan' where
    "router_frame st st2" "st (key (es_sell_plan accs)) = Some (SellPlanAcc p)" "advance_plan p now = Inr plan'"
    "st' = st2(key (es_sell_plan accs) \<mapsto> SellPlanAcc plan')" by blast
  with ExecuteSell frame_router_owned [of st st2 k] assms(5) show ?thesis by auto
qed simp_all

text \<open>The gated instructions: unfolded, with the accounts they write.\<close>

lemmas gated_ops = init_config_def set_pause_def set_params_def set_whitelist_def init_fee_config_def
  set_fee_def can_init_def result_simps

lemma process_config:
  assumes "process rt ix now st = Inr st'" "wf_store rt st" "owner_writes_only rt"
    and "st k = Some (ConfigAcc cfg)" "st' k \<noteq> st k"
  shows "signed_by ix (admin cfg) \<and> (\<exists>cfg'. st' k = Some (ConfigAcc cfg') \<and> config_update cfg cfg')"
proof (cases "authority_of ix")
  case None
  with process_execute [OF assms(1-3), of k] assms(4,5) show ?thesis by auto
next
  case (Some ai)
  with assms(1,4,5) show ?thesis
    by (cases ix) (auto simp: signed_by_def config_update_def gated_ops split: if_splits)
qed

lemma process_fee_config:
  assumes "process rt ix now st = Inr st'" "wf_store rt st" "owner_writes_only rt"
    and "st k = Some (FeeConfigAcc fc)" "st' k \<noteq> st k"
  shows "\<exists>fc' c cfg. st' k = Some (FeeConfigAcc fc') \<and> fee_bump fc' = fee_bump fc
    \<and> st c = Some (ConfigAcc cfg) \<and> signed_by ix (admin cfg)"
proof (cases "authority_of ix")
  case None
  with process_execute [OF assms(1-3), of k] assms(4,5) show ?thesis by auto
next
  case (Some ai)
  with assms(1,4,5) obtain sf bps dest where ix: "ix = SetFee sf bps dest" "key (sf_fee_config sf) = k"
    by (cases ix) (auto simp: gated_ops split: if_splits)
  then obtain c cfg where "st c = Some (ConfigAcc cfg)" "is_signer (sf_admin sf)" "admin cfg = key (sf_admin sf)"
      "st' k = Some (FeeConfigAcc (fc\<lparr>fee_bps := bps, destination := dest\<rparr>))"
    using assms(1,4) by (auto simp: gated_ops)
  with ix show ?thesis by (fastforce simp: signed_by_def)
qed

text \<open>A plan changes by its owner's close or by a crank of this plan, and by nothing else.\<close>

lemma process_plan:
  assumes "process rt ix now st = Inr st'" "wf_store rt st" "owner_writes_only rt"
    and "st k = Some (SellPlanAcc plan)" "st' k \<noteq> st k"
  shows "(st' k = None \<and> signed_by ix (plan_user plan) \<and> (\<exists>accs. ix = CloseSellPlan accs \<and> key (cl_sell_plan accs) = k))
    \<or> (\<exists>accs remaining min_out swap_data plan'. ix = ExecuteSell accs remaining min_out swap_data
        \<and> key (es_sell_plan accs) = k \<and> st' k = Some (SellPlanAcc plan') \<and> advance_plan plan now = Inr plan')"
proof (cases "authority_of ix")
  case None
  with process_execute [OF assms(1-3), of k] assms(4,5) show ?thesis by auto
next
  case (Some ai)
  with assms(1,4,5) show ?thesis
    by (cases ix) (auto simp: signed_by_def gated_ops split: if_splits)
qed

section \<open>Histories\<close>

text \<open>The config over a run: only its adjustable fields move, and only if the admin signed some
  instruction of the run.\<close>

definition config_history :: "store \<Rightarrow> label list \<Rightarrow> store \<Rightarrow> bool" where
  "config_history st ls st' \<longleftrightarrow>
     (\<forall>k cfg. st k = Some (ConfigAcc cfg) \<longrightarrow>
        (\<exists>cfg'. st' k = Some (ConfigAcc cfg') \<and> config_update cfg cfg'
           \<and> (cfg' = cfg \<or> (\<exists>ix now. Router ix now \<in> set ls \<and> signed_by ix (admin cfg)))))"

lemma step_config:
  assumes "step rt st l st'" "wf_store rt st" "owner_writes_only rt" "st k = Some (ConfigAcc cfg)"
  shows "\<exists>cfg'. st' k = Some (ConfigAcc cfg') \<and> config_update cfg cfg'
    \<and> (cfg' = cfg \<or> (\<exists>ix now. l = Router ix now \<and> signed_by ix (admin cfg)))"
  using assms(1)
proof cases
  case (router ix now)
  with process_config [OF router(2) assms(2-4)] assms(4) show ?thesis
    by (cases "st' k = st k") (auto simp: config_update_def)
next
  case foreign
  then show ?thesis using assms(4) frame_router_owned [of st st' k] by (simp add: config_update_def)
qed

interpretation config_run: history_system "step rt" "\<lambda>st. wf_store rt st \<and> owner_writes_only rt" config_history for rt
proof unfold_locales
  fix s ls s' l s''
  assume inv: "wf_store rt s' \<and> owner_writes_only rt" and hist: "config_history s ls s'" and step: "step rt s' l s''"
  show "config_history s (ls @ [l]) s''"
    unfolding config_history_def
  proof (intro allI impI)
    fix k cfg
    assume "s k = Some (ConfigAcc cfg)"
    with hist obtain cfg1 where cfg1: "s' k = Some (ConfigAcc cfg1)" "config_update cfg cfg1"
        "cfg1 = cfg \<or> (\<exists>ix now. Router ix now \<in> set ls \<and> signed_by ix (admin cfg))"
      unfolding config_history_def by blast
    from step_config [OF step _ _ cfg1(1)] inv obtain cfg2 where "s'' k = Some (ConfigAcc cfg2)"
        "config_update cfg1 cfg2" "cfg2 = cfg1 \<or> (\<exists>ix now. l = Router ix now \<and> signed_by ix (admin cfg1))"
      by auto
    with cfg1 show "\<exists>cfg'. s'' k = Some (ConfigAcc cfg') \<and> config_update cfg cfg'
        \<and> (cfg' = cfg \<or> (\<exists>ix now. Router ix now \<in> set (ls @ [l]) \<and> signed_by ix (admin cfg)))"
      by (auto simp: config_update_def)
  qed
qed (auto simp: config_history_def config_update_def)

text \<open>The plan at one address over a run: the times of the cranks that name it, and whether it was
  closed.\<close>

fun crank_time :: "pubkey \<Rightarrow> label \<Rightarrow> int list" where
  "crank_time k (Router (ExecuteSell accs _ _ _) now) = (if key (es_sell_plan accs) = k then [sint now] else [])"
| "crank_time k _ = []"

definition crank_times :: "pubkey \<Rightarrow> label list \<Rightarrow> int list" where
  "crank_times k ls = concat (map (crank_time k) ls)"

fun closes :: "pubkey \<Rightarrow> instruction \<Rightarrow> bool" where
  "closes k (CloseSellPlan accs) \<longleftrightarrow> key (cl_sell_plan accs) = k"
| "closes k _ \<longleftrightarrow> False"

definition plan_history :: "runtime \<Rightarrow> store \<Rightarrow> label list \<Rightarrow> store \<Rightarrow> bool" where
  "plan_history rt st ls st' \<longleftrightarrow>
     (\<forall>k plan. st k = Some (SellPlanAcc plan) \<longrightarrow>
        (\<exists>ix now. Router ix now \<in> set ls \<and> closes k ix \<and> signed_by ix (plan_user plan))
        \<or> ((\<exists>due. st' k = Some (SellPlanAcc (plan\<lparr>next_due_ts := due\<rparr>)) \<and> sint (next_due_ts plan) \<le> sint due)
           \<and> gated_run (sell_crank rt k) (plan_untouched k) st (crank_times k ls) st'))"

text \<open>One step and one plan: closed by its owner, cranked, or untouched.\<close>

lemma step_plan:
  assumes "step rt st l st'" "wf_store rt st" "owner_writes_only rt" "st k = Some (SellPlanAcc plan)"
  obtains (closed) ix now where "l = Router ix now" "closes k ix" "signed_by ix (plan_user plan)"
  | (cranked) t plan' where "crank_time k l = [t]" "sell_crank rt k st t st'"
      "st' k = Some (SellPlanAcc plan')" "plan' = plan\<lparr>next_due_ts := next_due_ts plan'\<rparr>"
      "sint (next_due_ts plan) \<le> sint (next_due_ts plan')"
  | (untouched) "crank_time k l = []" "plan_untouched k st st'"
  using assms(1)
proof cases
  case foreign
  then have "st' k = st k" using assms(4) frame_router_owned [of st st' k] by simp
  with foreign untouched show thesis by (simp add: plan_untouched_def)
next
  case (router ix now)
  note run = router(2)
  show thesis
  proof (cases "\<exists>accs remaining min_out swap_data. ix = ExecuteSell accs remaining min_out swap_data \<and> key (es_sell_plan accs) = k")
    case True
    then obtain accs remaining min_out swap_data where
      ix: "ix = ExecuteSell accs remaining min_out swap_data" "key (es_sell_plan accs) = k"
      by blast
    with run obtain ev where sell: "execute_sell rt accs remaining min_out swap_data now st = Inr (st', ev)"
      by (auto simp: and_then_Inr)
    with ix have "sell_crank rt k st (sint now) st'" unfolding sell_crank_def by blast
    moreover from execute_sell_frame [OF sell assms(2,3)] ix(2) assms(4) obtain plan' where
      "wf_sell_plan plan" "advance_plan plan now = Inr plan'" "sint (next_due_ts plan) \<le> sint now"
      "st' k = Some (SellPlanAcc plan')" by auto
    moreover from this advance_plan_Inr [of plan now plan'] next_slot_bounds(1) [of "sint (period_secs plan)"]
      wf_sell_plan_period [of plan]
    have "plan' = plan\<lparr>next_due_ts := next_due_ts plan'\<rparr>" "sint (next_due_ts plan) \<le> sint (next_due_ts plan')"
      by (fastforce intro: less_imp_le order.strict_trans1)+
    ultimately show thesis using cranked router ix by simp
  next
    case False
    then have time: "crank_time k l = []" using router(1) by (cases ix) auto
    show thesis
    proof (cases "st' k = st k")
      case True
      with time untouched show thesis by (simp add: plan_untouched_def)
    next
      case changed: False
      with process_plan [OF run assms(2-4)] False obtain accs where
        "ix = CloseSellPlan accs" "key (cl_sell_plan accs) = k" "signed_by ix (plan_user plan)"
        by blast
      with router(1) closed show thesis by simp
    qed
  qed
qed

lemma crank_times_snoc: "crank_times k (ls @ [l]) = crank_times k ls @ crank_time k l"
  by (simp add: crank_times_def)

text \<open>The plan's history extends by one step.\<close>

lemma plan_history_snoc:
  assumes "wf_store rt s'" "owner_writes_only rt" "plan_history rt s ls s'" "step rt s' l s''"
  shows "plan_history rt s (ls @ [l]) s''"
  unfolding plan_history_def
proof (intro allI impI)
  fix k and plan :: sell_plan
  let ?closed = "\<lambda>ls. \<exists>ix now. Router ix now \<in> set ls \<and> closes k ix \<and> signed_by ix (plan_user plan)"
  let ?run = "\<lambda>ls s'. gated_run (sell_crank rt k) (plan_untouched k) s (crank_times k ls) s'"
  assume "s k = Some (SellPlanAcc plan)"
  with assms(3) have "?closed ls \<or> (\<exists>due. s' k = Some (SellPlanAcc (plan\<lparr>next_due_ts := due\<rparr>))
      \<and> sint (next_due_ts plan) \<le> sint due) \<and> ?run ls s'"
    unfolding plan_history_def by blast
  then show "?closed (ls @ [l]) \<or> (\<exists>due. s'' k = Some (SellPlanAcc (plan\<lparr>next_due_ts := due\<rparr>))
      \<and> sint (next_due_ts plan) \<le> sint due) \<and> ?run (ls @ [l]) s''"
  proof
    assume "?closed ls"
    then show ?thesis by auto
  next
    assume "(\<exists>due. s' k = Some (SellPlanAcc (plan\<lparr>next_due_ts := due\<rparr>))
      \<and> sint (next_due_ts plan) \<le> sint due) \<and> ?run ls s'"
    then obtain due where due: "s' k = Some (SellPlanAcc (plan\<lparr>next_due_ts := due\<rparr>))"
      "sint (next_due_ts plan) \<le> sint due" and run: "?run ls s'" by blast
    show ?thesis
    proof (cases rule: step_plan [OF assms(4,1,2) due(1), case_names closed cranked untouched])
      case (closed ix now)
      then have "?closed (ls @ [l])" by auto
      then show ?thesis ..
    next
      case (cranked t plan')
      then have "plan' = plan\<lparr>next_due_ts := next_due_ts plan'\<rparr>" by simp
      with cranked have "s'' k = Some (SellPlanAcc (plan\<lparr>next_due_ts := next_due_ts plan'\<rparr>))"
        "sint (next_due_ts plan) \<le> sint (next_due_ts plan')" "?run (ls @ [l]) s''"
        using due(2) run_crank [where crank = "sell_crank rt k", OF run cranked(2)] by (simp_all add: crank_times_snoc)
      then show ?thesis by blast
    next
      case untouched
      then show ?thesis using due run_quiet [where quiet = "plan_untouched k", OF run untouched(2)]
        by (auto simp: crank_times_snoc plan_untouched_def)
    qed
  qed
qed

interpretation plan_run: history_system "step rt" "\<lambda>st. wf_store rt st \<and> owner_writes_only rt" "plan_history rt" for rt
proof unfold_locales
  show "plan_history rt s [] s" for s
    unfolding plan_history_def
  proof (intro allI impI disjI2)
    fix k and plan :: sell_plan
    assume "s k = Some (SellPlanAcc plan)"
    then show "(\<exists>due. s k = Some (SellPlanAcc (plan\<lparr>next_due_ts := due\<rparr>)) \<and> sint (next_due_ts plan) \<le> sint due)
        \<and> gated_run (sell_crank rt k) (plan_untouched k) s (crank_times k []) s"
      by (intro conjI exI [of _ "next_due_ts plan"]) (simp_all add: crank_times_def run_start)
  qed
qed (use plan_history_snoc in blast)

end
