(* ===== verification/Demo_Trace.thy ===== *)
theory Demo_Trace
  imports Router_Program
begin

text \<open>
  The demo store of \<open>Demo_World\<close> is reachable: the admin initialises the config and the fee
  config, and the user opens the plan. Only the witnesses use this.
\<close>

lemma demo_transfer_frame:
  "demo_transfer signers src dst authority n st = Some st' \<Longrightarrow> router_frame st st'"
  by (auto simp: demo_transfer_def credit_def debit_def router_frame_def
      split: option.splits account.splits if_splits)

lemma demo_base_frame:
  "transfer demo_base signers src dst authority n st = Some st' \<Longrightarrow> router_frame st st'"
  by (simp add: demo_base_def demo_transfer_frame)

lemma demo_mock_frame: "mock_swap demo_base accs a b st = Inr st' \<Longrightarrow> router_frame st st'"
  by (auto simp: mock_swap_def result_simps dest!: demo_base_frame intro: router_frame_trans)

lemma demo_invoke_frame: "demo_invoke ix infos pdas st = Some st' \<Longrightarrow> router_frame st st'"
  by (auto simp: demo_invoke_def mock_dispatch_def dest: demo_mock_frame
      split: if_splits option.splits sum.splits)

lemma demo_owner_writes_only: "owner_writes_only demo_rt"
  by (auto simp: owner_writes_only_def demo_rt_def demo_base_frame demo_invoke_frame)

definition bare_store :: store where
  "bare_store = demo_store(10 := None, 11 := None, 2100 := None)"

abbreviation demo_init_config :: instruction where
  "demo_init_config \<equiv> InitConfig \<lparr>ic_admin = signing 1, ic_config = writable 10, ic_target_mint = readonly 21,
     ic_usdc_mint = readonly 20, ic_system_program = readonly 4\<rparr> [MOCK_SWAP_ID] 1000000 100"

abbreviation demo_init_fee :: instruction where
  "demo_init_fee \<equiv> InitFeeConfig \<lparr>if_admin = signing 1, if_config = readonly 10, if_fee_config = writable 11,
     if_system_program = readonly 4\<rparr> 50 30"

abbreviation demo_open :: instruction where
  "demo_open \<equiv> OpenSellPlan \<lparr>op_user = signing 100, op_sell_plan = writable 2100,
     op_system_program = readonly 4\<rparr> 1655 60"

lemma demo_pdas [simp]:
  "find_pda demo_rt ROUTER_ID config_seeds = (10, 255)"
  "find_pda demo_rt ROUTER_ID fee_config_seeds = (11, 254)"
  "find_pda demo_rt ROUTER_ID (sell_plan_seeds u) = (2000 + u, 250)"
  "system_program_id demo_rt = 4"
  by (simp_all add: demo_rt_def demo_base_def config_seeds_def fee_config_seeds_def sell_plan_seeds_def router_seeds)

lemma demo_fill: "fill_swap_programs [MOCK_SWAP_ID] = Inr [MOCK_SWAP_ID, 0, 0]"
  using fill_swap_programs_fits [of "[MOCK_SWAP_ID]"] by (simp add: MAX_SWAP_PROGRAMS_def numeral_2_eq_2)

lemma demo_setup_1:
  "process demo_rt demo_init_config 990 bare_store = Inr (bare_store(10 \<mapsto> ConfigAcc demo_config))"
  by (simp add: init_config_def check_init_config_def at_canonical_pda_def can_init_def bare_store_def
      demo_store_def demo_fill demo_config_def MAX_SWAP_PROGRAMS_def)

lemma demo_setup_2:
  "process demo_rt demo_init_fee 991 (bare_store(10 \<mapsto> ConfigAcc demo_config))
     = Inr (bare_store(10 \<mapsto> ConfigAcc demo_config, 11 \<mapsto> FeeConfigAcc demo_fee_config))"
proof -
  have "create_pda demo_rt ROUTER_ID config_seeds 255 = Some 10"
    by (simp add: demo_rt_def demo_base_def demo_create_def config_seeds_def)
  then show ?thesis
    by (simp add: init_fee_config_def check_init_fee_config_def at_canonical_pda_def at_pda_with_bump_def
        can_init_def bare_store_def demo_config_def demo_fee_config_def MAX_FEE_BPS_def)
qed

lemma demo_setup_3:
  "process demo_rt demo_open 1000 (bare_store(10 \<mapsto> ConfigAcc demo_config, 11 \<mapsto> FeeConfigAcc demo_fee_config))
     = Inr demo_store"
proof -
  have "bare_store(10 \<mapsto> ConfigAcc demo_config, 11 \<mapsto> FeeConfigAcc demo_fee_config, 2100 \<mapsto> SellPlanAcc demo_plan)
      = demo_store"
    by (simp add: fun_eq_iff bare_store_def demo_store_def)
  then show ?thesis
    by (simp add: open_sell_plan_def check_open_sell_plan_def at_canonical_pda_def can_init_def bare_store_def
        demo_plan_def router_constants clamp_i64_def i64_min_def i64_max_def)
qed

lemma demo_undeployed: "undeployed bare_store"
  by (simp add: undeployed_def bare_store_def demo_store_def demo_token_def)

lemma demo_setup_steps:
  "steps (step demo_rt) bare_store
     [Router demo_init_config 990, Router demo_init_fee 991, Router demo_open 1000] demo_store"
proof -
  have venue: "ROUTER_ID \<noteq> MOCK_SWAP_ID" by (simp add: ROUTER_ID_def MOCK_SWAP_ID_def)
  have one: "step demo_rt bare_store (Router demo_init_config 990) (bare_store(10 \<mapsto> ConfigAcc demo_config))"
    by (simp add: router_step demo_setup_1 venue del: process.simps)
  have two: "step demo_rt (bare_store(10 \<mapsto> ConfigAcc demo_config)) (Router demo_init_fee 991)
      (bare_store(10 \<mapsto> ConfigAcc demo_config, 11 \<mapsto> FeeConfigAcc demo_fee_config))"
    by (simp add: router_step demo_setup_2 del: process.simps)
  have three: "step demo_rt (bare_store(10 \<mapsto> ConfigAcc demo_config, 11 \<mapsto> FeeConfigAcc demo_fee_config))
      (Router demo_open 1000) demo_store"
    by (simp add: router_step demo_setup_3 del: process.simps)
  from steps_snoc [where sys = "step demo_rt", OF steps_snoc [where sys = "step demo_rt", OF steps_one [where sys = "step demo_rt", OF one] two] three]
  show ?thesis by simp
qed

lemma demo_reachable: "reachable demo_rt demo_store"
  unfolding reachable_def using demo_undeployed demo_setup_steps by blast

lemma reachable_step: "reachable rt st \<Longrightarrow> step rt st l st' \<Longrightarrow> reachable rt st'"
  unfolding reachable_def by (meson steps_snoc)

text \<open>A crank of the demo plan, on time, as a step of the program.\<close>

abbreviation demo_crank :: instruction where
  "demo_crank \<equiv> ExecuteSell demo_sell demo_sell_route 9850500 [199, 199]"

lemma demo_crank_step: "\<exists>st'. step demo_rt demo_store (Router demo_crank 1000) st'"
proof -
  obtain st' ev where "execute_sell demo_rt demo_sell demo_sell_route 9850500 [199, 199] 1000 demo_store = Inr (st', ev)"
    using demo_sell_run by blast
  then have "process demo_rt demo_crank 1000 demo_store = Inr st'" by simp
  then have "step demo_rt demo_store (Router demo_crank 1000) st'" by (simp add: router_step del: process.simps)
  then show ?thesis by blast
qed

text \<open>A crank in the last period of the plan ends it.\<close>

lemma demo_last_crank:
  "\<exists>st' plan. reachable demo_rt st' \<and> st' 2100 = Some (SellPlanAcc plan)
     \<and> sint (next_due_ts plan) = 1660 \<and> sint (end_ts plan) = 1655"
proof -
  have "and_then (execute_sell demo_rt demo_sell demo_sell_route 9850500 [199, 199] 1650 demo_store) (\<lambda>_. Inr ()) = Inr ()"
    by code_simp
  then obtain st' ev where run:
    "execute_sell demo_rt demo_sell demo_sell_route 9850500 [199, 199] 1650 demo_store = Inr (st', ev)"
    by (auto simp: result_simps)
  then have "process demo_rt demo_crank 1650 demo_store = Inr st'" by simp
  then have "step demo_rt demo_store (Router demo_crank 1650) st'" by (simp add: router_step del: process.simps)
  then have "reachable demo_rt st'" by (rule reachable_step [OF demo_reachable])
  moreover have "sell_crank demo_rt 2100 demo_store 1650 st'"
    unfolding sell_crank_def by (intro exI conjI) (rule run, simp_all add: demo_sell_def)
  moreover have "plan_gate (demo_store 2100) = Some (1000, 60, 1655)"
    using demo_plan_wf by (simp add: demo_store_def) (simp add: demo_plan_def)
  ultimately show ?thesis
    using sell_crank_gate [of demo_store 2100 1000 60 1655 demo_rt 1650 st']
    by (auto simp: plan_gate_Some next_slot_def)
qed

text \<open>The admin pauses the demo router.\<close>

abbreviation demo_pause :: instruction where
  "demo_pause \<equiv> SetPause \<lparr>ao_admin = signing 1, ao_config = writable 10\<rparr> True"

abbreviation demo_paused_store :: store where
  "demo_paused_store \<equiv> demo_store(10 \<mapsto> ConfigAcc (demo_config\<lparr>paused := True\<rparr>))"

lemma demo_pause_step: "step demo_rt demo_store (Router demo_pause 1000) demo_paused_store"
proof -
  have "create_pda demo_rt ROUTER_ID config_seeds 255 = Some 10"
    by (simp add: demo_rt_def demo_base_def demo_create_def config_seeds_def)
  then have "process demo_rt demo_pause 1000 demo_store = Inr demo_paused_store"
    by (simp add: set_pause_def check_admin_only_def at_pda_with_bump_def demo_store_def demo_config_def)
  then show ?thesis by (simp add: router_step del: process.simps)
qed

lemma demo_paused: "\<exists>st'. reachable demo_rt st' \<and> st' 10 = Some (ConfigAcc (demo_config\<lparr>paused := True\<rparr>))"
  using reachable_step [OF demo_reachable demo_pause_step]
  by (intro exI [of _ demo_paused_store]) simp

end
