(* ===== verification/Mock_Settlement.thy ===== *)
theory Mock_Settlement
  imports Mock_Swap Settlement
begin

text \<open>
  The settlement against the mock venue, end to end. The lemma \<open>settle_mock\<close> gives its result for
  every amount the route takes and pays, with the exact store when it completes; the properties
  of the buy and of the sell side follow from it.
\<close>

section \<open>The route and the store afterwards\<close>

text \<open>The accounts a keeper lists for the mock venue, in the order of its \<open>Swap\<close> struct. The keeper
  marks no signer; the router adds the transient PDA.\<close>

definition mock_route :: "runtime \<Rightarrow> pubkey \<Rightarrow> pubkey \<Rightarrow> pubkey \<Rightarrow> pubkey \<Rightarrow> pubkey \<Rightarrow> account_info list" where
  "mock_route rt src auth pool_in pool_out dst =
     [\<lparr>key = src, is_signer = False, is_writable = True\<rparr>,
      \<lparr>key = auth, is_signer = False, is_writable = False\<rparr>,
      \<lparr>key = pool_in, is_signer = False, is_writable = True\<rparr>,
      \<lparr>key = pool_out, is_signer = False, is_writable = True\<rparr>,
      \<lparr>key = dst, is_signer = False, is_writable = True\<rparr>,
      \<lparr>key = fst (find_pda rt MOCK_SWAP_ID [Bytes POOL_SEED]), is_signer = False, is_writable = False\<rparr>,
      \<lparr>key = token_program_id rt, is_signer = False, is_writable = False\<rparr>]"

record mock_trade =
  mt_src :: pubkey
  mt_fee :: pubkey
  mt_pool_in :: pubkey
  mt_pool_out :: pubkey
  mt_dst :: pubkey
  src_acc :: token_account
  fee_acc :: token_account
  pool_in_acc :: token_account
  pool_out_acc :: token_account
  dst_acc :: token_account

text \<open>The five token accounts of a trade and what an SPL transfer demands of them.\<close>

definition trade_ready :: "runtime \<Rightarrow> store \<Rightarrow> mock_trade \<Rightarrow> pubkey \<Rightarrow> u64 \<Rightarrow> u64 \<Rightarrow> u64 \<Rightarrow> bool" where
  "trade_ready rt st mt auth fee taken out \<longleftrightarrow>
     st (mt_src mt) = Some (TokenAcc (src_acc mt)) \<and> st (mt_fee mt) = Some (TokenAcc (fee_acc mt))
     \<and> st (mt_pool_in mt) = Some (TokenAcc (pool_in_acc mt)) \<and> st (mt_pool_out mt) = Some (TokenAcc (pool_out_acc mt))
     \<and> st (mt_dst mt) = Some (TokenAcc (dst_acc mt))
     \<and> distinct [mt_src mt, mt_fee mt, mt_pool_in mt, mt_pool_out mt, mt_dst mt]
     \<and> token_owner (src_acc mt) = auth
     \<and> token_owner (pool_out_acc mt) = fst (find_pda rt MOCK_SWAP_ID [Bytes POOL_SEED])
     \<and> token_mint (src_acc mt) = token_mint (fee_acc mt) \<and> token_mint (src_acc mt) = token_mint (pool_in_acc mt)
     \<and> token_mint (pool_out_acc mt) = token_mint (dst_acc mt)
     \<and> \<not> frozen (src_acc mt) \<and> \<not> frozen (fee_acc mt) \<and> \<not> frozen (pool_in_acc mt)
     \<and> \<not> frozen (pool_out_acc mt) \<and> \<not> frozen (dst_acc mt)
     \<and> uint (amount (fee_acc mt)) + uint fee < 2 ^ 64
     \<and> uint (amount (pool_in_acc mt)) + uint taken < 2 ^ 64
     \<and> out \<le> amount (pool_out_acc mt) \<and> uint (amount (dst_acc mt)) + uint out < 2 ^ 64"

definition mock_settled :: "store \<Rightarrow> mock_trade \<Rightarrow> u64 \<Rightarrow> u64 \<Rightarrow> u64 \<Rightarrow> store" where
  "mock_settled st mt fee taken out = st(
     mt_src mt \<mapsto> TokenAcc ((src_acc mt)\<lparr>amount := amount (src_acc mt) - fee - taken\<rparr>),
     mt_fee mt \<mapsto> TokenAcc ((fee_acc mt)\<lparr>amount := amount (fee_acc mt) + fee\<rparr>),
     mt_pool_in mt \<mapsto> TokenAcc ((pool_in_acc mt)\<lparr>amount := amount (pool_in_acc mt) + taken\<rparr>),
     mt_pool_out mt \<mapsto> TokenAcc ((pool_out_acc mt)\<lparr>amount := amount (pool_out_acc mt) - out\<rparr>),
     mt_dst mt \<mapsto> TokenAcc ((dst_acc mt)\<lparr>amount := amount (dst_acc mt) + out\<rparr>))"

text \<open>The store between the fee skim and the venue call.\<close>

definition fee_skimmed :: "store \<Rightarrow> mock_trade \<Rightarrow> u64 \<Rightarrow> store" where
  "fee_skimmed st mt fee = credit (mt_fee mt) fee (fee_acc mt) (debit (mt_src mt) fee (src_acc mt) st)"

section \<open>Step by step\<close>

text \<open>Forwarding a route demands nothing the runtime would refuse.\<close>

lemma venue_call_permitted:
  assumes "key sp = p"
  shows "call_permitted \<lparr>program_id = p, ix_accounts = venue_metas k infos, ix_data = bytes\<rparr> (infos @ [sp]) [k]"
  using assms by (auto simp: call_permitted_def venue_metas_def signing_keys_def)

lemma spl_transferD:
  assumes "spl_transfer rt" "src \<noteq> dst" "st src = Some (TokenAcc s)" "st dst = Some (TokenAcc d)"
  shows "can_transfer signers authority n s d \<Longrightarrow>
      transfer rt signers src dst authority n st = Some (credit dst n d (debit src n s st))"
    and "amount s < n \<Longrightarrow> transfer rt signers src dst authority n st = None"
  using assms unfolding spl_transfer_def by blast+

lemma skim_fee_ready:
  assumes "spl_transfer rt" "trade_ready rt st mt (key ba) fee taken out"
    and "key src = mt_src mt" "key dst = mt_fee mt" "fee \<le> amount (src_acc mt)"
  shows "skim_fee rt src dst ba (key ba) fee st = Inr (fee_skimmed st mt fee)"
proof (cases "0 < fee")
  case True
  have "transfer rt (call_signers [src, dst, ba] (key ba)) (mt_src mt) (mt_fee mt) (key ba) fee st
      = Some (fee_skimmed st mt fee)"
    unfolding fee_skimmed_def
    by (rule spl_transferD(1) [OF assms(1)])
      (use assms(2,5) in \<open>auto simp: trade_ready_def can_transfer_def call_signers_def\<close>)
  with True assms(3,4) show ?thesis by (simp add: skim_fee_def)
next
  case False
  then have "fee = 0" by (simp add: word_neq_0_conv [symmetric])
  with assms(2) show ?thesis
    by (auto simp: skim_fee_def fee_skimmed_def credit_def debit_def trade_ready_def fun_eq_iff)
qed

lemma fee_skimmed_accounts:
  assumes "trade_ready rt st mt auth fee taken out"
  shows "fee_skimmed st mt fee (mt_src mt) = Some (TokenAcc ((src_acc mt)\<lparr>amount := amount (src_acc mt) - fee\<rparr>))"
    "fee_skimmed st mt fee (mt_pool_in mt) = Some (TokenAcc (pool_in_acc mt))"
    "fee_skimmed st mt fee (mt_pool_out mt) = Some (TokenAcc (pool_out_acc mt))"
    "fee_skimmed st mt fee (mt_dst mt) = Some (TokenAcc (dst_acc mt))"
  using assms by (auto simp: fee_skimmed_def trade_ready_def credit_def debit_def)

text \<open>The handles the venue gets for the route.\<close>

definition mock_accounts :: "runtime \<Rightarrow> mock_trade \<Rightarrow> pubkey \<Rightarrow> swap_accounts" where
  "mock_accounts rt mt auth =
     \<lparr>sw_source_usdc = \<lparr>key = mt_src mt, is_signer = mt_src mt = auth, is_writable = True\<rparr>,
      sw_source_authority = \<lparr>key = auth, is_signer = True, is_writable = False\<rparr>,
      sw_pool_usdc = \<lparr>key = mt_pool_in mt, is_signer = mt_pool_in mt = auth, is_writable = True\<rparr>,
      sw_pool_target = \<lparr>key = mt_pool_out mt, is_signer = mt_pool_out mt = auth, is_writable = True\<rparr>,
      sw_dest_target = \<lparr>key = mt_dst mt, is_signer = mt_dst mt = auth, is_writable = True\<rparr>,
      sw_pool_authority = \<lparr>key = fst (find_pda rt MOCK_SWAP_ID [Bytes POOL_SEED]),
        is_signer = fst (find_pda rt MOCK_SWAP_ID [Bytes POOL_SEED]) = auth, is_writable = False\<rparr>,
      sw_token_program = \<lparr>key = token_program_id rt, is_signer = token_program_id rt = auth, is_writable = False\<rparr>\<rparr>"

text \<open>The venue's own two transfers: the pull fails when it asks for more than is left.\<close>

lemma mock_swap_ready:
  assumes "pda_derivation rt" "spl_transfer rt" "trade_ready rt st mt auth fee taken out"
  shows "mock_swap rt (mock_accounts rt mt auth) taken out (fee_skimmed st mt fee)
    = (if taken \<le> amount (src_acc mt) - fee then Inr (mock_settled st mt fee taken out) else Inl CpiFailed)"
proof -
  let ?pool = "fst (find_pda rt MOCK_SWAP_ID [Bytes POOL_SEED])"
  let ?src = "(src_acc mt)\<lparr>amount := amount (src_acc mt) - fee\<rparr>"
  let ?st1 = "fee_skimmed st mt fee"
  let ?st2 = "credit (mt_pool_in mt) taken (pool_in_acc mt) (debit (mt_src mt) taken ?src ?st1)"
  note st1 = fee_skimmed_accounts [OF assms(3)]
  have ne: "mt_src mt \<noteq> mt_pool_in mt" "mt_pool_out mt \<noteq> mt_dst mt" using assms(3) by (simp_all add: trade_ready_def)
  let ?a = "mock_accounts rt mt auth"
  have keys: "key (sw_source_usdc ?a) = mt_src mt" "key (sw_pool_usdc ?a) = mt_pool_in mt"
    "key (sw_source_authority ?a) = auth" "key (sw_pool_target ?a) = mt_pool_out mt"
    "key (sw_dest_target ?a) = mt_dst mt" "key (sw_pool_authority ?a) = ?pool"
    by (simp_all add: mock_accounts_def)
  have signed: "auth \<in> set (signing_keys [sw_source_usdc ?a, sw_pool_usdc ?a, sw_source_authority ?a])"
    by (simp add: mock_accounts_def signing_keys_def)
  have check: "check_swap rt (mock_accounts rt mt auth) ?st1 = Inr ?pool"
    using st1 assms(1) by (simp add: mock_accounts_def check_swap_def pda_derivation_def)
  show ?thesis
  proof (cases "taken \<le> amount (src_acc mt) - fee")
    case True
    have pull: "transfer rt signers (mt_src mt) (mt_pool_in mt) auth taken ?st1 = Some ?st2" if "auth \<in> set signers" for signers
      by (rule spl_transferD(1) [OF assms(2) ne(1) st1(1,2)])
        (use assms(3) that True in \<open>auto simp: trade_ready_def can_transfer_def\<close>)
    have st2: "?st2 (mt_pool_out mt) = Some (TokenAcc (pool_out_acc mt))" "?st2 (mt_dst mt) = Some (TokenAcc (dst_acc mt))"
      using assms(3) st1 by (auto simp: trade_ready_def credit_def debit_def)
    have pay: "transfer rt signers (mt_pool_out mt) (mt_dst mt) ?pool out ?st2
        = Some (credit (mt_dst mt) out (dst_acc mt) (debit (mt_pool_out mt) out (pool_out_acc mt) ?st2))"
      if "?pool \<in> set signers" for signers
      by (rule spl_transferD(1) [OF assms(2) ne(2) st2])
        (use assms(3) that in \<open>auto simp: trade_ready_def can_transfer_def\<close>)
    have "credit (mt_dst mt) out (dst_acc mt) (debit (mt_pool_out mt) out (pool_out_acc mt) ?st2)
        = mock_settled st mt fee taken out"
      using assms(3) by (auto simp: trade_ready_def mock_settled_def fee_skimmed_def credit_def debit_def fun_eq_iff)
    then show ?thesis
      using True by (simp add: mock_swap_def check keys pull [OF signed] pay)
  next
    case False
    then have "transfer rt signers (mt_src mt) (mt_pool_in mt) auth taken ?st1 = None" for signers
      by (intro spl_transferD(2) [OF assms(2) ne(1) st1(1,2)]) simp
    with False show ?thesis by (simp add: mock_swap_def check keys)
  qed
qed

lemma mock_dispatch_ready:
  assumes "pda_derivation rt" "spl_transfer rt" "trade_ready rt st mt auth fee taken out"
    and "decode bytes = Some (taken, out)"
  shows "mock_dispatch rt decode \<lparr>program_id = MOCK_SWAP_ID,
      ix_accounts = venue_metas auth (mock_route rt (mt_src mt) auth (mt_pool_in mt) (mt_pool_out mt) (mt_dst mt)),
      ix_data = bytes\<rparr> (fee_skimmed st mt fee)
    = (if taken \<le> amount (src_acc mt) - fee then Some (mock_settled st mt fee taken out) else None)"
proof -
  have "swap_accounts_of (map callee_info (venue_metas auth
      (mock_route rt (mt_src mt) auth (mt_pool_in mt) (mt_pool_out mt) (mt_dst mt)))) = Some (mock_accounts rt mt auth)"
    by (simp add: mock_route_def venue_metas_def callee_info_def mock_accounts_def)
  with mock_swap_ready [OF assms(1-3)] assms(4) show ?thesis by (simp add: mock_dispatch_def)
qed

text \<open>What is left after the trade, and what the destination gained.\<close>

lemma mock_settled_outcome:
  assumes "trade_ready rt st mt auth fee taken out"
  shows "check_outcome (mt_src mt) (mt_dst mt) (amount (dst_acc mt)) min_out (mock_settled st mt fee taken out)
    = (if amount (src_acc mt) - fee \<noteq> taken then Inl (Buy TransientNotDrained)
       else if out < min_out then Inl (Buy SlippageExceeded) else Inr out)"
proof -
  have "int (unat (amount (dst_acc mt)) + unat out) < 2 ^ 64" and ne: "mt_src mt \<noteq> mt_dst mt"
    "mt_src mt \<noteq> mt_fee mt" "mt_src mt \<noteq> mt_pool_in mt" "mt_src mt \<noteq> mt_pool_out mt"
    using assms by (simp_all add: trade_ready_def)
  then have "unat (amount (dst_acc mt)) + unat out < 2 ^ 64"
    by (simp only: of_nat_less_numeral_power_cancel_iff)
  then have "unat (amount (dst_acc mt) + out) = unat (amount (dst_acc mt)) + unat out"
    by (simp add: unat_word_ariths)
  then have "checked_sub (amount (dst_acc mt) + out) (amount (dst_acc mt)) = Some out"
    by (simp add: checked_sub_Some)
  with ne show ?thesis by (auto simp: check_outcome_def mock_settled_def require_def)
qed

text \<open>The settlement, whatever the route takes and pays.\<close>

lemma settle_mock:
  assumes "pda_derivation rt" "spl_transfer rt" "mock_deployed rt decode"
    and "trade_ready rt st mt (key ba) fee taken out"
    and "unat (amount (src_acc mt)) = unat fee + unat net"
    and "decode bytes = Some (taken, out)"
    and "key transient = mt_src mt" "key dest = mt_dst mt" "key fa = mt_fee mt" "key sp = MOCK_SWAP_ID"
    and "(key ba, bump) = find_pda rt ROUTER_ID (buy_auth_seeds user)"
    and "remaining = mock_route rt (mt_src mt) (key ba) (mt_pool_in mt) (mt_pool_out mt) (mt_dst mt)"
  shows "settle rt transient dest ba sp fa remaining user bump fee (amount (dst_acc mt)) min_out bytes st
    = (if net < taken then Inl CpiFailed
       else if taken < net then Inl (Buy TransientNotDrained)
       else if out < min_out then Inl (Buy SlippageExceeded)
       else Inr (mock_settled st mt fee taken out, out))"
proof -
  let ?st1 = "fee_skimmed st mt fee"
  have "checked_sub (amount (src_acc mt)) fee = Some net" using assms(5) by (simp add: checked_sub_Some)
  then have net: "fee \<le> amount (src_acc mt)" "amount (src_acc mt) - fee = net"
    by (auto simp: checked_sub_def split: if_splits)
  have pda: "create_pda rt ROUTER_ID (buy_auth_seeds user) bump = Some (key ba)"
    using assms(1,11) unfolding pda_derivation_def by (metis fst_conv snd_conv)
  have skim: "skim_fee rt transient fa ba (key ba) fee st = Inr ?st1"
    by (rule skim_fee_ready [OF assms(2,4,7,9) net(1)])
  have "mock_dispatch rt decode \<lparr>program_id = MOCK_SWAP_ID, ix_accounts = venue_metas (key ba) remaining,
      ix_data = bytes\<rparr> ?st1 = (if taken \<le> net then Some (mock_settled st mt fee taken out) else None)"
    unfolding assms(12) net(2) [symmetric]
    by (rule mock_dispatch_ready [where decode = decode, OF assms(1,2,4,6)])
  then have "invoke rt \<lparr>program_id = MOCK_SWAP_ID, ix_accounts = venue_metas (key ba) remaining, ix_data = bytes\<rparr>
      (remaining @ [sp]) [key ba] ?st1 = (if taken \<le> net then Some (mock_settled st mt fee taken out) else None)"
    using assms(3) venue_call_permitted [OF assms(10)] unfolding mock_deployed_def by simp
  then have call: "invoke_venue rt sp ba remaining bytes (key ba) ?st1
      = (if taken \<le> net then Inr (mock_settled st mt fee taken out) else Inl CpiFailed)"
    using assms(10) by (simp add: invoke_venue_def)
  note outcome = mock_settled_outcome [OF assms(4), of min_out, unfolded net(2)]
  show ?thesis
    using outcome
    by (cases rule: linorder_cases [of taken net])
      (auto simp: settle_def seeds_signer_def pda skim call assms(7,8))
qed

end
