(* ===== verification/Mock_Properties.thy ===== *)
theory Mock_Properties
  imports Mock_Settlement Buy_Properties Sell_Properties
begin

text \<open>
  Completion: against the mock venue, what a trade whose guards pass comes to, for every amount
  the route takes and pays, with the exact store when it completes. The hypotheses are the documented behaviour of the SPL Token program, of
  address derivation and of the runtime's dispatch of a call to the deployed venue.
\<close>

section \<open>The demo world satisfies the hypotheses\<close>

lemma demo_spl_transfer: "spl_transfer demo_rt"
  unfolding spl_transfer_def by (auto simp: demo_rt_def demo_base_def demo_transfer_def can_transfer_def)

lemma demo_mock_deployed: "mock_deployed demo_rt demo_decode"
proof -
  have "mock_swap demo_rt accs a b st = mock_swap demo_base accs a b st" for accs a b st
    by (simp add: mock_swap_def check_swap_def demo_rt_def)
  then have "mock_dispatch demo_rt demo_decode ix st = mock_dispatch demo_base demo_decode ix st" for ix st
    by (simp add: mock_dispatch_def split: option.split prod.split)
  moreover have "invoke demo_rt = demo_invoke" by (simp add: demo_rt_def)
  ultimately show ?thesis by (simp add: mock_deployed_def demo_invoke_def)
qed

section \<open>Properties\<close>

text \<open>Claim C8. What a buy against the mock venue comes to: let the account checks and the guards
  pass, the five token accounts of the trade be in order (\<open>trade_ready\<close>: distinct, unfrozen, of
  matching mints and owners, with the pool able to pay and no balance overflowing), and the
  route be the venue's accounts with a request to take \<open>taken\<close> and to pay \<open>out\<close>. If it asks for
  more than the net input the call fails, if for less the result is \<open>TransientNotDrained\<close>, if it
  pays less than \<open>min_out\<close> it is \<open>SlippageExceeded\<close>, and otherwise the instruction succeeds: the
  fee went to the fee account, the rest to the pool, the payout to the user, the transient is
  empty, nothing else changed, and the event says so.\<close>

theorem execute_buy_completes:
  assumes "pda_derivation rt" "spl_transfer rt" "mock_deployed rt decode"
    and "check_execute_buy rt accs st = Inr ctx"
    and "buy_guards rt accs ctx min_out = Inr (amount_in, fee, net)"
    and "key (eb_swap_program accs) = MOCK_SWAP_ID"
    and "trade_ready rt st mt (key (eb_buy_authority accs)) fee taken out"
    and "mt_src mt = key (eb_transient_usdc accs)" "mt_dst mt = key (eb_dest_ata accs)" "mt_fee mt = key (eb_fee_ata accs)"
    and "decode swap_data = Some (taken, out)"
    and "remaining = mock_route rt (mt_src mt) (key (eb_buy_authority accs)) (mt_pool_in mt) (mt_pool_out mt) (mt_dst mt)"
  shows "execute_buy rt accs remaining min_out swap_data st
    = (if net < taken then Inl CpiFailed
       else if taken < net then Inl (Buy TransientNotDrained)
       else if out < min_out then Inl (Buy SlippageExceeded)
       else Inr (mock_settled st mt fee taken out, BuyExecuted (key (eb_user accs)) amount_in out fee MOCK_SWAP_ID))
    \<and> (taken = net \<longrightarrow> mock_settled st mt fee taken out (key (eb_transient_usdc accs))
         = Some (TokenAcc ((bc_transient ctx)\<lparr>amount := 0\<rparr>)))"
proof -
  have accs: "src_acc mt = bc_transient ctx" "dst_acc mt = bc_dest ctx"
    using assms(4,7-9) by (auto simp: check_execute_buy_Inr trade_ready_def)
  have split: "unat (amount (src_acc mt)) = unat fee + unat net"
    using assms(5) accs by (auto simp: buy_guards_Inr execution_fee_Inr)
  have auth: "(key (eb_buy_authority accs), bc_bump ctx) = find_pda rt ROUTER_ID (buy_auth_seeds (key (eb_user accs)))"
    using assms(4) by (simp add: check_execute_buy_Inr at_canonical_pda_def)
  note settled = settle_mock [where decode = decode, OF assms(1-3,7) split assms(11) assms(8-10) [symmetric] assms(6) auth assms(12),
      of min_out, unfolded accs(2)]
  have "checked_sub (amount (src_acc mt)) fee = Some net" using split by (simp add: checked_sub_Some)
  then have "amount (bc_transient ctx) - fee - net = 0"
    by (auto simp: checked_sub_def accs split: if_splits)
  then have "mock_settled st mt fee net out (key (eb_transient_usdc accs))
      = Some (TokenAcc ((bc_transient ctx)\<lparr>amount := 0\<rparr>))"
    using assms(7,8) by (auto simp: mock_settled_def trade_ready_def accs)
  then show ?thesis
    using assms(4-6) by (auto simp: execute_buy_def settled)
qed

text \<open>The trade of the witnesses.\<close>

definition demo_buy_trade :: mock_trade where
  "demo_buy_trade = \<lparr>mt_src = 2001100, mt_fee = 2000030, mt_pool_in = 2000012, mt_pool_out = 2100012, mt_dst = 2100100,
     src_acc = \<lparr>token_mint = 20, token_owner = 1100, amount = 10000000, frozen = False\<rparr>,
     fee_acc = \<lparr>token_mint = 20, token_owner = 30, amount = 0, frozen = False\<rparr>,
     pool_in_acc = \<lparr>token_mint = 20, token_owner = 12, amount = 1000000000, frozen = False\<rparr>,
     pool_out_acc = \<lparr>token_mint = 21, token_owner = 12, amount = 1000000000, frozen = False\<rparr>,
     dst_acc = \<lparr>token_mint = 21, token_owner = 100, amount = 90000000, frozen = False\<rparr>\<rparr>"

theorem execute_buy_completes_witness:
  "execute_buy demo_rt demo_buy demo_buy_route 9850500 [199, 199] demo_store
     = Inr (mock_settled demo_store demo_buy_trade 50000 9950000 9950000,
            BuyExecuted 100 10000000 9950000 50000 MOCK_SWAP_ID)"
proof -
  have "and_then (check_execute_buy demo_rt demo_buy demo_store) (\<lambda>ctx.
      require (buy_guards demo_rt demo_buy ctx 9850500 = Inr (10000000, 50000, 9950000)) Panicked (Inr ())) = Inr ()"
    by code_simp
  then obtain ctx where ctx: "check_execute_buy demo_rt demo_buy demo_store = Inr ctx"
      "buy_guards demo_rt demo_buy ctx 9850500 = Inr (10000000, 50000, 9950000)"
    by (auto simp: result_simps)
  have pool: "find_pda demo_rt MOCK_SWAP_ID [Bytes POOL_SEED] = (12, 253)"
    by (simp add: demo_rt_def demo_base_def POOL_SEED_def router_seeds)
  have ready: "trade_ready demo_rt demo_store demo_buy_trade (key (eb_buy_authority demo_buy)) 50000 9950000 9950000"
    by (simp add: trade_ready_def demo_buy_trade_def demo_store_def demo_token_def pool demo_buy_def)
  have route: "demo_buy_route = mock_route demo_rt (mt_src demo_buy_trade) (key (eb_buy_authority demo_buy))
      (mt_pool_in demo_buy_trade) (mt_pool_out demo_buy_trade) (mt_dst demo_buy_trade)"
    by (simp add: mock_route_def demo_buy_route_def demo_buy_trade_def pool demo_buy_def)
      (simp add: demo_rt_def demo_base_def)
  have accs: "key (eb_swap_program demo_buy) = MOCK_SWAP_ID" "mt_src demo_buy_trade = key (eb_transient_usdc demo_buy)"
    "mt_dst demo_buy_trade = key (eb_dest_ata demo_buy)" "mt_fee demo_buy_trade = key (eb_fee_ata demo_buy)"
    "key (eb_user demo_buy) = 100"
    by (simp_all add: demo_buy_def demo_buy_trade_def)
  have "demo_decode [199, 199] = Some (9950000, 9950000)" by simp
  from execute_buy_completes [where decode = demo_decode, OF demo_pda_derivation demo_spl_transfer demo_mock_deployed
      ctx accs(1) ready accs(2-4) this route]
  show ?thesis by (simp add: accs(5))
qed

text \<open>Claim C18. What a sell against the mock venue comes to: let the account checks and the guards
  pass, the token accounts of the trade be in order (\<open>trade_ready\<close>), the plan be well formed with
  a due time that is not negative, the clock be at least a period away from the end of the
  64-bit range, and the route be the venue's accounts with a request to take \<open>taken\<close> and to pay
  \<open>out\<close>. If it asks for more than the net input the call fails, if for less the result is
  \<open>TransientNotDrained\<close>, if it pays less than \<open>min_out\<close> it is \<open>SlippageExceeded\<close>, and otherwise the
  instruction succeeds: the token accounts move as in a buy, the plan's due time moves on to the
  next point of its grid after the clock, and nothing else changes.\<close>

theorem execute_sell_completes:
  assumes "pda_derivation rt" "spl_transfer rt" "mock_deployed rt decode"
    and "check_execute_sell rt accs st = Inr ctx"
    and "sell_guards rt accs ctx now min_out = Inr (amount_in, fee, net)"
    and "key (es_swap_program accs) = MOCK_SWAP_ID"
    and "trade_ready rt st mt (key (es_buy_authority accs)) fee taken out"
    and "mt_src mt = key (es_transient_target accs)" "mt_dst mt = key (es_dest_usdc accs)" "mt_fee mt = key (es_fee_ata accs)"
    and "decode swap_data = Some (taken, out)"
    and "remaining = mock_route rt (mt_src mt) (key (es_buy_authority accs)) (mt_pool_in mt) (mt_pool_out mt) (mt_dst mt)"
    and "plan = sc_plan ctx" "wf_sell_plan plan" "0 \<le> sint (next_due_ts plan)"
    and "sint now + sint (period_secs plan) < 2 ^ 63"
  shows "\<exists>due. sint due = next_slot (sint (next_due_ts plan)) (sint (period_secs plan)) (sint now)
    \<and> execute_sell rt accs remaining min_out swap_data now st
        = (if net < taken then Inl CpiFailed
           else if taken < net then Inl (Buy TransientNotDrained)
           else if out < min_out then Inl (Buy SlippageExceeded)
           else Inr ((mock_settled st mt fee taken out)(key (es_sell_plan accs) \<mapsto> SellPlanAcc (plan\<lparr>next_due_ts := due\<rparr>)),
                     SellExecuted (key (es_user accs)) amount_in out fee MOCK_SWAP_ID))"
proof -
  have accs: "src_acc mt = sc_transient ctx" "dst_acc mt = sc_dest ctx"
    using assms(4,7-9) by (auto simp: check_execute_sell_Inr trade_ready_def)
  have split: "unat (amount (src_acc mt)) = unat fee + unat net"
    using assms(5) accs by (auto simp: sell_guards_Inr execution_fee_Inr)
  have auth: "(key (es_buy_authority accs), sc_bump ctx) = find_pda rt ROUTER_ID (buy_auth_seeds (key (es_user accs)))"
    using assms(4) by (simp add: check_execute_sell_Inr at_canonical_pda_def)
  note settled = settle_mock [where decode = decode, OF assms(1-3,7) split assms(11) assms(8-10) [symmetric] assms(6) auth assms(12),
      of min_out, unfolded accs(2)]
  have due: "sint (next_due_ts plan) \<le> sint now" using assms(5,13) by (simp add: sell_guards_Inr)
  obtain plan' where advance: "advance_plan plan now = Inr plan'"
    using advance_plan_ok [OF assms(14,15) due] assms(16) by (auto simp: i64_max_def)
  note moved = advance_plan_Inr [OF advance assms(14) due]
  have "execute_sell rt accs remaining min_out swap_data now st
      = (if net < taken then Inl CpiFailed
         else if taken < net then Inl (Buy TransientNotDrained)
         else if out < min_out then Inl (Buy SlippageExceeded)
         else Inr ((mock_settled st mt fee taken out)(key (es_sell_plan accs) \<mapsto> SellPlanAcc plan'),
                   SellExecuted (key (es_user accs)) amount_in out fee MOCK_SWAP_ID))"
    using assms(4-6) advance by (simp add: execute_sell_def settled flip: assms(13))
  with moved show ?thesis by metis
qed

definition demo_sell_trade :: mock_trade where
  "demo_sell_trade = \<lparr>mt_src = 2101100, mt_fee = 2100030, mt_pool_in = 2100012, mt_pool_out = 2000012, mt_dst = 2000100,
     src_acc = \<lparr>token_mint = 21, token_owner = 1100, amount = 10000000, frozen = False\<rparr>,
     fee_acc = \<lparr>token_mint = 21, token_owner = 30, amount = 0, frozen = False\<rparr>,
     pool_in_acc = \<lparr>token_mint = 21, token_owner = 12, amount = 1000000000, frozen = False\<rparr>,
     pool_out_acc = \<lparr>token_mint = 20, token_owner = 12, amount = 1000000000, frozen = False\<rparr>,
     dst_acc = \<lparr>token_mint = 20, token_owner = 100, amount = 0, frozen = False\<rparr>\<rparr>"

theorem execute_sell_completes_witness:
  "\<exists>due. sint due = 1060 \<and> execute_sell demo_rt demo_sell demo_sell_route 9850500 [199, 199] 1000 demo_store
     = Inr ((mock_settled demo_store demo_sell_trade 50000 9950000 9950000)
              (2100 \<mapsto> SellPlanAcc (demo_plan\<lparr>next_due_ts := due\<rparr>)),
            SellExecuted 100 10000000 9950000 50000 MOCK_SWAP_ID)"
proof -
  have "and_then (check_execute_sell demo_rt demo_sell demo_store) (\<lambda>ctx.
      require (sell_guards demo_rt demo_sell ctx 1000 9850500 = Inr (10000000, 50000, 9950000) \<and> demo_plan = sc_plan ctx)
        Panicked (Inr ())) = Inr ()"
    by code_simp
  then obtain ctx where ctx: "check_execute_sell demo_rt demo_sell demo_store = Inr ctx"
      "sell_guards demo_rt demo_sell ctx 1000 9850500 = Inr (10000000, 50000, 9950000)" "demo_plan = sc_plan ctx"
    by (auto simp: result_simps)
  have pool: "find_pda demo_rt MOCK_SWAP_ID [Bytes POOL_SEED] = (12, 253)"
    by (simp add: demo_rt_def demo_base_def POOL_SEED_def router_seeds)
  have ready: "trade_ready demo_rt demo_store demo_sell_trade (key (es_buy_authority demo_sell)) 50000 9950000 9950000"
    by (simp add: trade_ready_def demo_sell_trade_def demo_store_def demo_token_def pool demo_sell_def)
  have route: "demo_sell_route = mock_route demo_rt (mt_src demo_sell_trade) (key (es_buy_authority demo_sell))
      (mt_pool_in demo_sell_trade) (mt_pool_out demo_sell_trade) (mt_dst demo_sell_trade)"
    by (simp add: mock_route_def demo_sell_route_def demo_sell_trade_def pool demo_sell_def)
      (simp add: demo_rt_def demo_base_def)
  have accs: "key (es_swap_program demo_sell) = MOCK_SWAP_ID" "mt_src demo_sell_trade = key (es_transient_target demo_sell)"
    "mt_dst demo_sell_trade = key (es_dest_usdc demo_sell)" "mt_fee demo_sell_trade = key (es_fee_ata demo_sell)"
    "key (es_user demo_sell) = 100" "key (es_sell_plan demo_sell) = 2100"
    by (simp_all add: demo_sell_def demo_sell_trade_def)
  have clock: "0 \<le> sint (next_due_ts demo_plan)" "sint (1000 :: i64) + sint (period_secs demo_plan) < 2 ^ 63"
    "next_slot (sint (next_due_ts demo_plan)) (sint (period_secs demo_plan)) (sint (1000 :: i64)) = 1060"
    by (simp_all add: demo_plan_def next_slot_def)
  have "demo_decode [199, 199] = Some (9950000, 9950000)" by simp
  from execute_sell_completes [where decode = demo_decode, OF demo_pda_derivation demo_spl_transfer demo_mock_deployed
      ctx(1,2) accs(1) ready accs(2-4) this route ctx(3) demo_plan_wf clock(1,2)]
  show ?thesis by (simp add: accs(5,6) clock(3) [simplified])
qed

end
