(* ===== verification/Spec2Isabelle.thy ===== *)
theory Spec2Isabelle
  imports Demo_Trace Mock_Properties
begin

text \<open>
  A verification development of the recurring-buy router (\<^verbatim>\<open>programs/recurring-buy\<close>) and of the test
  venue it is exercised with (\<^verbatim>\<open>programs/mock-swap\<close>), two Solana programs written with Anchor.

  \<^bold>\<open>The program.\<close> The router is a non-custodial automation: a user's own subscription pulls USDC
  (or, for a sell plan, target tokens) into a transient account of a per-user program address,
  and in the same transaction anybody calls \<open>execute_buy\<close> (or \<open>execute_sell\<close>), which skims a capped
  fee, forwards a swap built by the keeper to a whitelisted venue under the program address's
  signature, and checks afterwards that nothing was left behind and that the user's own account
  received at least \<open>min_out\<close>, itself bounded below by a floor from a reference price. An admin
  sets the price, the slippage, the whitelist, the fee and the pause; a user opens and closes a
  sell plan, whose clock gate and amortisation cap limit \<open>execute_sell\<close>. The router keeps three
  kinds of accounts: one \<open>Config\<close>, one \<open>FeeConfig\<close>, and a \<open>SellPlan\<close> per user.

  \<^bold>\<open>The theories\<close>, in the order of their imports:

  \<^item> \<open>Prelude\<close>: integer widths, the checked and saturating operations of Rust, \<open>require!\<close>,
    \<open>ok_or\<close> and \<open>?\<close> as continuations on a sum, with their inversion rules (\<open>result_simps\<close>,
    \<open>checked_simps\<close>).
  \<^item> \<open>Router_Errors\<close> (\<^verbatim>\<open>errors.rs\<close>), \<open>Router_State\<close> (\<^verbatim>\<open>state.rs\<close>): the enum of errors with its codes,
    the three account types with their methods, the compiled-in bounds, well-formedness.
  \<^item> \<open>Price_Floors\<close> (\<open>price_floor\<close>, \<open>sell_floor\<close> of \<^verbatim>\<open>lib.rs\<close>): the 128-bit floors against the exact quote;
    the locale \<open>floor_quote\<close> is interpreted by both.
  \<^item> \<open>Solana_Runtime\<close>: the account store, account handles, cross-program calls, Anchor's checks.
  \<^item> \<open>Admin_Ops\<close>, \<open>Sell_Plans\<close>, \<open>Settlement\<close>, \<open>Buy_Router\<close>, \<open>Sell_Router\<close>: the ten instructions of \<^verbatim>\<open>lib.rs\<close>,
    each with the check of its \<open>#[derive(Accounts)]\<close> struct (\<open>check_*\<close>), its guards in the order
    of the code, and its write-back. \<open>Settlement\<close> holds the blocks that \<open>execute_buy\<close> and
    \<open>execute_sell\<close> spell out identically: fee, skim, venue call, outcome checks.
  \<^item> \<open>Mock_Swap\<close> (\<^verbatim>\<open>programs/mock-swap/src/lib.rs\<close>): the venue, and its dispatch by a runtime.
  \<^item> \<open>Schedule\<close>: the advance of a plan's due time on the integers, and the locale \<open>crank_gate\<close> with
    what it implies for sequences of cranks.
  \<^item> \<open>Transition_Runs\<close>: runs of a labelled transition system, invariants and histories as locales.
  \<^item> \<open>Admin_Properties\<close>, \<open>Plan_Properties\<close>, \<open>Buy_Properties\<close>, \<open>Sell_Properties\<close>: inversion lemmas of each
    instruction, and the properties of one completed or refused instruction. The locale
    \<open>admin_gated\<close> is interpreted by the five instructions behind the admin's signature, the locale
    \<open>crank_gate\<close> by the sell plan in the store.
  \<^item> \<open>Mock_Settlement\<close>, \<open>Mock_Properties\<close>: against the mock venue, what an execution whose guards
    pass comes to, for every amount that the route takes and pays.
  \<^item> \<open>Router_Program\<close>: the dispatch of the ten instructions, the steps of the system (a completed
    instruction, or anything another program does), the invariant \<open>wf_store\<close>, who writes what,
    and the histories of the config and of a plan.
  \<^item> \<open>Demo_World\<close>, \<open>Demo_Trace\<close>: a concrete runtime and store, used by witnesses only.
  \<^item> This theory: the properties of the whole program, over all reachable stores and all runs.

  \<^bold>\<open>How the model relates to the code.\<close> A store maps an address to the deserialised account behind
  it; an instruction is a function from a store to a store or an error, so a failed instruction
  leaves no trace, as a failed transaction does. \<open>Clock::get()\<close> is the argument \<open>now\<close>. Machine
  integers keep their width. Anything outside the repository is a field of the record \<open>runtime\<close>:
  address derivation, the SPL Token transfer, and \<open>invoke_signed\<close>. The properties that need
  something of them name it as a hypothesis, and every such property has a witness in which the
  hypothesis is proved for a concrete runtime: \<open>pda_derivation\<close> (the canonical bump reproduces the
  canonical address), \<open>owner_writes_only\<close> (a transfer and a call of another program leave the
  router's own accounts alone), \<open>spl_transfer\<close> (a transfer between two accounts does what it
  says, and fails on insufficient funds), \<open>mock_deployed\<close> (a call of the mock venue's address that
  the runtime permits, with every account passed along and no signer or writable flag escalated,
  runs the mock venue).

  \<^bold>\<open>What the lemmas show.\<close> For one execution, whatever the venue does: delivery to the user's own
  canonical account, no residue, bounded fee, a price bounded as far as the 64-bit cast of the
  floors allows, the authority given away, the result for
  every outcome of the call; for a sell also the cap and the clock gate. For the instructions of
  the admin and of plan owners: who may run them, what they accept, what they write. For all
  runs: the invariant of the stores, the fixed identity of the config, the ownership of a plan,
  at most one crank per period, the pause, and the owner's way out.

  \<^bold>\<open>Bounds.\<close> There is no fuel: the only loop of the code copies a list of venues and recurses over it.
  Runs and cranks are inductive and of any length. \<open>execute_sell_completes\<close> asks for a clock that
  is a period away from the end of the 64-bit range and a due time that is not negative, which
  excludes the overflow of the advance.

  \<^bold>\<open>Not modelled.\<close> Lamports and rent, the byte layout of accounts and of instruction data, which of
  Anchor's own error codes a rejected account reports, compute limits, and the logging of events
  beyond the event value that an execution returns. A venue that is the router itself is excluded
  from the runs (the admin must not list it). The off-chain keeper (\<^verbatim>\<open>keeper/keeper.ts\<close>, \<^verbatim>\<open>keeper/native\<close>),
  the deployment scripts and the TypeScript tests are not modelled; the amounts of the demo
  store are those of the tests.
\<close>

section \<open>Reachable stores\<close>

text \<open>Claim C6. The invariant: in every store the program can reach, by its own instructions and
  whatever other programs do in between, the config, the fee config and every sell plan are
  well formed and sit at the canonical address of their seeds with its bump. So there is one
  config and one fee config, at most one plan per user, the slippage is at most 100%, the fee
  at most 1%, and every period is between a minute and 366 days.\<close>

theorem reachable_wf:
  assumes "reachable rt st" "owner_writes_only rt"
  shows "wf_store rt st
    \<and> (\<forall>k cfg. st k = Some (ConfigAcc cfg) \<longrightarrow> k = fst (find_pda rt ROUTER_ID config_seeds)
          \<and> unat (swap_program_count cfg) \<le> 3 \<and> unat (max_slippage_bps cfg) \<le> 10000)
    \<and> (\<forall>k fc. st k = Some (FeeConfigAcc fc) \<longrightarrow> k = fst (find_pda rt ROUTER_ID fee_config_seeds)
          \<and> unat (fee_bps fc) \<le> 100)
    \<and> (\<forall>k plan. st k = Some (SellPlanAcc plan) \<longrightarrow>
          k = fst (find_pda rt ROUTER_ID (sell_plan_seeds (plan_user plan)))
          \<and> 60 \<le> sint (period_secs plan) \<and> sint (period_secs plan) \<le> 366 * 86400)"
proof -
  have wf: "wf_store rt st" by (rule reachable_wf_store [OF assms])
  show ?thesis
  proof (intro conjI allI impI)
    show "wf_store rt st" by (rule wf)
  qed (use wf_store_account [OF wf] in \<open>fastforce simp: wf_config_def wf_fee_config_def wf_sell_plan_def
      router_constants word_le_nat_alt\<close>)+
qed

theorem reachable_wf_witness:
  "reachable demo_rt demo_store \<and> wf_store demo_rt demo_store
    \<and> demo_store 2100 = Some (SellPlanAcc demo_plan) \<and> 60 \<le> sint (period_secs demo_plan)"
proof -
  have "demo_store 2100 = Some (SellPlanAcc demo_plan)" by (simp add: demo_store_def)
  with reachable_wf [OF demo_reachable demo_owner_writes_only] demo_reachable show ?thesis by blast
qed

text \<open>Claim C1. Bounded price: in every reachable store, whoever calls and whatever the venue does,
  a completed buy has skimmed at most 1% of the input, rounded down, and delivered at least the
  discounted quote of the remaining input at the reference price, reduced modulo \<open>2 ^ 64\<close> by the
  final cast of \<open>price_floor\<close>. Where the discounted quote fits in 64 bits, that is the quote less
  the tolerated slippage, up to one base unit; where it does not, the cast is all that is left
  of the bound (\<open>price_floor_wraps\<close> has a case).\<close>

theorem buy_price_bounded:
  assumes "reachable rt st" "owner_writes_only rt"
    and run: "execute_buy rt accs remaining min_out swap_data st = Inr (st', ev)"
    and cfg: "st (key (eb_config accs)) = Some (ConfigAcc cfg)"
    and fc: "st (key (eb_fee_config accs)) = Some (FeeConfigAcc fc)"
    and net: "net = unat (ev_amount_in ev) - unat (ev_fee ev)"
    and quote: "quote = buy_ideal net (unat (price_ref_micros cfg)) (unat (target_decimals cfg))"
  shows "0 < price_ref_micros cfg
    \<and> unat (ev_fee ev) = unat (ev_amount_in ev) * unat (fee_bps fc) div 10000
    \<and> 100 * unat (ev_fee ev) \<le> unat (ev_amount_in ev)
    \<and> discount quote (unat (max_slippage_bps cfg)) mod 2 ^ 64 \<le> unat (ev_amount_out ev)
    \<and> (discount quote (unat (max_slippage_bps cfg)) < 2 ^ 64 \<longrightarrow>
          quote * (10000 - unat (max_slippage_bps cfg)) < (unat (ev_amount_out ev) + 1) * 10000)"
proof -
  note wf = wf_store_account [OF reachable_wf_store [OF assms(1,2)]]
  from wf [OF cfg] wf [OF fc] have "wf_config cfg" "wf_fee_config fc" by simp_all
  from buy_price_bound [OF run cfg this(1) fc this(2) net quote] show ?thesis .
qed

theorem buy_price_bounded_witness:
  "\<exists>st' ev. execute_buy demo_rt demo_buy demo_buy_route 9850500 [199, 199] demo_store = Inr (st', ev)
    \<and> 100 * unat (ev_fee ev) \<le> unat (ev_amount_in ev)
    \<and> buy_ideal 9950000 1000000 6 * 9900 < (unat (ev_amount_out ev) + 1) * 10000"
proof -
  obtain st' ev where run:
    "execute_buy demo_rt demo_buy demo_buy_route 9850500 [199, 199] demo_store = Inr (st', ev)"
    "ev_amount_in ev = 10000000" "ev_fee ev = 50000"
    using demo_buy_run by blast
  from buy_price_bounded [OF demo_reachable demo_owner_writes_only run(1), of demo_config demo_fee_config
      9950000 "buy_ideal 9950000 1000000 6"] run
  show ?thesis
    by (simp add: demo_buy_def demo_store_def demo_config_def demo_fee_config_def buy_ideal_def discount_def)
qed

text \<open>Claim C11. Bounded price, the other way: in every reachable store a completed sell has skimmed
  at most 1% of the tokens, rounded down, and delivered at least the discounted quote in USDC of
  the remaining tokens at the reference price, reduced modulo \<open>2 ^ 64\<close> by the final cast of
  \<open>sell_floor\<close>. Where the discounted quote fits in 64 bits, that is the quote less the tolerated
  slippage, up to one base unit.\<close>

theorem sell_price_bounded:
  assumes "reachable rt st" "owner_writes_only rt"
    and run: "execute_sell rt accs remaining min_out swap_data now st = Inr (st', ev)"
    and cfg: "st (key (es_config accs)) = Some (ConfigAcc cfg)"
    and fc: "st (key (es_fee_config accs)) = Some (FeeConfigAcc fc)"
    and net: "net = unat (ev_amount_in ev) - unat (ev_fee ev)"
    and quote: "quote = sell_ideal net (unat (price_ref_micros cfg)) (unat (target_decimals cfg))"
  shows "0 < price_ref_micros cfg
    \<and> unat (ev_fee ev) = unat (ev_amount_in ev) * unat (fee_bps fc) div 10000
    \<and> 100 * unat (ev_fee ev) \<le> unat (ev_amount_in ev)
    \<and> discount quote (unat (max_slippage_bps cfg)) mod 2 ^ 64 \<le> unat (ev_amount_out ev)
    \<and> (discount quote (unat (max_slippage_bps cfg)) < 2 ^ 64 \<longrightarrow>
          quote * (10000 - unat (max_slippage_bps cfg)) < (unat (ev_amount_out ev) + 1) * 10000)"
proof -
  note wf = wf_store_account [OF reachable_wf_store [OF assms(1,2)]]
  from wf [OF cfg] wf [OF fc] have "wf_config cfg" "wf_fee_config fc" by simp_all
  from sell_price_bound [OF run cfg this(1) fc this(2) net quote] show ?thesis .
qed

theorem sell_price_bounded_witness:
  "\<exists>st' ev. execute_sell demo_rt demo_sell demo_sell_route 9850500 [199, 199] 1000 demo_store = Inr (st', ev)
    \<and> 100 * unat (ev_fee ev) \<le> unat (ev_amount_in ev)
    \<and> sell_ideal 9950000 1000000 6 * 9900 < (unat (ev_amount_out ev) + 1) * 10000"
proof -
  obtain st' ev where run:
    "execute_sell demo_rt demo_sell demo_sell_route 9850500 [199, 199] 1000 demo_store = Inr (st', ev)"
    "ev_amount_in ev = 10000000" "ev_fee ev = 50000"
    using demo_sell_run by blast
  from sell_price_bounded [OF demo_reachable demo_owner_writes_only run(1), of demo_config demo_fee_config
      9950000 "sell_ideal 9950000 1000000 6"] run
  show ?thesis
    by (simp add: demo_sell_def demo_store_def demo_config_def demo_fee_config_def sell_ideal_def discount_def)
qed

section \<open>Governance\<close>

text \<open>Claim C7. The config's identity is fixed: from any reachable store on, whatever the router and
  other programs do, the config stays where it is with the same admin, the same two mints and
  the same decimals; and as long as the admin has signed no instruction, nothing in it changes
  at all, so nobody else can pause, reprice or change the whitelist.\<close>

theorem config_governed_by_admin:
  assumes "reachable rt st" "owner_writes_only rt" "steps (step rt) st ls st'" "st k = Some (ConfigAcc cfg)"
  shows "\<exists>cfg'. st' k = Some (ConfigAcc cfg') \<and> admin cfg' = admin cfg
    \<and> target_mint cfg' = target_mint cfg \<and> usdc_mint cfg' = usdc_mint cfg
    \<and> target_decimals cfg' = target_decimals cfg
    \<and> (cfg' = cfg \<or> (\<exists>ix now. Router ix now \<in> set ls \<and> signed_by ix (admin cfg)))"
proof -
  have "config_history st ls st'"
    using config_run.steps_hist [OF assms(3)] reachable_wf_store [OF assms(1,2)] assms(2) by blast
  with assms(4) show ?thesis unfolding config_history_def config_update_def by blast
qed

theorem config_governed_by_admin_witness:
  "steps (step demo_rt) demo_store [Router demo_pause 1000] demo_paused_store
    \<and> (\<exists>cfg'. demo_paused_store 10 = Some (ConfigAcc cfg') \<and> cfg' \<noteq> demo_config
         \<and> admin cfg' = 1 \<and> target_mint cfg' = 21 \<and> signed_by demo_pause 1)"
proof -
  have one: "steps (step demo_rt) demo_store [Router demo_pause 1000] demo_paused_store"
    by (rule steps_one [where sys = "step demo_rt", OF demo_pause_step])
  have "demo_store 10 = Some (ConfigAcc demo_config)" by (simp add: demo_store_def)
  from config_governed_by_admin [OF demo_reachable demo_owner_writes_only one this] one
  show ?thesis by (auto simp: demo_config_def)
qed

text \<open>Claim C29. Only trades move tokens: every completed instruction other than \<open>execute_buy\<close> and
  \<open>execute_sell\<close> carries the signature of its admin or owner and leaves every token account
  and every mint exactly as it was, and creates none.\<close>

theorem only_executions_move_tokens:
  assumes "process rt ix now st = Inr st'" "authority_of ix = Some ai"
  shows "is_signer ai \<and> (\<forall>k t. st' k = Some (TokenAcc t) \<longleftrightarrow> st k = Some (TokenAcc t))
    \<and> (\<forall>k m. st' k = Some (MintAcc m) \<longleftrightarrow> st k = Some (MintAcc m))"
  using assms by (cases ix) (auto simp: gated_ops split: if_splits)

theorem only_executions_move_tokens_witness:
  "is_signer (signing 100) \<and> (\<forall>t. (bare_store(10 \<mapsto> ConfigAcc demo_config, 11 \<mapsto> FeeConfigAcc demo_fee_config)) 2100100
      = Some (TokenAcc t) \<longleftrightarrow> demo_store 2100100 = Some (TokenAcc t))"
  using only_executions_move_tokens [OF demo_setup_3, of "signing 100"] by simp

text \<open>Claim C17. The pause halts trading: in a reachable store whose config is paused, no
  \<open>execute_buy\<close> and no \<open>execute_sell\<close> completes, for any accounts, route, floor and clock.\<close>

theorem pause_halts_trading:
  assumes "reachable rt st" "owner_writes_only rt" "st k = Some (ConfigAcc cfg)" "paused cfg"
  shows "(\<nexists>accs remaining min_out swap_data st' ev. execute_buy rt accs remaining min_out swap_data st = Inr (st', ev))
    \<and> (\<nexists>accs remaining min_out swap_data now st' ev. execute_sell rt accs remaining min_out swap_data now st = Inr (st', ev))"
proof -
  note wf = wf_store_account [OF reachable_wf_store [OF assms(1,2)]]
  have only: "cfg' = cfg" if "st k' = Some (ConfigAcc cfg')" for k' cfg'
  proof -
    have "k' = k" using wf [OF assms(3)] wf [OF that] by simp
    with assms(3) that show ?thesis by simp
  qed
  show ?thesis
  proof (intro conjI notI)
    assume "\<exists>accs remaining min_out swap_data st' ev. execute_buy rt accs remaining min_out swap_data st = Inr (st', ev)"
    then obtain accs ctx min_out r where "check_execute_buy rt accs st = Inr ctx" "buy_guards rt accs ctx min_out = Inr r"
      by (auto simp: execute_buy_Inr)
    moreover from this have "st (key (eb_config accs)) = Some (ConfigAcc (bc_config ctx))"
      by (simp add: check_execute_buy_Inr)
    from only [OF this] have "bc_config ctx = cfg" .
    ultimately show False using assms(4) by (cases r) (simp add: buy_guards_Inr)
  next
    assume "\<exists>accs remaining min_out swap_data now st' ev. execute_sell rt accs remaining min_out swap_data now st = Inr (st', ev)"
    then obtain accs ctx now min_out r where "check_execute_sell rt accs st = Inr ctx" "sell_guards rt accs ctx now min_out = Inr r"
      by (auto simp: execute_sell_Inr)
    moreover from this have "st (key (es_config accs)) = Some (ConfigAcc (sc_config ctx))"
      by (simp add: check_execute_sell_Inr)
    from only [OF this] have "sc_config ctx = cfg" .
    ultimately show False using assms(4) by (cases r) (simp add: sell_guards_Inr)
  qed
qed

theorem pause_halts_trading_witness:
  "\<exists>st. reachable demo_rt st \<and> (\<nexists>min_out swap_data st' ev.
     execute_buy demo_rt demo_buy demo_buy_route min_out swap_data st = Inr (st', ev))"
proof -
  obtain st where st: "reachable demo_rt st" "st 10 = Some (ConfigAcc (demo_config\<lparr>paused := True\<rparr>))"
    using demo_paused by blast
  from pause_halts_trading [OF st(1) demo_owner_writes_only st(2)] st(1) show ?thesis by auto
qed

section \<open>The life of a sell plan\<close>

text \<open>Claim C14. A plan is its owner's: from any reachable store on, whatever the router and other
  programs do, a plan keeps its user, period, end and bump, and its due time only moves forward,
  unless the user named in it signed a close of it.\<close>

theorem plan_is_its_owners:
  assumes "reachable rt st" "owner_writes_only rt" "steps (step rt) st ls st'" "st k = Some (SellPlanAcc plan)"
  shows "(\<exists>ix now. Router ix now \<in> set ls \<and> closes k ix \<and> signed_by ix (plan_user plan))
    \<or> (\<exists>due. st' k = Some (SellPlanAcc (plan\<lparr>next_due_ts := due\<rparr>)) \<and> sint (next_due_ts plan) \<le> sint due)"
proof -
  have "plan_history rt st ls st'"
    using plan_run.steps_hist [OF assms(3)] reachable_wf_store [OF assms(1,2)] assms(2) by blast
  with assms(4) show ?thesis unfolding plan_history_def by blast
qed

theorem plan_is_its_owners_witness:
  "\<exists>st' due. step demo_rt demo_store (Router demo_crank 1000) st'
     \<and> st' 2100 = Some (SellPlanAcc (demo_plan\<lparr>next_due_ts := due\<rparr>)) \<and> 1000 \<le> sint due"
proof -
  obtain st' where st': "step demo_rt demo_store (Router demo_crank 1000) st'" using demo_crank_step by blast
  have "demo_store 2100 = Some (SellPlanAcc demo_plan)" by (simp add: demo_store_def)
  from plan_is_its_owners [OF demo_reachable demo_owner_writes_only
      steps_one [where sys = "step demo_rt", OF st'] this] st'
  show ?thesis by (auto simp: demo_plan_def)
qed

text \<open>Claim C3. The keeper cannot accelerate the schedule: over any run in which the owner does not
  close the plan, in whatever order cranks, other instructions and other programs come, no two
  completed sells of the plan fall into the same period of its grid, none is early, their times
  increase, there are at most as many as grid points from the due time to the end of the plan,
  and each has moved the due time on by at least a period.\<close>

theorem plan_cranked_once_per_period:
  assumes "reachable rt st" "owner_writes_only rt" "steps (step rt) st ls st'" "st k = Some (SellPlanAcc plan)"
    and "\<And>ix now. Router ix now \<in> set ls \<Longrightarrow> \<not> closes k ix"
    and "due = sint (next_due_ts plan)" "p = sint (period_secs plan)" "due \<le> sint (end_ts plan)"
  shows "sorted_wrt (<) (map (slot_of due p) (crank_times k ls)) \<and> (\<forall>t \<in> set (crank_times k ls). due \<le> t)
    \<and> int (length (crank_times k ls)) \<le> (sint (end_ts plan) - due) div p + 1
    \<and> (\<exists>plan'. st' k = Some (SellPlanAcc plan') \<and> due + int (length (crank_times k ls)) * p \<le> sint (next_due_ts plan'))"
proof -
  have wf: "wf_store rt st" by (rule reachable_wf_store [OF assms(1,2)])
  then have "wf_sell_plan plan" using wf_store_account [OF wf assms(4)] by simp
  then have gate: "plan_gate (st k) = Some (due, p, sint (end_ts plan))" using assms(4,6,7) by simp
  have "plan_history rt st ls st'"
    using plan_run.steps_hist [OF assms(3)] wf assms(2) by blast
  with assms(4,5) have run: "gated_run (sell_crank rt k) (plan_untouched k) st (crank_times k ls) st'"
    unfolding plan_history_def by blast
  from plan_crank.run_invariant [OF run gate] plan_crank.run_bound [OF run gate assms(8)]
  show ?thesis by (auto simp: plan_gate_Some)
qed

theorem plan_cranked_once_per_period_witness:
  "\<exists>st' plan'. steps (step demo_rt) demo_store [Router demo_crank 1000] st'
     \<and> crank_times 2100 [Router demo_crank 1000] = [1000]
     \<and> st' 2100 = Some (SellPlanAcc plan') \<and> 1060 \<le> sint (next_due_ts plan')"
proof -
  obtain st' where "step demo_rt demo_store (Router demo_crank 1000) st'" using demo_crank_step by blast
  then have run: "steps (step demo_rt) demo_store [Router demo_crank 1000] st'" by (rule steps_one [where sys = "step demo_rt"])
  have times: "crank_times 2100 [Router demo_crank 1000] = [1000]"
    by (simp add: crank_times_def demo_sell_def)
  have "demo_store 2100 = Some (SellPlanAcc demo_plan)" by (simp add: demo_store_def)
  from plan_cranked_once_per_period [OF demo_reachable demo_owner_writes_only run this _ refl refl] run times
  show ?thesis by (auto simp: demo_plan_def)
qed

text \<open>Claim C15. A plan that is past its end is dead: once its due time lies beyond its end, no run
  whatsoever contains another completed sell of it, unless the owner closes it first.\<close>

theorem completed_plan_stays_dead:
  assumes "reachable rt st" "owner_writes_only rt" "steps (step rt) st ls st'" "st k = Some (SellPlanAcc plan)"
    and "\<And>ix now. Router ix now \<in> set ls \<Longrightarrow> \<not> closes k ix"
    and "sint (end_ts plan) < sint (next_due_ts plan)"
  shows "crank_times k ls = []"
proof -
  have wf: "wf_store rt st" by (rule reachable_wf_store [OF assms(1,2)])
  then have "wf_sell_plan plan" using wf_store_account [OF wf assms(4)] by simp
  then have gate: "plan_gate (st k) = Some (sint (next_due_ts plan), sint (period_secs plan), sint (end_ts plan))"
    using assms(4) by simp
  have "plan_history rt st ls st'"
    using plan_run.steps_hist [OF assms(3)] wf assms(2) by blast
  with assms(4,5) have run: "gated_run (sell_crank rt k) (plan_untouched k) st (crank_times k ls) st'"
    unfolding plan_history_def by blast
  show ?thesis by (rule plan_crank.run_over [OF run gate assms(6)])
qed

theorem completed_plan_stays_dead_witness:
  "\<exists>st. reachable demo_rt st \<and> (\<forall>st'. \<not> step demo_rt st (Router demo_crank 2000) st')"
proof -
  obtain st plan where st: "reachable demo_rt st" "st 2100 = Some (SellPlanAcc plan)"
      "sint (next_due_ts plan) = 1660" "sint (end_ts plan) = 1655"
    using demo_last_crank by blast
  have "\<not> step demo_rt st (Router demo_crank 2000) st'" for st'
  proof
    assume "step demo_rt st (Router demo_crank 2000) st'"
    then have "steps (step demo_rt) st [Router demo_crank 2000] st'" by (rule steps_one [where sys = "step demo_rt"])
    from completed_plan_stays_dead [OF st(1) demo_owner_writes_only this st(2)] st(3,4) show False
      by (simp add: crank_times_def demo_sell_def)
  qed
  with st(1) show ?thesis by blast
qed

text \<open>Claim C16. The owner can always leave: in every reachable store, paused or not, due or not, the
  user named in a plan can close it; the close completes and changes only the plan's account.\<close>

theorem owner_can_always_close:
  assumes "reachable rt st" "owner_writes_only rt" "pda_derivation rt" "st k = Some (SellPlanAcc plan)"
  shows "process rt (CloseSellPlan
      \<lparr>cl_user = \<lparr>key = plan_user plan, is_signer = True, is_writable = True\<rparr>,
       cl_sell_plan = \<lparr>key = k, is_signer = False, is_writable = True\<rparr>\<rparr>) now st = Inr (st(k := None))"
proof -
  have "find_pda rt ROUTER_ID (sell_plan_seeds (plan_user plan)) = (k, plan_bump plan)" and ne: "k \<noteq> plan_user plan"
    using wf_store_account [OF reachable_wf_store [OF assms(1,2)] assms(4)] by simp_all
  then have "create_pda rt ROUTER_ID (sell_plan_seeds (plan_user plan)) (plan_bump plan) = Some k"
    using assms(3) unfolding pda_derivation_def by (metis fst_conv snd_conv)
  then show ?thesis
    using assms(4) ne by (simp add: close_sell_plan_Inr check_close_sell_plan_Inr at_pda_with_bump_def)
qed

theorem owner_can_always_close_witness:
  "process demo_rt (CloseSellPlan
      \<lparr>cl_user = \<lparr>key = 100, is_signer = True, is_writable = True\<rparr>,
       cl_sell_plan = \<lparr>key = 2100, is_signer = False, is_writable = True\<rparr>\<rparr>) 1200 demo_store
     = Inr (demo_store(2100 := None))"
proof -
  have "demo_store 2100 = Some (SellPlanAcc demo_plan)" by (simp add: demo_store_def)
  from owner_can_always_close [OF demo_reachable demo_owner_writes_only demo_pda_derivation this, of 1200]
  show ?thesis by (simp add: demo_plan_def del: process.simps)
qed

end
